theory Spec2Isabelle
  imports Main
begin

section \<open>Python values that travel over the wire\<close>

text \<open>
  The program exchanges JSON documents with the Blender addon. A value is what
  \<^verbatim>\<open>json.loads\<close> produces and \<^verbatim>\<open>json.dumps\<close> accepts: \<^verbatim>\<open>None\<close>, a bool, an int, a float,
  a str, a list or a dict with str keys (in insertion order). The program never computes
  with floats, it only passes them on and prints them, so a float is represented by its
  \<^verbatim>\<open>repr\<close> text. Text is a HOL string; a character stands for the code point of the same
  number (0 to 255).
\<close>

datatype json =
    JNull
  | JBool bool
  | JInt int
  | JFloat string
  | JStr string
  | JArr "json list"
  | JObj "(string \<times> json) list"

text \<open>Exceptions: the class decides which \<^verbatim>\<open>except\<close> clause catches, the text is \<^verbatim>\<open>str(e)\<close>.\<close>

datatype exn_class =
    Exception
  | ValueError
  | TypeError
  | KeyError
  | IndexError
  | AttributeError
  | JSONDecodeError
  | UnicodeDecodeError
  | OSError
  | SocketTimeout
  | ConnectionError
  | BrokenPipeError
  | ConnectionResetError

datatype exn = Exn exn_class string

fun class_of :: "exn \<Rightarrow> exn_class" where
  "class_of (Exn c t) = c"

fun exn_str :: "exn \<Rightarrow> string" where
  "exn_str (Exn c t) = t"

text \<open>\<^verbatim>\<open>except (ConnectionError, BrokenPipeError, ConnectionResetError)\<close>\<close>

definition is_connection_error :: "exn_class \<Rightarrow> bool" where
  "is_connection_error c \<longleftrightarrow> c = ConnectionError \<or> c = BrokenPipeError \<or> c = ConnectionResetError"

definition and_then :: "exn + 'a \<Rightarrow> ('a \<Rightarrow> exn + 'b) \<Rightarrow> exn + 'b" where
  "and_then r f = (case r of Inl e \<Rightarrow> Inl e | Inr v \<Rightarrow> f v)"

subsection \<open>Printing: \<^verbatim>\<open>str\<close>, \<^verbatim>\<open>repr\<close>, \<^verbatim>\<open>json.dumps\<close>\<close>

definition sq :: string where
  "sq = [CHR 0x27]"

definition dq :: string where
  "dq = [CHR 0x22]"

definition bs :: string where
  "bs = [CHR 0x5C]"

fun join :: "string \<Rightarrow> string list \<Rightarrow> string" where
  "join sep [] = []"
| "join sep [x] = x"
| "join sep (x # y # ys) = x @ sep @ join sep (y # ys)"

definition digit :: "nat \<Rightarrow> char" where
  "digit n = ''0123456789abcdef'' ! n"

function string_of_nat :: "nat \<Rightarrow> string" where
  "string_of_nat n = (if n < 10 then [digit n] else string_of_nat (n div 10) @ [digit (n mod 10)])"
  by pat_completeness auto
termination
  by (relation "measure id") auto

declare string_of_nat.simps [simp del]

definition string_of_int :: "int \<Rightarrow> string" where
  "string_of_int i = (if i < 0 then ''-'' @ string_of_nat (nat (- i)) else string_of_nat (nat i))"

definition hex2 :: "nat \<Rightarrow> string" where
  "hex2 n = [digit (n div 16 mod 16), digit (n mod 16)]"

definition code_point :: "char \<Rightarrow> nat" where
  "code_point c = of_char c"

text \<open>\<^verbatim>\<open>str.isprintable\<close> on the code points 0 to 255.\<close>

definition printable :: "char \<Rightarrow> bool" where
  "printable c \<longleftrightarrow> (32 \<le> code_point c \<and> code_point c \<le> 126)
     \<or> (161 \<le> code_point c \<and> code_point c \<noteq> 173)"

text \<open>
  \<^verbatim>\<open>repr\<close> of a str: single quotes, unless the text has a single quote and no double quote.
\<close>

definition repr_quote :: "string \<Rightarrow> string" where
  "repr_quote s = (if CHR 0x27 \<in> set s \<and> CHR 0x22 \<notin> set s then dq else sq)"

definition repr_char :: "string \<Rightarrow> char \<Rightarrow> string" where
  "repr_char q c =
     (if [c] = q \<or> [c] = bs then bs @ [c]
      else if code_point c = 9 then bs @ ''t''
      else if code_point c = 10 then bs @ ''n''
      else if code_point c = 13 then bs @ ''r''
      else if printable c then [c]
      else bs @ ''x'' @ hex2 (code_point c))"

definition repr_str :: "string \<Rightarrow> string" where
  "repr_str s = repr_quote s @ concat (map (repr_char (repr_quote s)) s) @ repr_quote s"

fun py_repr :: "json \<Rightarrow> string" where
  "py_repr JNull = ''None''"
| "py_repr (JBool b) = (if b then ''True'' else ''False'')"
| "py_repr (JInt i) = string_of_int i"
| "py_repr (JFloat t) = t"
| "py_repr (JStr s) = repr_str s"
| "py_repr (JArr xs) = ''['' @ join '', '' (map py_repr xs) @ '']''"
| "py_repr (JObj kvs) =
     ''{'' @ join '', '' (map (\<lambda>(k, v). repr_str k @ '': '' @ py_repr v) kvs) @ ''}''"

text \<open>\<^verbatim>\<open>str(v)\<close>, also what an f-string field \<^verbatim>\<open>{v}\<close> prints.\<close>

definition py_str :: "json \<Rightarrow> string" where
  "py_str v = (case v of JStr s \<Rightarrow> s | _ \<Rightarrow> py_repr v)"

text \<open>
  \<^verbatim>\<open>json.dumps\<close> with its defaults (\<^verbatim>\<open>ensure_ascii=True\<close>, separators \<^verbatim>\<open>', '\<close> and \<^verbatim>\<open>': '\<close>).
\<close>

definition dumps_char :: "char \<Rightarrow> string" where
  "dumps_char c =
     (if [c] = dq \<or> [c] = bs then bs @ [c]
      else if code_point c = 10 then bs @ ''n''
      else if code_point c = 13 then bs @ ''r''
      else if code_point c = 9 then bs @ ''t''
      else if code_point c = 8 then bs @ ''b''
      else if code_point c = 12 then bs @ ''f''
      else if 32 \<le> code_point c \<and> code_point c \<le> 126 then [c]
      else bs @ ''u00'' @ hex2 (code_point c))"

definition dumps_str :: "string \<Rightarrow> string" where
  "dumps_str s = dq @ concat (map dumps_char s) @ dq"

definition dumps_float :: "string \<Rightarrow> string" where
  "dumps_float t =
     (if t = ''nan'' then ''NaN'' else if t = ''inf'' then ''Infinity''
      else if t = ''-inf'' then ''-Infinity'' else t)"

fun dumps :: "json \<Rightarrow> string" where
  "dumps JNull = ''null''"
| "dumps (JBool b) = (if b then ''true'' else ''false'')"
| "dumps (JInt i) = string_of_int i"
| "dumps (JFloat t) = dumps_float t"
| "dumps (JStr s) = dumps_str s"
| "dumps (JArr xs) = ''['' @ join '', '' (map dumps xs) @ '']''"
| "dumps (JObj kvs) =
     ''{'' @ join '', '' (map (\<lambda>(k, v). dumps_str k @ '': '' @ dumps v) kvs) @ ''}''"

text \<open>\<^verbatim>\<open>json.dumps(v, indent=2)\<close>: the first argument is the nesting level.\<close>

definition newline_indent :: "nat \<Rightarrow> string" where
  "newline_indent level = CHR 0x0A # replicate (2 * level) CHR '' ''"

fun dumps_indent :: "nat \<Rightarrow> json \<Rightarrow> string" where
  "dumps_indent level (JArr xs) =
     (if xs = [] then ''[]''
      else ''['' @ newline_indent (Suc level)
        @ join ('','' @ newline_indent (Suc level)) (map (dumps_indent (Suc level)) xs)
        @ newline_indent level @ '']'')"
| "dumps_indent level (JObj kvs) =
     (if kvs = [] then ''{}''
      else ''{'' @ newline_indent (Suc level)
        @ join ('','' @ newline_indent (Suc level))
            (map (\<lambda>(k, v). dumps_str k @ '': '' @ dumps_indent (Suc level) v) kvs)
        @ newline_indent level @ ''}'')"
| "dumps_indent level v = dumps v"

subsection \<open>Operations of the interpreter on these values\<close>

definition type_name :: "json \<Rightarrow> string" where
  "type_name v = (case v of JNull \<Rightarrow> ''NoneType'' | JBool _ \<Rightarrow> ''bool'' | JInt _ \<Rightarrow> ''int''
     | JFloat _ \<Rightarrow> ''float'' | JStr _ \<Rightarrow> ''str'' | JArr _ \<Rightarrow> ''list'' | JObj _ \<Rightarrow> ''dict'')"

text \<open>Truth value of a value in \<^verbatim>\<open>if v:\<close>.\<close>

definition py_truthy :: "json \<Rightarrow> bool" where
  "py_truthy v = (case v of JNull \<Rightarrow> False | JBool b \<Rightarrow> b | JInt i \<Rightarrow> i \<noteq> 0
     | JFloat t \<Rightarrow> t \<noteq> ''0.0'' \<and> t \<noteq> ''-0.0'' | JStr s \<Rightarrow> s \<noteq> [] | JArr xs \<Rightarrow> xs \<noteq> []
     | JObj kvs \<Rightarrow> kvs \<noteq> [])"

text \<open>\<^verbatim>\<open>d.get(k, default)\<close> and \<^verbatim>\<open>d[k] = v\<close> on a dict.\<close>

definition dict_get :: "(string \<times> json) list \<Rightarrow> string \<Rightarrow> json \<Rightarrow> json" where
  "dict_get kvs k d = (case map_of kvs k of Some v \<Rightarrow> v | None \<Rightarrow> d)"

fun dict_set :: "(string \<times> json) list \<Rightarrow> string \<Rightarrow> json \<Rightarrow> (string \<times> json) list" where
  "dict_set [] k v = [(k, v)]"
| "dict_set ((k', v') # kvs) k v = (if k' = k then (k, v) # kvs else (k', v') # dict_set kvs k v)"

definition attribute_error :: "json \<Rightarrow> string \<Rightarrow> exn" where
  "attribute_error v a =
     Exn AttributeError (sq @ type_name v @ sq @ '' object has no attribute '' @ sq @ a @ sq)"

text \<open>\<^verbatim>\<open>v.get(k, default)\<close> on any value: only a dict has the method.\<close>

definition py_get :: "json \<Rightarrow> string \<Rightarrow> json \<Rightarrow> exn + json" where
  "py_get v k d = (case v of JObj kvs \<Rightarrow> Inr (dict_get kvs k d) | _ \<Rightarrow> Inl (attribute_error v ''get''))"

text \<open>\<^verbatim>\<open>v[k]\<close> with a str key.\<close>

definition py_getitem :: "json \<Rightarrow> string \<Rightarrow> exn + json" where
  "py_getitem v k = (case v of
       JObj kvs \<Rightarrow> (case map_of kvs k of Some x \<Rightarrow> Inr x | None \<Rightarrow> Inl (Exn KeyError (repr_str k)))
     | JArr _ \<Rightarrow> Inl (Exn TypeError ''list indices must be integers or slices, not str'')
     | JStr _ \<Rightarrow>
         Inl (Exn TypeError (''string indices must be integers, not '' @ sq @ ''str'' @ sq))
     | _ \<Rightarrow> Inl (Exn TypeError (sq @ type_name v @ sq @ '' object is not subscriptable'')))"

fun is_prefix :: "string \<Rightarrow> string \<Rightarrow> bool" where
  "is_prefix [] ys = True"
| "is_prefix (x # xs) [] = False"
| "is_prefix (x # xs) (y # ys) = (x = y \<and> is_prefix xs ys)"

fun is_substring :: "string \<Rightarrow> string \<Rightarrow> bool" where
  "is_substring xs [] = (xs = [])"
| "is_substring xs (y # ys) = (is_prefix xs (y # ys) \<or> is_substring xs ys)"

text \<open>\<^verbatim>\<open>k in v\<close> with a str on the left.\<close>

definition py_contains :: "string \<Rightarrow> json \<Rightarrow> exn + bool" where
  "py_contains k v = (case v of
       JObj kvs \<Rightarrow> Inr (k \<in> set (map fst kvs))
     | JArr xs \<Rightarrow> Inr (JStr k \<in> set xs)
     | JStr s \<Rightarrow> Inr (is_substring k s)
     | _ \<Rightarrow> Inl (Exn TypeError (''argument of type '' @ sq @ type_name v @ sq @ '' is not iterable'')))"

text \<open>The items a \<^verbatim>\<open>for\<close> loop or a generator sees.\<close>

definition py_iter :: "json \<Rightarrow> exn + json list" where
  "py_iter v = (case v of
       JArr xs \<Rightarrow> Inr xs
     | JStr s \<Rightarrow> Inr (map (\<lambda>c. JStr [c]) s)
     | JObj kvs \<Rightarrow> Inr (map (\<lambda>kv. JStr (fst kv)) kvs)
     | _ \<Rightarrow> Inl (Exn TypeError (sq @ type_name v @ sq @ '' object is not iterable'')))"

definition py_len :: "json \<Rightarrow> exn + nat" where
  "py_len v = (case v of
       JArr xs \<Rightarrow> Inr (length xs)
     | JStr s \<Rightarrow> Inr (length s)
     | JObj kvs \<Rightarrow> Inr (length kvs)
     | _ \<Rightarrow> Inl (Exn TypeError (''object of type '' @ sq @ type_name v @ sq @ '' has no len()'')))"

text \<open>\<^verbatim>\<open>sep.join(v)\<close>: every item must be a str.\<close>

fun join_items :: "nat \<Rightarrow> json list \<Rightarrow> exn + string list" where
  "join_items i [] = Inr []"
| "join_items i (x # xs) = (case x of
       JStr s \<Rightarrow> and_then (join_items (Suc i) xs) (\<lambda>rest. Inr (s # rest))
     | _ \<Rightarrow> Inl (Exn TypeError (''sequence item '' @ string_of_nat i @ '': expected str instance, ''
              @ type_name x @ '' found'')))"

definition py_join :: "string \<Rightarrow> json \<Rightarrow> exn + string" where
  "py_join sep v = (case py_iter v of
       Inl e \<Rightarrow> Inl (Exn TypeError ''can only join an iterable'')
     | Inr items \<Rightarrow> and_then (join_items 0 items) (\<lambda>parts. Inr (join sep parts)))"

text \<open>
  \<^verbatim>\<open>xs[i]\<close> on a list of strings, the index being any value. An int that does not fit the
  index type of the interpreter (64 bits, signed) is refused before the list is looked at.
\<close>

definition py_index :: "string list \<Rightarrow> json \<Rightarrow> exn + string" where
  "py_index xs i =
     (let at = (\<lambda>n. if n < - (2 ^ 63) \<or> 2 ^ 63 \<le> n
                     then Inl (Exn IndexError
                            (''cannot fit '' @ sq @ ''int'' @ sq @ '' into an index-sized integer''))
                     else if - int (length xs) \<le> n \<and> n < int (length xs)
                     then Inr (xs ! nat (if n < 0 then int (length xs) + n else n))
                     else Inl (Exn IndexError ''list index out of range''))
      in case i of
           JInt n \<Rightarrow> at n
         | JBool b \<Rightarrow> at (if b then 1 else 0)
         | _ \<Rightarrow> Inl (Exn TypeError (''list indices must be integers or slices, not '' @ type_name i)))"

section \<open>The socket and the world behind it\<close>

text \<open>
  What the operating system and the addon answer is an input of the model: the world holds,
  for each kind of socket call, the outcomes of the calls still to come, in order. A socket
  call raises \<^verbatim>\<open>socket.timeout\<close>, an error of the \<^verbatim>\<open>ConnectionError\<close> family or another
  \<^verbatim>\<open>OSError\<close>. When a script is used up, \<^verbatim>\<open>connect\<close> is refused, \<^verbatim>\<open>sendall\<close> succeeds and
  \<^verbatim>\<open>recv\<close> times out (nothing more arrives): the peer sends finitely many chunks, an endless
  stream of chunks that never parse, on which the receive loop would not end, is left out.
  The trace records what the program did.
  \<^verbatim>\<open>settimeout(15.0)\<close> only fixes when \<^verbatim>\<open>recv\<close> times out and logging has no effect on the
  program: neither is recorded.
\<close>

datatype sock_fault =
    Timeout
  | Connection exn_class string
  | OtherOSError string

fun fault_exn :: "sock_fault \<Rightarrow> exn" where
  "fault_exn Timeout = Exn SocketTimeout ''timed out''"
| "fault_exn (Connection k t) =
     Exn (if k = BrokenPipeError \<or> k = ConnectionResetError then k else ConnectionError) t"
| "fault_exn (OtherOSError t) = Exn OSError t"

datatype recv_outcome = Data string | Fault sock_fault

datatype io_event =
    Connect string nat
  | SendAll string
  | Sleep nat

record world =
  connect_script :: "bool list"
  send_script :: "sock_fault option list"
  recv_script :: "recv_outcome list"
  sockets_made :: nat
  trace :: "io_event list"

record BlenderConnection =
  host :: string
  port :: nat
  socket :: "nat option"

text \<open>\<^verbatim>\<open>BlenderConnection.__init__\<close>\<close>

definition init :: "string \<Rightarrow> nat \<Rightarrow> BlenderConnection" where
  "init h p = \<lparr>host = h, port = p, socket = None\<rparr>"

text \<open>
  \<^verbatim>\<open>BlenderConnection.connect\<close>: creating and connecting the socket is one scripted step; any
  exception there is caught and gives \<^verbatim>\<open>False\<close>.
\<close>

definition connect :: "BlenderConnection \<Rightarrow> world \<Rightarrow> bool \<times> BlenderConnection \<times> world" where
  "connect c w =
     (if socket c \<noteq> None then (True, c, w)
      else (case connect_script w of
              [] \<Rightarrow> (False, c\<lparr>socket := None\<rparr>, w\<lparr>trace := trace w @ [Connect (host c) (port c)]\<rparr>)
            | ok # rest \<Rightarrow>
                if ok then
                  (True, c\<lparr>socket := Some (sockets_made w)\<rparr>,
                   w\<lparr>connect_script := rest, sockets_made := Suc (sockets_made w),
                     trace := trace w @ [Connect (host c) (port c)]\<rparr>)
                else
                  (False, c\<lparr>socket := None\<rparr>,
                   w\<lparr>connect_script := rest, trace := trace w @ [Connect (host c) (port c)]\<rparr>)))"

text \<open>\<^verbatim>\<open>BlenderConnection.disconnect\<close>: an exception of \<^verbatim>\<open>close\<close> is logged only.\<close>

definition disconnect :: "BlenderConnection \<Rightarrow> BlenderConnection" where
  "disconnect c = (if socket c \<noteq> None then c\<lparr>socket := None\<rparr> else c)"

text \<open>\<^verbatim>\<open>sock.sendall(data)\<close>\<close>

definition sock_sendall :: "string \<Rightarrow> world \<Rightarrow> sock_fault option \<times> world" where
  "sock_sendall data w =
     (case send_script w of
        [] \<Rightarrow> (None, w\<lparr>trace := trace w @ [SendAll data]\<rparr>)
      | r # rest \<Rightarrow> (r, w\<lparr>send_script := rest, trace := trace w @ [SendAll data]\<rparr>))"

subsection \<open>\<^verbatim>\<open>receive_full_response\<close>\<close>

text \<open>
  The first argument of the functions below, \<open>L\<close>, is \<^verbatim>\<open>json.loads(data.decode('utf-8'))\<close>,
  a function of the standard library: it gives the parsed value or raises
  (\<^verbatim>\<open>JSONDecodeError\<close>, \<^verbatim>\<open>UnicodeDecodeError\<close>). The theorems hold for every such function.

  The loop \<^verbatim>\<open>while True\<close> ends in one of three ways: \<^verbatim>\<open>return data\<close>, \<^verbatim>\<open>break\<close> (with the chunks
  so far) or an exception. The inner handlers catch \<^verbatim>\<open>JSONDecodeError\<close> (continue) and
  \<^verbatim>\<open>socket.timeout\<close> (break); everything else is raised again.
\<close>

datatype loop_exit = LoopReturn string | LoopBreak "string list" | LoopRaise exn

fun receive_loop ::
  "(string \<Rightarrow> exn + json) \<Rightarrow> string list \<Rightarrow> recv_outcome list \<Rightarrow> loop_exit \<times> recv_outcome list"
where
  "receive_loop L chunks [] = (LoopBreak chunks, [])"
| "receive_loop L chunks (Fault f # evs) =
     (if class_of (fault_exn f) = SocketTimeout then (LoopBreak chunks, evs)
      else (LoopRaise (fault_exn f), evs))"
| "receive_loop L chunks (Data chunk # evs) =
     (if chunk = [] then
        (if chunks = [] then
           (LoopRaise (Exn Exception ''Connection closed before receiving any data''), evs)
         else (LoopBreak chunks, evs))
      else (case L (concat (chunks @ [chunk])) of
              Inr v \<Rightarrow> (LoopReturn (concat (chunks @ [chunk])), evs)
            | Inl e \<Rightarrow>
                if class_of e = JSONDecodeError then receive_loop L (chunks @ [chunk]) evs
                else if class_of e = SocketTimeout then (LoopBreak (chunks @ [chunk]), evs)
                else (LoopRaise e, evs)))"

definition receive_full_response ::
  "(string \<Rightarrow> exn + json) \<Rightarrow> world \<Rightarrow> (exn + string) \<times> world"
where
  "receive_full_response L w =
     (case receive_loop L [] (recv_script w) of
        (LoopReturn data, rest) \<Rightarrow> (Inr data, w\<lparr>recv_script := rest\<rparr>)
      | (LoopRaise e, rest) \<Rightarrow> (Inl e, w\<lparr>recv_script := rest\<rparr>)
      | (LoopBreak chunks, rest) \<Rightarrow>
          (if chunks \<noteq> [] then
             (case L (concat chunks) of
                Inr v \<Rightarrow> Inr (concat chunks)
              | Inl e \<Rightarrow>
                  if class_of e = JSONDecodeError
                  then Inl (Exn Exception ''Incomplete JSON response received'')
                  else Inl e)
           else Inl (Exn Exception ''No data received''),
           w\<lparr>recv_script := rest\<rparr>))"

subsection \<open>\<^verbatim>\<open>send_command\<close>\<close>

definition command_doc :: "string \<Rightarrow> (string \<times> json) list option \<Rightarrow> json" where
  "command_doc command_type params =
     JObj [(''type'', JStr command_type),
           (''params'', JObj (case params of None \<Rightarrow> [] | Some kvs \<Rightarrow> kvs))]"

text \<open>The body of the \<^verbatim>\<open>try\<close> block of \<^verbatim>\<open>send_command\<close>.\<close>

definition exchange ::
  "(string \<Rightarrow> exn + json) \<Rightarrow> string \<Rightarrow> (string \<times> json) list option \<Rightarrow> world \<Rightarrow> (exn + json) \<times> world"
where
  "exchange L command_type params w =
     (case sock_sendall (dumps (command_doc command_type params)) w of
        (Some f, w1) \<Rightarrow> (Inl (fault_exn f), w1)
      | (None, w1) \<Rightarrow>
          (case receive_full_response L w1 of
             (Inl e, w2) \<Rightarrow> (Inl e, w2)
           | (Inr response_data, w2) \<Rightarrow>
               (case L response_data of
                  Inl e \<Rightarrow> (Inl e, w2)
                | Inr response \<Rightarrow>
                    (case response of
                       JObj kvs \<Rightarrow>
                         if dict_get kvs ''status'' JNull = JStr ''error'' then
                           (Inl (Exn Exception
                              (py_str (dict_get kvs ''message'' (JStr ''Unknown error from Blender'')))),
                            w2)
                         else (Inr (dict_get kvs ''result'' (JObj [])), w2)
                     | _ \<Rightarrow> (Inl (attribute_error response ''get''), w2)))))"

definition send_command ::
  "(string \<Rightarrow> exn + json) \<Rightarrow> string \<Rightarrow> (string \<times> json) list option \<Rightarrow> BlenderConnection \<Rightarrow> world
     \<Rightarrow> (exn + json) \<times> BlenderConnection \<times> world"
where
  "send_command L command_type params c w =
     (case (if socket c = None then connect c w else (True, c, w)) of
        (False, c1, w1) \<Rightarrow> (Inl (Exn ConnectionError ''Not connected to Blender''), c1, w1)
      | (True, c1, w1) \<Rightarrow>
          (case exchange L command_type params w1 of
             (Inr result, w2) \<Rightarrow> (Inr result, c1, w2)
           | (Inl e, w2) \<Rightarrow>
               if class_of e = SocketTimeout then
                 (Inl (Exn Exception
                    ''Timeout waiting for Blender response - try simplifying your request''),
                  c1\<lparr>socket := None\<rparr>, w2)
               else if is_connection_error (class_of e) then
                 (Inl (Exn Exception (''Connection to Blender lost: '' @ exn_str e)),
                  c1\<lparr>socket := None\<rparr>, w2)
               else if class_of e = JSONDecodeError then
                 (Inl (Exn Exception (''Invalid response from Blender: '' @ exn_str e)), c1, w2)
               else
                 (Inl (Exn Exception (''Communication error with Blender: '' @ exn_str e)),
                  c1\<lparr>socket := None\<rparr>, w2)))"

text \<open>
  The status checks of the connection catch every exception of \<^verbatim>\<open>send_command\<close>.
\<close>

definition get_polyhaven_status ::
  "(string \<Rightarrow> exn + json) \<Rightarrow> BlenderConnection \<Rightarrow> world \<Rightarrow> (exn + json) \<times> BlenderConnection \<times> world"
where
  "get_polyhaven_status L c w =
     (case send_command L ''get_polyhaven_status'' None c w of
        (Inr result, c', w') \<Rightarrow> (Inr result, c', w')
      | (Inl e, c', w') \<Rightarrow>
          (Inr (JObj [(''enabled'', JBool False), (''message'', JStr (exn_str e))]), c', w'))"

definition get_hyper3d_status ::
  "(string \<Rightarrow> exn + json) \<Rightarrow> BlenderConnection \<Rightarrow> world \<Rightarrow> (exn + json) \<times> BlenderConnection \<times> world"
where
  "get_hyper3d_status L c w =
     (case send_command L ''get_hyper3d_status'' None c w of
        (Inr result, c', w') \<Rightarrow> (Inr result, c', w')
      | (Inl e, c', w') \<Rightarrow>
          (Inr (JObj [(''enabled'', JBool False), (''message'', JStr (exn_str e))]), c', w'))"

section \<open>The tools\<close>

text \<open>
  The tools share one connection object through the module's global variable. A tool's
  arguments are Python values (\<open>JNull\<close> is \<^verbatim>\<open>None\<close>); its result is the returned value or
  the exception that leaves it. A tool is its function, called with its arguments by
  position or by keyword. The object the \<^verbatim>\<open>@tool\<close> decorator of the agent framework puts
  around it has one more way to be called, with a single dict of argument names, which it
  unpacks into keyword arguments before it calls the function: that belongs to the
  framework and is not modelled.
\<close>

record state =
  blender_connection :: "BlenderConnection option"
  env :: world

definition set_blender_connection :: "BlenderConnection \<Rightarrow> state \<Rightarrow> state" where
  "set_blender_connection connection st = st\<lparr>blender_connection := Some connection\<rparr>"

definition get_blender_connection :: "state \<Rightarrow> exn + BlenderConnection" where
  "get_blender_connection st =
     (case blender_connection st of
        None \<Rightarrow> Inl (Exn ValueError ''Blender connection not initialized'')
      | Some c \<Rightarrow> Inr c)"

text \<open>
  Every tool starts with \<^verbatim>\<open>blender = get_blender_connection()\<close> and then works on that
  object; what it does to the object is seen through the global variable.
\<close>

definition with_blender ::
  "(BlenderConnection \<Rightarrow> world \<Rightarrow> (exn + json) \<times> BlenderConnection \<times> world) \<Rightarrow> state
     \<Rightarrow> (exn + json) \<times> state"
where
  "with_blender body st =
     (case get_blender_connection st of
        Inl e \<Rightarrow> (Inl e, st)
      | Inr blender \<Rightarrow>
          (case body blender (env st) of
             (r, c, w) \<Rightarrow> (r, \<lparr>blender_connection = Some c, env = w\<rparr>)))"

text \<open>A remote call followed by code that only looks at its result.\<close>

definition then_format ::
  "(exn + json) \<times> BlenderConnection \<times> world \<Rightarrow> (json \<Rightarrow> exn + json)
     \<Rightarrow> (exn + json) \<times> BlenderConnection \<times> world"
where
  "then_format called f = (case called of (r, c, w) \<Rightarrow> (and_then r f, c, w))"

definition nl :: string where
  "nl = [CHR 0x0A]"

subsection \<open>Basic tools\<close>

definition get_scene_info :: "(string \<Rightarrow> exn + json) \<Rightarrow> state \<Rightarrow> (exn + json) \<times> state" where
  "get_scene_info L = with_blender (\<lambda>blender w.
     then_format (send_command L ''get_scene_info'' None blender w)
       (\<lambda>result. Inr (JStr (dumps_indent 0 result))))"

definition get_object_info ::
  "(string \<Rightarrow> exn + json) \<Rightarrow> json \<Rightarrow> state \<Rightarrow> (exn + json) \<times> state"
where
  "get_object_info L name = with_blender (\<lambda>blender w.
     then_format (send_command L ''get_object_info'' (Some [(''name'', name)]) blender w)
       (\<lambda>result. Inr (JStr (dumps_indent 0 result))))"

definition create_object_params :: "json \<Rightarrow> json \<Rightarrow> json \<Rightarrow> json \<Rightarrow> json \<Rightarrow> (string \<times> json) list" where
  "create_object_params type name location rotation scale =
     (let params = [(''type'', type)];
          params = (if py_truthy name then dict_set params ''name'' name else params);
          params = (if py_truthy location then dict_set params ''location'' location else params);
          params = (if py_truthy rotation then dict_set params ''rotation'' rotation else params);
          params = (if py_truthy scale then dict_set params ''scale'' scale else params)
      in params)"

definition create_object ::
  "(string \<Rightarrow> exn + json) \<Rightarrow> json \<Rightarrow> json \<Rightarrow> json \<Rightarrow> json \<Rightarrow> json \<Rightarrow> state \<Rightarrow> (exn + json) \<times> state"
where
  "create_object L type name location rotation scale = with_blender (\<lambda>blender w.
     then_format
       (send_command L ''create_object''
          (Some (create_object_params type name location rotation scale)) blender w)
       (\<lambda>result. and_then (py_getitem result ''name'')
          (\<lambda>n. Inr (JStr (''Created '' @ py_str type @ '' object: '' @ py_str n)))))"

definition modify_object_params :: "json \<Rightarrow> json \<Rightarrow> json \<Rightarrow> json \<Rightarrow> json \<Rightarrow> (string \<times> json) list" where
  "modify_object_params name location rotation scale visible =
     (let params = [(''name'', name)];
          params = (if location \<noteq> JNull then dict_set params ''location'' location else params);
          params = (if rotation \<noteq> JNull then dict_set params ''rotation'' rotation else params);
          params = (if scale \<noteq> JNull then dict_set params ''scale'' scale else params);
          params = (if visible \<noteq> JNull then dict_set params ''visible'' visible else params)
      in params)"

definition modify_object ::
  "(string \<Rightarrow> exn + json) \<Rightarrow> json \<Rightarrow> json \<Rightarrow> json \<Rightarrow> json \<Rightarrow> json \<Rightarrow> state \<Rightarrow> (exn + json) \<times> state"
where
  "modify_object L name location rotation scale visible = with_blender (\<lambda>blender w.
     then_format
       (send_command L ''modify_object''
          (Some (modify_object_params name location rotation scale visible)) blender w)
       (\<lambda>result. and_then (py_getitem result ''name'')
          (\<lambda>n. Inr (JStr (''Modified object: '' @ py_str n)))))"

definition delete_object ::
  "(string \<Rightarrow> exn + json) \<Rightarrow> json \<Rightarrow> state \<Rightarrow> (exn + json) \<times> state"
where
  "delete_object L name = with_blender (\<lambda>blender w.
     then_format (send_command L ''delete_object'' (Some [(''name'', name)]) blender w)
       (\<lambda>result. Inr (JStr (''Deleted object: '' @ py_str name))))"

definition set_material_params :: "json \<Rightarrow> json \<Rightarrow> json \<Rightarrow> (string \<times> json) list" where
  "set_material_params object_name material_name color =
     (let params = [(''object_name'', object_name)];
          params = (if py_truthy material_name
                    then dict_set params ''material_name'' material_name else params);
          params = (if py_truthy color then dict_set params ''color'' color else params)
      in params)"

definition set_material ::
  "(string \<Rightarrow> exn + json) \<Rightarrow> json \<Rightarrow> json \<Rightarrow> json \<Rightarrow> state \<Rightarrow> (exn + json) \<times> state"
where
  "set_material L object_name material_name color = with_blender (\<lambda>blender w.
     then_format
       (send_command L ''set_material''
          (Some (set_material_params object_name material_name color)) blender w)
       (\<lambda>result. Inr (JStr (''Applied material to '' @ py_str object_name))))"

definition execute_blender_code ::
  "(string \<Rightarrow> exn + json) \<Rightarrow> json \<Rightarrow> state \<Rightarrow> (exn + json) \<times> state"
where
  "execute_blender_code L code = with_blender (\<lambda>blender w.
     then_format (send_command L ''execute_code'' (Some [(''code'', code)]) blender w)
       (\<lambda>result. Inr (JStr ''Code executed successfully'')))"

definition import_model_params :: "json \<Rightarrow> json \<Rightarrow> (string \<times> json) list" where
  "import_model_params file_path name =
     (let params = [(''file_path'', file_path)]
      in if py_truthy name then dict_set params ''name'' name else params)"

definition import_model_result :: "json \<Rightarrow> json \<Rightarrow> exn + json" where
  "import_model_result file_path result =
     and_then (py_contains ''error'' result) (\<lambda>has_error.
       if has_error then
         and_then (py_getitem result ''error'')
           (\<lambda>err. Inr (JStr (''Error importing model: '' @ py_str err)))
       else
         and_then (py_get result ''main_object'' (JObj [])) (\<lambda>main_object.
         and_then (py_get main_object ''name'' (JStr ''Unknown'')) (\<lambda>main_object_name.
         and_then (py_get result ''imported_objects'' (JArr [])) (\<lambda>imported_objects.
         and_then (py_len imported_objects) (\<lambda>total_objects.
           Inr (JStr (''Successfully imported '' @ py_str file_path @ ''. Main object: '' @ sq
                  @ py_str main_object_name @ sq @ ''. Total objects imported: ''
                  @ string_of_nat total_objects @ ''.'')))))))"

definition import_model ::
  "(string \<Rightarrow> exn + json) \<Rightarrow> json \<Rightarrow> json \<Rightarrow> state \<Rightarrow> (exn + json) \<times> state"
where
  "import_model L file_path name = with_blender (\<lambda>blender w.
     then_format
       (send_command L ''import_model'' (Some (import_model_params file_path name)) blender w)
       (import_model_result file_path))"

subsection \<open>PolyHaven tools\<close>

text \<open>
  The optional tools first ask the connection for the integration's status, and return its
  message when it is not enabled:
  \<^verbatim>\<open>if not status.get("enabled", False): return status.get("message", default)\<close>.
\<close>

definition status_gate ::
  "(exn + json) \<times> BlenderConnection \<times> world \<Rightarrow> string
     \<Rightarrow> (BlenderConnection \<Rightarrow> world \<Rightarrow> (exn + json) \<times> BlenderConnection \<times> world)
     \<Rightarrow> (exn + json) \<times> BlenderConnection \<times> world"
where
  "status_gate checked default_message continue =
     (case checked of
        (Inl e, c1, w1) \<Rightarrow> (Inl e, c1, w1)
      | (Inr status, c1, w1) \<Rightarrow>
          (case py_get status ''enabled'' (JBool False) of
             Inl e \<Rightarrow> (Inl e, c1, w1)
           | Inr enabled \<Rightarrow>
               if \<not> py_truthy enabled then (py_get status ''message'' (JStr default_message), c1, w1)
               else continue c1 w1))"

definition polyhaven_disabled :: string where
  "polyhaven_disabled = ''PolyHaven integration is not enabled in Blender.''"

definition hyper3d_disabled :: string where
  "hyper3d_disabled = ''Hyper3D Rodin integration is not enabled in Blender.''"

definition tool_get_polyhaven_status ::
  "(string \<Rightarrow> exn + json) \<Rightarrow> state \<Rightarrow> (exn + json) \<times> state"
where
  "tool_get_polyhaven_status L = with_blender (\<lambda>blender w.
     then_format (get_polyhaven_status L blender w)
       (\<lambda>result. and_then (py_get result ''enabled'' (JBool False))
          (\<lambda>enabled. py_get result ''message'' (JStr []))))"

text \<open>
  \<^verbatim>\<open>sorted(d.items(), key=f, reverse=True)\<close>: the keys of all items are computed first (the
  first exception of \<^verbatim>\<open>f\<close> is raised), then the built-in sorts the items by their keys. The
  built-in is the argument \<open>S\<close>: it gets the items with their keys and gives the items in
  order, or raises when two keys cannot be compared.
\<close>

fun sort_keys :: "((string \<times> json) \<Rightarrow> exn + json) \<Rightarrow> (string \<times> json) list
    \<Rightarrow> exn + (json \<times> string \<times> json) list" where
  "sort_keys f [] = Inr []"
| "sort_keys f (x # xs) =
     and_then (f x) (\<lambda>k. and_then (sort_keys f xs) (\<lambda>rest. Inr ((k, x) # rest)))"

definition py_items :: "json \<Rightarrow> exn + (string \<times> json) list" where
  "py_items v = (case v of JObj kvs \<Rightarrow> Inr kvs | _ \<Rightarrow> Inl (attribute_error v ''items''))"

definition sorted_items ::
  "((json \<times> string \<times> json) list \<Rightarrow> exn + (string \<times> json) list)
     \<Rightarrow> ((string \<times> json) \<Rightarrow> exn + json) \<Rightarrow> json \<Rightarrow> exn + (string \<times> json) list"
where
  "sorted_items S f v =
     and_then (py_items v) (\<lambda>items. and_then (sort_keys f items) S)"

definition categories_result ::
  "((json \<times> string \<times> json) list \<Rightarrow> exn + (string \<times> json) list) \<Rightarrow> json \<Rightarrow> json \<Rightarrow> exn + json"
where
  "categories_result S asset_type result =
     and_then (py_contains ''error'' result) (\<lambda>has_error.
       if has_error then
         and_then (py_getitem result ''error'') (\<lambda>err. Inr (JStr (''Error: '' @ py_str err)))
       else
         and_then (py_get result ''categories'' (JObj [])) (\<lambda>categories.
         and_then (sorted_items S (\<lambda>x. Inr (snd x)) categories) (\<lambda>sorted_categories.
           Inr (JStr (''Categories for '' @ py_str asset_type @ '':'' @ nl @ nl
                  @ concat (map (\<lambda>(category, count).
                        ''- '' @ category @ '': '' @ py_str count @ '' assets'' @ nl)
                      sorted_categories))))))"

definition get_polyhaven_categories ::
  "(string \<Rightarrow> exn + json) \<Rightarrow> ((json \<times> string \<times> json) list \<Rightarrow> exn + (string \<times> json) list)
     \<Rightarrow> json \<Rightarrow> state \<Rightarrow> (exn + json) \<times> state"
where
  "get_polyhaven_categories L S asset_type = with_blender (\<lambda>blender w.
     status_gate (get_polyhaven_status L blender w) polyhaven_disabled (\<lambda>c1 w1.
       then_format
         (send_command L ''get_polyhaven_categories'' (Some [(''asset_type'', asset_type)]) c1 w1)
         (categories_result S asset_type)))"

definition asset_lines :: "string \<times> json \<Rightarrow> exn + string" where
  "asset_lines item = (case item of (asset_id, asset_data) \<Rightarrow>
     and_then (py_get asset_data ''name'' (JStr asset_id)) (\<lambda>name.
     and_then (py_get asset_data ''type'' (JInt 0)) (\<lambda>type.
     and_then (py_index [''HDRI'', ''Texture'', ''Model''] type) (\<lambda>type_text.
     and_then (py_get asset_data ''categories'' (JArr [])) (\<lambda>categories.
     and_then (py_join '', '' categories) (\<lambda>categories_text.
     and_then (py_get asset_data ''download_count'' (JStr ''Unknown'')) (\<lambda>downloads.
       Inr (''- '' @ py_str name @ '' (ID: '' @ asset_id @ '')'' @ nl
            @ ''  Type: '' @ type_text @ nl
            @ ''  Categories: '' @ categories_text @ nl
            @ ''  Downloads: '' @ py_str downloads @ nl @ nl))))))))"

fun format_assets :: "string \<Rightarrow> (string \<times> json) list \<Rightarrow> exn + string" where
  "format_assets formatted_output [] = Inr formatted_output"
| "format_assets formatted_output (item # items) =
     and_then (asset_lines item) (\<lambda>lines. format_assets (formatted_output @ lines) items)"

definition search_result ::
  "((json \<times> string \<times> json) list \<Rightarrow> exn + (string \<times> json) list) \<Rightarrow> json \<Rightarrow> json \<Rightarrow> exn + json"
where
  "search_result S categories result =
     and_then (py_contains ''error'' result) (\<lambda>has_error.
       if has_error then
         and_then (py_getitem result ''error'') (\<lambda>err. Inr (JStr (''Error: '' @ py_str err)))
       else
         and_then (py_get result ''assets'' (JObj [])) (\<lambda>assets.
         and_then (py_get result ''total_count'' (JInt 0)) (\<lambda>total_count.
         and_then (py_get result ''returned_count'' (JInt 0)) (\<lambda>returned_count.
         and_then (sorted_items S (\<lambda>x. py_get (snd x) ''download_count'' (JInt 0)) assets)
           (\<lambda>sorted_assets.
         and_then
           (format_assets
              (''Found '' @ py_str total_count @ '' assets''
               @ (if py_truthy categories then '' in categories: '' @ py_str categories else [])
               @ nl @ ''Showing '' @ py_str returned_count @ '' assets:'' @ nl @ nl)
              sorted_assets)
           (\<lambda>formatted_output. Inr (JStr formatted_output)))))))"

definition search_params :: "json \<Rightarrow> json \<Rightarrow> (string \<times> json) list" where
  "search_params asset_type categories =
     (let params = [(''asset_type'', asset_type)]
      in if py_truthy categories then dict_set params ''categories'' categories else params)"

definition search_polyhaven_assets ::
  "(string \<Rightarrow> exn + json) \<Rightarrow> ((json \<times> string \<times> json) list \<Rightarrow> exn + (string \<times> json) list)
     \<Rightarrow> json \<Rightarrow> json \<Rightarrow> state \<Rightarrow> (exn + json) \<times> state"
where
  "search_polyhaven_assets L S asset_type categories = with_blender (\<lambda>blender w.
     status_gate (get_polyhaven_status L blender w) polyhaven_disabled (\<lambda>c1 w1.
       then_format
         (send_command L ''search_polyhaven_assets''
            (Some (search_params asset_type categories)) c1 w1)
         (search_result S categories)))"

definition download_params :: "json \<Rightarrow> json \<Rightarrow> json \<Rightarrow> json \<Rightarrow> (string \<times> json) list" where
  "download_params asset_id asset_type resolution file_format =
     (let params = [(''asset_id'', asset_id), (''asset_type'', asset_type),
                    (''resolution'', resolution)]
      in if py_truthy file_format then dict_set params ''file_format'' file_format else params)"

definition download_result :: "json \<Rightarrow> json \<Rightarrow> exn + json" where
  "download_result asset_type result =
     and_then (py_contains ''error'' result) (\<lambda>has_error.
       if has_error then
         and_then (py_getitem result ''error'') (\<lambda>err. Inr (JStr (''Error: '' @ py_str err)))
       else
         and_then (py_get result ''success'' JNull) (\<lambda>success.
           if py_truthy success then
             and_then (py_get result ''message''
                         (JStr ''Asset downloaded and imported successfully'')) (\<lambda>message.
               if asset_type = JStr ''hdris'' then
                 Inr (JStr (py_str message @ ''. The HDRI has been set as the world environment.''))
               else if asset_type = JStr ''textures'' then
                 and_then (py_get result ''material'' (JStr [])) (\<lambda>material_name.
                 and_then (py_get result ''maps'' (JArr [])) (\<lambda>maps_list.
                 and_then (py_join '', '' maps_list) (\<lambda>maps.
                   Inr (JStr (py_str message @ ''. Created material '' @ sq
                          @ py_str material_name @ sq @ '' with maps: '' @ maps @ ''.'')))))
               else if asset_type = JStr ''models'' then
                 and_then (py_get result ''imported_objects'' (JArr [])) (\<lambda>objects.
                 and_then (py_join '', '' objects) (\<lambda>imported_objects.
                   Inr (JStr (py_str message @ ''. Imported objects: '' @ imported_objects
                          @ ''.''))))
               else Inr message)
           else
             and_then (py_get result ''message'' (JStr ''Unknown error'')) (\<lambda>message.
               Inr (JStr (''Failed to download asset: '' @ py_str message)))))"

definition download_polyhaven_asset ::
  "(string \<Rightarrow> exn + json) \<Rightarrow> json \<Rightarrow> json \<Rightarrow> json \<Rightarrow> json \<Rightarrow> state \<Rightarrow> (exn + json) \<times> state"
where
  "download_polyhaven_asset L asset_id asset_type resolution file_format =
     with_blender (\<lambda>blender w.
       status_gate (get_polyhaven_status L blender w) polyhaven_disabled (\<lambda>c1 w1.
         then_format
           (send_command L ''download_polyhaven_asset''
              (Some (download_params asset_id asset_type resolution file_format)) c1 w1)
           (download_result asset_type)))"

definition texture_result :: "json \<Rightarrow> json \<Rightarrow> json \<Rightarrow> exn + json" where
  "texture_result object_name texture_id result =
     and_then (py_contains ''error'' result) (\<lambda>has_error.
       if has_error then
         and_then (py_getitem result ''error'') (\<lambda>err. Inr (JStr (''Error: '' @ py_str err)))
       else
         and_then (py_get result ''success'' JNull) (\<lambda>success.
           if py_truthy success then
             and_then (py_get result ''material'' (JStr [])) (\<lambda>material_name.
             and_then (py_get result ''maps'' (JArr [])) (\<lambda>maps_list.
             and_then (py_join '', '' maps_list) (\<lambda>maps.
               Inr (JStr (''Successfully applied texture '' @ sq @ py_str texture_id @ sq
                      @ '' to '' @ py_str object_name @ '' using material '' @ sq
                      @ py_str material_name @ sq @ '' with maps: '' @ maps @ ''.'')))))
           else
             and_then (py_get result ''message'' (JStr ''Unknown error'')) (\<lambda>message.
               Inr (JStr (''Failed to apply texture: '' @ py_str message)))))"

definition set_texture ::
  "(string \<Rightarrow> exn + json) \<Rightarrow> json \<Rightarrow> json \<Rightarrow> state \<Rightarrow> (exn + json) \<times> state"
where
  "set_texture L object_name texture_id = with_blender (\<lambda>blender w.
     status_gate (get_polyhaven_status L blender w) polyhaven_disabled (\<lambda>c1 w1.
       then_format
         (send_command L ''set_texture''
            (Some [(''object_name'', object_name), (''texture_id'', texture_id)]) c1 w1)
         (texture_result object_name texture_id)))"

subsection \<open>Hyper3D Rodin tools\<close>

definition tool_get_hyper3d_status ::
  "(string \<Rightarrow> exn + json) \<Rightarrow> state \<Rightarrow> (exn + json) \<times> state"
where
  "tool_get_hyper3d_status L = with_blender (\<lambda>blender w.
     then_format (get_hyper3d_status L blender w)
       (\<lambda>result. py_get result ''message'' (JStr [])))"

text \<open>
  What \<^verbatim>\<open>generate_3d_model_from_text\<close> reads from the answer to \<^verbatim>\<open>create_rodin_job\<close>:
  either it returns a text at once, or it goes on with
  \<^verbatim>\<open>(job_id, subscription_key, request_id)\<close>.
\<close>

definition job_ids :: "json \<Rightarrow> exn + (json + json \<times> json \<times> json)" where
  "job_ids job_result =
     and_then (py_contains ''error'' job_result) (\<lambda>has_error.
       if has_error then
         and_then (py_getitem job_result ''error'')
           (\<lambda>err. Inr (Inl (JStr (''Error creating generation job: '' @ py_str err))))
       else
         and_then (py_contains ''uuid'' job_result) (\<lambda>has_uuid.
           if has_uuid then
             and_then (py_getitem job_result ''uuid'') (\<lambda>job_id.
             and_then (py_get job_result ''jobs'' (JObj [])) (\<lambda>jobs.
             and_then (py_get jobs ''subscription_key'' JNull) (\<lambda>subscription_key.
               Inr (Inr (job_id, subscription_key, JNull)))))
           else
             and_then (py_contains ''request_id'' job_result) (\<lambda>has_request_id.
               if has_request_id then
                 and_then (py_getitem job_result ''request_id'')
                   (\<lambda>request_id. Inr (Inr (JNull, JNull, request_id)))
               else
                 Inr (Inl (JStr (''Error: Unexpected job result format: ''
                                  @ py_str job_result))))))"

definition poll_params :: "json \<Rightarrow> json \<Rightarrow> (string \<times> json) list" where
  "poll_params subscription_key request_id =
     (if py_truthy subscription_key then dict_set [] ''subscription_key'' subscription_key
      else if py_truthy request_id then dict_set [] ''request_id'' request_id
      else [])"

text \<open>
  One look at a poll answer: an exception, a text to return at once, or the value of
  \<^verbatim>\<open>is_complete\<close>.
\<close>

definition check_status :: "json \<Rightarrow> exn + (json + bool)" where
  "check_status status_result =
     and_then (py_contains ''status_list'' status_result) (\<lambda>has_list.
       if has_list then
         and_then (py_getitem status_result ''status_list'') (\<lambda>statuses.
         and_then (py_iter statuses) (\<lambda>items.
           if list_all (\<lambda>status. status = JStr ''Done'') items then Inr (Inr True)
           else if list_ex (\<lambda>status. status = JStr ''Failed'') items then
             Inr (Inl (JStr (''Error: Job failed with status: '' @ py_str statuses)))
           else Inr (Inr False)))
       else
         and_then (py_contains ''status'' status_result) (\<lambda>has_status.
           if has_status then
             and_then (py_getitem status_result ''status'') (\<lambda>status.
               if status = JStr ''COMPLETED'' then Inr (Inr True)
               else if status \<noteq> JStr ''IN_PROGRESS'' \<and> status \<noteq> JStr ''IN_QUEUE'' then
                 Inr (Inl (JStr (''Error: Job failed with status: '' @ py_str status)))
               else Inr (Inr False))
           else Inr (Inr False)))"

definition max_attempts :: nat where
  "max_attempts = 60"

text \<open>\<^verbatim>\<open>time.sleep(seconds)\<close>\<close>

definition sleep :: "nat \<Rightarrow> world \<Rightarrow> world" where
  "sleep seconds w = w\<lparr>trace := trace w @ [Sleep seconds]\<rparr>"

text \<open>
  The loop \<^verbatim>\<open>for attempt in range(max_attempts)\<close>, by the number of attempts left. It ends
  with the value of \<^verbatim>\<open>is_complete\<close>, with a text to return, or with an exception.
\<close>

datatype poll_exit = PollEnd bool | PollReturn json | PollRaise exn

fun poll_loop ::
  "(string \<Rightarrow> exn + json) \<Rightarrow> nat \<Rightarrow> json \<Rightarrow> json \<Rightarrow> BlenderConnection \<Rightarrow> world
     \<Rightarrow> poll_exit \<times> BlenderConnection \<times> world"
where
  "poll_loop L 0 subscription_key request_id c w = (PollEnd False, c, w)"
| "poll_loop L (Suc n) subscription_key request_id c w =
     (case send_command L ''poll_rodin_job_status''
             (Some (poll_params subscription_key request_id)) c w of
        (Inl e, c', w') \<Rightarrow> (PollRaise e, c', w')
      | (Inr status_result, c', w') \<Rightarrow>
          (case check_status status_result of
             Inl e \<Rightarrow> (PollRaise e, c', w')
           | Inr (Inl message) \<Rightarrow> (PollReturn message, c', w')
           | Inr (Inr is_complete) \<Rightarrow>
               if is_complete then (PollEnd True, c', w')
               else poll_loop L n subscription_key request_id c' (sleep 5 w')))"

definition import_params :: "json \<Rightarrow> json \<Rightarrow> json \<Rightarrow> (string \<times> json) list" where
  "import_params model_name job_id request_id =
     (let params = [(''name'', model_name)]
      in if py_truthy job_id then dict_set params ''task_uuid'' job_id
         else if py_truthy request_id then dict_set params ''request_id'' request_id
         else params)"

definition import_result_text :: "json \<Rightarrow> json \<Rightarrow> exn + json" where
  "import_result_text model_name import_result =
     and_then (py_get import_result ''succeed'' (JBool False)) (\<lambda>succeed.
       if \<not> py_truthy succeed then
         and_then (py_get import_result ''error'' (JStr ''Unknown error'')) (\<lambda>err.
           Inr (JStr (''Error importing generated model: '' @ py_str err)))
       else
         Inr (JStr (''Successfully generated and imported 3D model '' @ sq @ py_str model_name
                @ sq @ '' based on the text prompt.'')))"

text \<open>Steps 2 and 3 of \<^verbatim>\<open>generate_3d_model_from_text\<close>: poll, then import.\<close>

definition poll_and_import ::
  "(string \<Rightarrow> exn + json) \<Rightarrow> json \<Rightarrow> json \<Rightarrow> json \<Rightarrow> json \<Rightarrow> BlenderConnection \<Rightarrow> world
     \<Rightarrow> (exn + json) \<times> BlenderConnection \<times> world"
where
  "poll_and_import L model_name job_id subscription_key request_id c w =
     (case poll_loop L max_attempts subscription_key request_id c w of
        (PollRaise e, c', w') \<Rightarrow> (Inl e, c', w')
      | (PollReturn message, c', w') \<Rightarrow> (Inr message, c', w')
      | (PollEnd is_complete, c', w') \<Rightarrow>
          if \<not> is_complete then (Inr (JStr ''Error: Job timed out without completion''), c', w')
          else
            then_format
              (send_command L ''import_generated_asset''
                 (Some (import_params model_name job_id request_id)) c' w')
              (import_result_text model_name))"

definition generate_3d_model_from_text ::
  "(string \<Rightarrow> exn + json) \<Rightarrow> json \<Rightarrow> json \<Rightarrow> json \<Rightarrow> state \<Rightarrow> (exn + json) \<times> state"
where
  "generate_3d_model_from_text L text_prompt model_name bbox_condition =
     with_blender (\<lambda>blender w.
       status_gate (get_hyper3d_status L blender w) hyper3d_disabled (\<lambda>c1 w1.
         (case send_command L ''create_rodin_job''
                 (Some [(''text_prompt'', text_prompt), (''images'', JNull),
                        (''bbox_condition'', bbox_condition)]) c1 w1 of
            (Inl e, c2, w2) \<Rightarrow> (Inl e, c2, w2)
          | (Inr job_result, c2, w2) \<Rightarrow>
              (case job_ids job_result of
                 Inl e \<Rightarrow> (Inl e, c2, w2)
               | Inr (Inl message) \<Rightarrow> (Inr message, c2, w2)
               | Inr (Inr (job_id, subscription_key, request_id)) \<Rightarrow>
                   poll_and_import L model_name job_id subscription_key request_id c2 w2))))"

definition final_answer :: "json \<Rightarrow> json" where
  "final_answer answer = answer"

section \<open>Notions used to state the properties\<close>

text \<open>
  The chunks \<open>cs\<close> arrive after the chunks \<open>pre\<close>, none of them is empty, and after each
  of them the bytes received so far are still not a JSON document (\<^verbatim>\<open>JSONDecodeError\<close>).
\<close>

fun unparsed :: "(string \<Rightarrow> exn + json) \<Rightarrow> string list \<Rightarrow> string list \<Rightarrow> bool" where
  "unparsed L pre [] = True"
| "unparsed L pre (c # cs) =
     (c \<noteq> [] \<and> (case L (concat (pre @ [c])) of Inl e \<Rightarrow> class_of e = JSONDecodeError | Inr v \<Rightarrow> False)
      \<and> unparsed L (pre @ [c]) cs)"

text \<open>
  Nothing more arrives: the script is used up or \<^verbatim>\<open>recv\<close> times out, or the peer has closed
  the connection (\<^verbatim>\<open>recv\<close> gives no bytes).
\<close>

fun nothing_more :: "recv_outcome list \<Rightarrow> bool" where
  "nothing_more [] = True"
| "nothing_more (Fault Timeout # evs) = True"
| "nothing_more (Data chunk # evs) = (chunk = [])"
| "nothing_more (Fault f # evs) = False"

definition closed_first :: "recv_outcome list \<Rightarrow> bool" where
  "closed_first evs = (case evs of Data chunk # rest \<Rightarrow> chunk = [] | _ \<Rightarrow> False)"


subsection \<open>Example data\<close>

text \<open>
  In the examples \<^verbatim>\<open>json.loads\<close> is needed on a few texts only: a table gives their values,
  and every other text counts as incomplete JSON.
\<close>

definition loads_table :: "(string \<times> json) list \<Rightarrow> string \<Rightarrow> exn + json" where
  "loads_table docs text =
     (case map_of docs text of
        Some v \<Rightarrow> Inr v
      | None \<Rightarrow> Inl (Exn JSONDecodeError ''Expecting value''))"

definition box1_reply :: string where
  \<open>box1_reply = ''{"status":"success","result":{"name":"Box1"}}''\<close>

definition box1_doc :: json where
  "box1_doc = JObj [(''status'', JStr ''success''), (''result'', JObj [(''name'', JStr ''Box1'')])]"

definition error_reply :: string where
  \<open>error_reply = ''{"status":"error","message":"Unknown object type"}''\<close>

definition error_doc :: json where
  "error_doc = JObj [(''status'', JStr ''error''), (''message'', JStr ''Unknown object type'')]"

definition localhost :: BlenderConnection where
  "localhost = init ''localhost'' 9876"

text \<open>A world in which the addon listens and answers with the given outcomes of \<^verbatim>\<open>recv\<close>.\<close>

definition listening :: "recv_outcome list \<Rightarrow> world" where
  "listening answers =
     \<lparr>connect_script = [True], send_script = [], recv_script = answers, sockets_made = 0,
      trace = []\<rparr>"

text \<open>
  \<open>k\<close> polls in a row are answered, none of the answers is a terminal state, and each is
  followed by the sleep of 5 seconds; the value is the state after them.
\<close>

fun pending_polls ::
  "(string \<Rightarrow> exn + json) \<Rightarrow> nat \<Rightarrow> json \<Rightarrow> json \<Rightarrow> BlenderConnection \<Rightarrow> world
     \<Rightarrow> (BlenderConnection \<times> world) option"
where
  "pending_polls L 0 subscription_key request_id c w = Some (c, w)"
| "pending_polls L (Suc k) subscription_key request_id c w =
     (case send_command L ''poll_rodin_job_status''
             (Some (poll_params subscription_key request_id)) c w of
        (Inl e, c', w') \<Rightarrow> None
      | (Inr status_result, c', w') \<Rightarrow>
          if check_status status_result = Inr (Inr False)
          then pending_polls L k subscription_key request_id c' (sleep 5 w')
          else None)"

text \<open>How often an event occurs in a trace.\<close>

definition occurrences :: "io_event \<Rightarrow> io_event list \<Rightarrow> nat" where
  "occurrences ev evs = length (filter (\<lambda>x. x = ev) evs)"

text \<open>The bytes of the three commands of the generation job.\<close>

definition poll_bytes :: "json \<Rightarrow> json \<Rightarrow> string" where
  "poll_bytes subscription_key request_id =
     dumps (command_doc ''poll_rodin_job_status'' (Some (poll_params subscription_key request_id)))"

definition import_bytes :: "json \<Rightarrow> json \<Rightarrow> json \<Rightarrow> string" where
  "import_bytes model_name job_id request_id =
     dumps (command_doc ''import_generated_asset''
              (Some (import_params model_name job_id request_id)))"

subsection \<open>More example data\<close>

definition polyhaven_off_reply :: string where
  \<open>polyhaven_off_reply =
     ''{"status":"success","result":{"enabled":false,"message":"PolyHaven is disabled"}}''\<close>

definition polyhaven_off_doc :: json where
  "polyhaven_off_doc =
     JObj [(''status'', JStr ''success''),
           (''result'', JObj [(''enabled'', JBool False),
                              (''message'', JStr ''PolyHaven is disabled'')])]"

definition hyper3d_off_reply :: string where
  \<open>hyper3d_off_reply =
     ''{"status":"success","result":{"enabled":false,"message":"Hyper3D is disabled"}}''\<close>

definition hyper3d_off_doc :: json where
  "hyper3d_off_doc =
     JObj [(''status'', JStr ''success''),
           (''result'', JObj [(''enabled'', JBool False),
                              (''message'', JStr ''Hyper3D is disabled'')])]"

definition hyper3d_on_reply :: string where
  \<open>hyper3d_on_reply =
     ''{"status":"success","result":{"enabled":true,"message":"Hyper3D is enabled"}}''\<close>

definition hyper3d_on_doc :: json where
  "hyper3d_on_doc =
     JObj [(''status'', JStr ''success''),
           (''result'', JObj [(''enabled'', JBool True),
                              (''message'', JStr ''Hyper3D is enabled'')])]"

definition job_reply :: string where
  \<open>job_reply =
     ''{"status":"success","result":{"uuid":"task-1","jobs":{"subscription_key":"key-1"}}}''\<close>

definition job_doc :: json where
  "job_doc =
     JObj [(''status'', JStr ''success''),
           (''result'', JObj [(''uuid'', JStr ''task-1''),
                              (''jobs'', JObj [(''subscription_key'', JStr ''key-1'')])])]"

definition pending_reply :: string where
  \<open>pending_reply = ''{"status":"success","result":{"status_list":["Done","Generating"]}}''\<close>

definition pending_doc :: json where
  "pending_doc =
     JObj [(''status'', JStr ''success''),
           (''result'', JObj [(''status_list'', JArr [JStr ''Done'', JStr ''Generating''])])]"

definition done_reply :: string where
  \<open>done_reply = ''{"status":"success","result":{"status_list":["Done","Done"]}}''\<close>

definition done_doc :: json where
  "done_doc =
     JObj [(''status'', JStr ''success''),
           (''result'', JObj [(''status_list'', JArr [JStr ''Done'', JStr ''Done''])])]"

definition failed_reply :: string where
  \<open>failed_reply = ''{"status":"success","result":{"status_list":["Done","Failed"]}}''\<close>

definition failed_doc :: json where
  "failed_doc =
     JObj [(''status'', JStr ''success''),
           (''result'', JObj [(''status_list'', JArr [JStr ''Done'', JStr ''Failed''])])]"

definition empty_reply :: string where
  \<open>empty_reply = ''{"status":"success","result":{"status_list":[]}}''\<close>

definition empty_doc :: json where
  "empty_doc =
     JObj [(''status'', JStr ''success''), (''result'', JObj [(''status_list'', JArr [])])]"

definition import_reply :: string where
  \<open>import_reply = ''{"status":"success","result":{"succeed":true}}''\<close>

definition import_doc :: json where
  "import_doc =
     JObj [(''status'', JStr ''success''), (''result'', JObj [(''succeed'', JBool True)])]"

definition list_reply :: string where
  \<open>list_reply = ''{"status":"success","result":["enabled"]}''\<close>

definition list_doc :: json where
  "list_doc = JObj [(''status'', JStr ''success''), (''result'', JArr [JStr ''enabled''])]"

definition example_docs :: "(string \<times> json) list" where
  "example_docs =
     [(box1_reply, box1_doc), (error_reply, error_doc),
      (polyhaven_off_reply, polyhaven_off_doc), (hyper3d_off_reply, hyper3d_off_doc),
      (hyper3d_on_reply, hyper3d_on_doc), (job_reply, job_doc),
      (pending_reply, pending_doc), (done_reply, done_doc), (failed_reply, failed_doc),
      (empty_reply, empty_doc), (import_reply, import_doc), (list_reply, list_doc)]"

text \<open>A tool state whose connection holds socket 0 and whose world has the given answers.\<close>

definition connected :: "recv_outcome list \<Rightarrow> state" where
  "connected answers =
     \<lparr>blender_connection = Some (localhost\<lparr>socket := Some 0\<rparr>),
      env = \<lparr>connect_script = [], send_script = [], recv_script = answers, sockets_made = 1,
             trace = []\<rparr>\<rparr>"

text \<open>
  An example of the built-in \<^verbatim>\<open>sorted(..., reverse=True)\<close>: when all keys are ints or bools,
  the items in descending order of their keys, items with equal keys in their given order.
\<close>

definition int_key :: "json \<Rightarrow> int option" where
  "int_key k = (case k of JInt i \<Rightarrow> Some i | JBool b \<Rightarrow> Some (if b then 1 else 0) | _ \<Rightarrow> None)"

definition key_greater :: "json \<Rightarrow> json \<Rightarrow> bool" where
  "key_greater a b = (case (int_key a, int_key b) of (Some i, Some j) \<Rightarrow> i > j | _ \<Rightarrow> False)"

fun insert_desc :: "json \<times> 'a \<Rightarrow> (json \<times> 'a) list \<Rightarrow> (json \<times> 'a) list" where
  "insert_desc x [] = [x]"
| "insert_desc x (y # ys) =
     (if key_greater (fst y) (fst x) then y # insert_desc x ys else x # y # ys)"

definition sorted_numbers :: "(json \<times> string \<times> json) list \<Rightarrow> exn + (string \<times> json) list" where
  "sorted_numbers items =
     (if list_all (\<lambda>item. int_key (fst item) \<noteq> None) items
      then Inr (map snd (foldr insert_desc items []))
      else Inl (Exn TypeError ''keys cannot be compared''))"

section \<open>Properties of the connection\<close>

subsection \<open>Receiving\<close>

lemma receive_loop_return:
  "receive_loop L chunks evs = (LoopReturn data, rest) \<Longrightarrow> \<exists>v. L data = Inr v"
proof (induction evs arbitrary: chunks)
  case Nil
  then show ?case by simp
next
  case (Cons ev evs)
  show ?case
  proof (cases ev)
    case (Data chunk)
    with Cons show ?thesis
      by (auto split: if_splits sum.splits)
  next
    case (Fault f)
    with Cons.prems show ?thesis by (simp split: if_splits)
  qed
qed

lemma fault_exn_class: "class_of (fault_exn f) \<noteq> JSONDecodeError"
  by (cases f) auto

lemma receive_loop_raise:
  "receive_loop L chunks evs = (LoopRaise e, rest) \<Longrightarrow> class_of e \<noteq> JSONDecodeError"
proof (induction evs arbitrary: chunks)
  case Nil
  then show ?case by simp
next
  case (Cons ev evs)
  show ?case
  proof (cases ev)
    case (Data chunk)
    with Cons show ?thesis
      by (auto split: if_splits sum.splits)
  next
    case (Fault f)
    with Cons.prems show ?thesis
      by (auto simp: fault_exn_class split: if_splits)
  qed
qed

lemma receive_full_response_parses:
  "receive_full_response L w = (Inr data, w') \<Longrightarrow> \<exists>v. L data = Inr v"
  unfolding receive_full_response_def
  by (auto split: prod.splits loop_exit.splits if_splits sum.splits dest: receive_loop_return)

lemma receive_full_response_raise:
  "receive_full_response L w = (Inl e, w') \<Longrightarrow> class_of e \<noteq> JSONDecodeError"
  unfolding receive_full_response_def
  by (auto split: prod.splits loop_exit.splits if_splits sum.splits dest: receive_loop_raise)

lemma receive_full_response_trace:
  "receive_full_response L w = (r, w') \<Longrightarrow> trace w' = trace w"
  unfolding receive_full_response_def
  by (auto split: prod.splits loop_exit.splits)

lemma receive_loop_unparsed:
  "unparsed L pre cs \<Longrightarrow> receive_loop L pre (map Data cs @ evs) = receive_loop L (pre @ cs) evs"
proof (induction cs arbitrary: pre)
  case Nil
  then show ?case by simp
next
  case (Cons c cs)
  from Cons.prems have c: "c \<noteq> []" and rest: "unparsed L (pre @ [c]) cs"
    and "\<exists>e. L (concat (pre @ [c])) = Inl e \<and> class_of e = JSONDecodeError"
    by (auto split: sum.splits)
  then obtain e where e: "L (concat (pre @ [c])) = Inl e" "class_of e = JSONDecodeError"
    by blast
  have "receive_loop L pre (map Data (c # cs) @ evs)
      = receive_loop L (pre @ [c]) (map Data cs @ evs)"
    using c e by simp
  also have "\<dots> = receive_loop L ((pre @ [c]) @ cs) evs"
    using Cons.IH [OF rest] .
  finally show ?case by simp
qed

lemma unparsed_last:
  "unparsed L pre cs \<Longrightarrow> cs \<noteq> []
     \<Longrightarrow> \<exists>e. L (concat (pre @ cs)) = Inl e \<and> class_of e = JSONDecodeError"
proof (induction cs arbitrary: pre)
  case Nil
  then show ?case by simp
next
  case (Cons c cs)
  show ?case
  proof (cases "cs = []")
    case True
    with Cons.prems show ?thesis by (auto split: sum.splits)
  next
    case False
    from Cons.prems have "unparsed L (pre @ [c]) cs" by simp
    from Cons.IH [OF this False] show ?thesis by simp
  qed
qed

lemma receive_complete:
  assumes "unparsed L [] cs" and "c \<noteq> []" and "L (concat (cs @ [c])) = Inr v"
    and "recv_script w = map Data cs @ Data c # rest"
  shows "receive_full_response L w = (Inr (concat (cs @ [c])), w\<lparr>recv_script := rest\<rparr>)"
proof -
  have "receive_loop L [] (recv_script w) = receive_loop L cs (Data c # rest)"
    using receive_loop_unparsed [OF assms(1), of "Data c # rest"] assms(4) by simp
  also have "\<dots> = (LoopReturn (concat (cs @ [c])), rest)"
    using assms(2,3) by simp
  finally show ?thesis by (simp add: receive_full_response_def)
qed

lemma receive_incomplete:
  assumes "unparsed L [] cs" and "recv_script w = map Data cs @ stop" and "nothing_more stop"
  shows "fst (receive_full_response L w) =
     Inl (Exn Exception
       (if cs \<noteq> [] then ''Incomplete JSON response received''
        else if closed_first stop then ''Connection closed before receiving any data''
        else ''No data received''))"
proof -
  have loop: "receive_loop L [] (recv_script w) = receive_loop L cs stop"
    using receive_loop_unparsed [OF assms(1), of stop] assms(2) by simp
  show ?thesis
  proof (cases "cs = []")
    case True
    with assms(3) loop show ?thesis
      by (cases stop rule: nothing_more.cases)
        (auto simp: receive_full_response_def closed_first_def)
  next
    case False
    from unparsed_last [OF assms(1) False] obtain e where
      e: "L (concat cs) = Inl e" "class_of e = JSONDecodeError" by auto
    have "\<exists>rest. receive_loop L cs stop = (LoopBreak cs, rest)"
      using assms(3) False by (cases stop rule: nothing_more.cases) auto
    with loop e False show ?thesis
      by (auto simp: receive_full_response_def)
  qed
qed

text \<open>
  C7. \<^verbatim>\<open>receive_full_response\<close> returns bytes only when they parse as JSON. It returns the
  bytes accumulated up to the first chunk after which they parse. When nothing more arrives
  (time-out, or the peer closes) while the bytes received so far do not parse, or nothing
  was received, it raises an exception.
\<close>

theorem receive_full_response_complete_json:
  "(\<forall>data w'. receive_full_response L w = (Inr data, w') \<longrightarrow> (\<exists>v. L data = Inr v))
   \<and> (unparsed L [] cs \<and> c \<noteq> [] \<and> L (concat (cs @ [c])) = Inr v
        \<and> recv_script w = map Data cs @ Data c # rest
      \<longrightarrow> receive_full_response L w = (Inr (concat (cs @ [c])), w\<lparr>recv_script := rest\<rparr>))
   \<and> (unparsed L [] cs \<and> recv_script w = map Data cs @ stop \<and> nothing_more stop
      \<longrightarrow> fst (receive_full_response L w) =
            Inl (Exn Exception
              (if cs \<noteq> [] then ''Incomplete JSON response received''
               else if closed_first stop then ''Connection closed before receiving any data''
               else ''No data received'')))"
  using receive_full_response_parses receive_complete receive_incomplete by blast

theorem receive_full_response_complete_json_witness:
  "receive_full_response (loads_table [(box1_reply, box1_doc)])
      (listening [Data (take 20 box1_reply), Data (drop 20 box1_reply), Data ''{}''])
    = (Inr box1_reply, listening [Data ''{}''])
   \<and> (\<exists>v. loads_table [(box1_reply, box1_doc)] box1_reply = Inr v)
   \<and> fst (receive_full_response (loads_table [(box1_reply, box1_doc)])
        (listening [Data (take 20 box1_reply), Fault Timeout]))
      = Inl (Exn Exception ''Incomplete JSON response received'')
   \<and> fst (receive_full_response (loads_table [(box1_reply, box1_doc)]) (listening [Data []]))
      = Inl (Exn Exception ''Connection closed before receiving any data'')
   \<and> fst (receive_full_response (loads_table [(box1_reply, box1_doc)]) (listening []))
      = Inl (Exn Exception ''No data received'')"
proof -
  let ?L = "loads_table [(box1_reply, box1_doc)]"
  let ?c1 = "take 20 box1_reply" and ?c2 = "drop 20 box1_reply"
  have u: "unparsed ?L [] [?c1]"
    by (simp add: loads_table_def box1_reply_def)
  have u0: "unparsed ?L [] []"
    by simp
  have c2: "?c2 \<noteq> []"
    by (simp add: box1_reply_def)
  have p: "?L (concat ([?c1] @ [?c2])) = Inr box1_doc"
    by (simp add: loads_table_def)
  have full: "concat ([?c1] @ [?c2]) = box1_reply"
    by simp
  have "receive_full_response ?L (listening [Data ?c1, Data ?c2, Data ''{}''])
      = (Inr (concat ([?c1] @ [?c2])), listening [Data ?c1, Data ?c2, Data ''{}'']
           \<lparr>recv_script := [Data ''{}'']\<rparr>)"
    using receive_full_response_complete_json
      [of ?L "listening [Data ?c1, Data ?c2, Data ''{}'']" "[?c1]" ?c2 box1_doc "[Data ''{}'']"]
      u c2 p
    by (simp add: listening_def)
  then have a: "receive_full_response ?L (listening [Data ?c1, Data ?c2, Data ''{}''])
      = (Inr box1_reply, listening [Data ''{}''])"
    unfolding full by (simp add: listening_def)
  have b: "\<exists>v. ?L box1_reply = Inr v"
    using receive_full_response_complete_json
      [of ?L "listening [Data ?c1, Data ?c2, Data ''{}'']"] a
    by blast
  have c: "fst (receive_full_response ?L (listening [Data ?c1, Fault Timeout]))
      = Inl (Exn Exception ''Incomplete JSON response received'')"
    using receive_full_response_complete_json
      [of ?L "listening [Data ?c1, Fault Timeout]" "[?c1]" _ _ _ "[Fault Timeout]"] u
    by (simp add: listening_def)
  have d: "fst (receive_full_response ?L (listening [Data []]))
      = Inl (Exn Exception ''Connection closed before receiving any data'')"
    using receive_full_response_complete_json
      [of ?L "listening [Data []]" "[]" _ _ _ "[Data []]"] u0
    by (simp add: listening_def closed_first_def)
  have e: "fst (receive_full_response ?L (listening []))
      = Inl (Exn Exception ''No data received'')"
    using receive_full_response_complete_json
      [of ?L "listening []" "[]" _ _ _ "[]"] u0
    by (simp add: listening_def closed_first_def)
  from a b c d e show ?thesis by blast
qed

subsection \<open>Connecting\<close>

text \<open>
  C8. \<^verbatim>\<open>connect\<close> is idempotent: with a socket already cached it returns \<^verbatim>\<open>True\<close> at once;
  no socket is created or connected, and the connection and the world stay as they are.
\<close>

theorem connect_idempotent:
  "socket c \<noteq> None \<Longrightarrow> connect c w = (True, c, w)"
  by (simp add: connect_def)

theorem connect_idempotent_witness:
  "socket (localhost\<lparr>socket := Some 0\<rparr>) \<noteq> None
   \<and> connect (localhost\<lparr>socket := Some 0\<rparr>) (listening []) =
       (True, localhost\<lparr>socket := Some 0\<rparr>, listening [])
   \<and> fst (connect (fst (snd (connect localhost (listening []))))
            (snd (snd (connect localhost (listening []))))) = True
   \<and> snd (connect (fst (snd (connect localhost (listening []))))
            (snd (snd (connect localhost (listening [])))))
       = snd (connect localhost (listening []))"
proof -
  have s: "socket (localhost\<lparr>socket := Some 0\<rparr>) \<noteq> None"
    by simp
  have first: "connect localhost (listening [])
      = (True, localhost\<lparr>socket := Some 0\<rparr>,
         (listening [])\<lparr>connect_script := [], sockets_made := 1,
            trace := [Connect ''localhost'' 9876]\<rparr>)"
    by (simp add: connect_def localhost_def init_def listening_def)
  show ?thesis
    using s connect_idempotent [OF s, of "listening []"]
      connect_idempotent [OF s, of "(listening [])\<lparr>connect_script := [], sockets_made := 1,
            trace := [Connect ''localhost'' 9876]\<rparr>"]
    by (simp add: first)
qed

subsection \<open>Sending a command\<close>

lemma sock_sendall_trace:
  "sock_sendall d w = (r, w') \<Longrightarrow> trace w' = trace w @ [SendAll d]"
  by (auto simp: sock_sendall_def split: list.splits)

lemma exchange_raise:
  "exchange L t p w = (Inl e, w') \<Longrightarrow> class_of e \<noteq> JSONDecodeError"
  unfolding exchange_def
  by (auto simp: attribute_error_def fault_exn_class
      split: prod.splits option.splits sum.splits json.splits if_splits
      dest: receive_full_response_raise receive_full_response_parses)

lemma exchange_trace:
  "exchange L t p w = (r, w') \<Longrightarrow> trace w' = trace w @ [SendAll (dumps (command_doc t p))]"
  unfolding exchange_def
  by (auto split: prod.splits option.splits sum.splits json.splits if_splits
      dest!: receive_full_response_trace sock_sendall_trace)

lemma send_command_failure_socket:
  "send_command L t p c w = (Inl e, c', w') \<Longrightarrow> socket c' = None"
  unfolding send_command_def
  by (auto simp: connect_def
      split: prod.splits bool.splits sum.splits if_splits list.splits dest: exchange_raise)

lemma connect_trace:
  "socket c = None \<Longrightarrow> connect c w = (ok, c', w')
     \<Longrightarrow> trace w' = trace w @ [Connect (host c) (port c)]"
  by (auto simp: connect_def split: list.splits if_splits)

lemma send_command_reconnects:
  assumes "socket c = None"
  shows "\<exists>evs. trace (snd (snd (send_command L t p c w))) = trace w @ Connect (host c) (port c) # evs"
proof -
  obtain ok c1 w1 where con: "connect c w = (ok, c1, w1)"
    by (cases "connect c w") auto
  have tr: "trace w1 = trace w @ [Connect (host c) (port c)]"
    using connect_trace [OF assms con] .
  show ?thesis
  proof (cases ok)
    case False
    with assms con tr show ?thesis
      by (simp add: send_command_def)
  next
    case True
    obtain r w2 where ex: "exchange L t p w1 = (r, w2)"
      by (cases "exchange L t p w1") auto
    have "trace w2 = trace w @ Connect (host c) (port c) # [SendAll (dumps (command_doc t p))]"
      using exchange_trace [OF ex] tr by simp
    with assms con True ex show ?thesis
      by (cases r) (auto simp: send_command_def)
  qed
qed

lemma send_command_trace:
  "send_command L t p c w = (r, c', w')
     \<Longrightarrow> \<exists>evs. trace w' = trace w @ evs
           \<and> set evs \<subseteq> {Connect (host c) (port c), SendAll (dumps (command_doc t p))}"
proof -
  assume run: "send_command L t p c w = (r, c', w')"
  obtain ok c1 w1 where pre: "(if socket c = None then connect c w else (True, c, w)) = (ok, c1, w1)"
    by (cases "if socket c = None then connect c w else (True, c, w)") auto
  have tr1: "\<exists>evs. trace w1 = trace w @ evs \<and> set evs \<subseteq> {Connect (host c) (port c)}"
  proof (cases "socket c = None")
    case True
    with pre connect_trace [of c w ok c1 w1] show ?thesis by auto
  next
    case False
    with pre show ?thesis by auto
  qed
  show ?thesis
  proof (cases ok)
    case False
    with run pre tr1 show ?thesis
      by (auto simp: send_command_def)
  next
    case True
    obtain r2 w2 where ex: "exchange L t p w1 = (r2, w2)"
      by (cases "exchange L t p w1") auto
    from run pre True ex have "w' = w2"
      by (cases r2) (auto simp: send_command_def split: if_splits)
    with exchange_trace [OF ex] tr1 show ?thesis
      by auto
  qed
qed

lemma send_command_success:
  assumes "(if socket c = None then connect c w else (True, c, w)) = (True, c1, w1)"
    and "sock_sendall (dumps (command_doc command_type params)) w1 = (None, w2)"
    and "receive_full_response L w2 = (Inr data, w3)"
    and "L data = Inr (JObj kvs)"
    and "dict_get kvs ''status'' JNull \<noteq> JStr ''error''"
  shows "send_command L command_type params c w = (Inr (dict_get kvs ''result'' (JObj [])), c1, w3)"
  using assms by (simp add: send_command_def exchange_def)

lemma send_command_error_status:
  assumes "(if socket c = None then connect c w else (True, c, w)) = (True, c1, w1)"
    and "sock_sendall (dumps (command_doc command_type params)) w1 = (None, w2)"
    and "receive_full_response L w2 = (Inr data, w3)"
    and "L data = Inr (JObj kvs)"
    and "map_of kvs ''status'' = Some (JStr ''error'')"
  shows "send_command L command_type params c w =
     (Inl (Exn Exception (''Communication error with Blender: ''
         @ py_str (dict_get kvs ''message'' (JStr ''Unknown error from Blender'')))),
      c1\<lparr>socket := None\<rparr>, w3)"
  using assms by (simp add: send_command_def exchange_def dict_get_def is_connection_error_def)

text \<open>
  C3. When the bytes received parse as a JSON object with status \<^verbatim>\<open>"success"\<close> and a
  \<^verbatim>\<open>"result"\<close>, \<^verbatim>\<open>send_command\<close> returns exactly that result.
\<close>

theorem send_command_returns_result:
  assumes "(if socket c = None then connect c w else (True, c, w)) = (True, c1, w1)"
    and "sock_sendall (dumps (command_doc command_type params)) w1 = (None, w2)"
    and "receive_full_response L w2 = (Inr data, w3)"
    and "L data = Inr (JObj kvs)"
    and "map_of kvs ''status'' = Some (JStr ''success'')"
    and "map_of kvs ''result'' = Some result"
  shows "send_command L command_type params c w = (Inr result, c1, w3)"
  using send_command_success [OF assms(1-4)] assms(5,6) by (simp add: dict_get_def)

theorem send_command_returns_result_witness:
  "send_command (loads_table [(box1_reply, box1_doc)]) ''get_object_info''
     (Some [(''name'', JStr ''Box1'')]) localhost (listening [Data box1_reply])
   = (Inr (JObj [(''name'', JStr ''Box1'')]), localhost\<lparr>socket := Some 0\<rparr>,
      \<lparr>connect_script = [], send_script = [], recv_script = [], sockets_made = 1,
       trace = [Connect ''localhost'' 9876,
                SendAll (dumps (command_doc ''get_object_info'' (Some [(''name'', JStr ''Box1'')])))]\<rparr>)"
proof -
  let ?L = "loads_table [(box1_reply, box1_doc)]"
  let ?d = "dumps (command_doc ''get_object_info'' (Some [(''name'', JStr ''Box1'')]))"
  let ?w1 = "\<lparr>connect_script = [], send_script = [], recv_script = [Data box1_reply],
      sockets_made = 1, trace = [Connect ''localhost'' 9876]\<rparr>"
  let ?w2 = "?w1\<lparr>trace := [Connect ''localhost'' 9876, SendAll ?d]\<rparr>"
  let ?w3 = "?w2\<lparr>recv_script := []\<rparr>"
  have 1: "(if socket localhost = None then connect localhost (listening [Data box1_reply])
            else (True, localhost, listening [Data box1_reply]))
      = (True, localhost\<lparr>socket := Some 0\<rparr>, ?w1)"
    by (simp add: connect_def localhost_def init_def listening_def)
  have 2: "sock_sendall ?d ?w1 = (None, ?w2)"
    by (simp add: sock_sendall_def)
  have 3: "receive_full_response ?L ?w2 = (Inr box1_reply, ?w3)"
    by (simp add: receive_full_response_def loads_table_def box1_reply_def)
  have 4: "?L box1_reply
      = Inr (JObj [(''status'', JStr ''success''), (''result'', JObj [(''name'', JStr ''Box1'')])])"
    by (simp add: loads_table_def box1_doc_def)
  show ?thesis
    using send_command_returns_result [OF 1 2 3 4, of "JObj [(''name'', JStr ''Box1'')]"]
    by simp
qed

text \<open>
  C6. Whenever \<^verbatim>\<open>send_command\<close> fails, and so whenever it fails with a receive time-out or
  a connection-level error, the cached socket is \<^verbatim>\<open>None\<close> afterwards, and the next
  \<^verbatim>\<open>send_command\<close> starts with a fresh \<^verbatim>\<open>connect\<close>.
\<close>

theorem send_command_failure_invalidates_socket:
  assumes "send_command L command_type params c w = (Inl e, c', w')"
  shows "socket c' = None
    \<and> (\<exists>evs. trace (snd (snd (send_command L next_type next_params c' w')))
                = trace w' @ Connect (host c') (port c') # evs)"
  using send_command_failure_socket [OF assms] send_command_reconnects by blast

theorem send_command_failure_invalidates_socket_witness:
  "send_command (loads_table []) ''get_scene_info'' None
       (localhost\<lparr>socket := Some 0\<rparr>) (listening [Fault Timeout])
     = (Inl (Exn Exception ''Communication error with Blender: No data received''),
        localhost\<lparr>socket := None\<rparr>,
        (listening [])\<lparr>trace := [SendAll (dumps (command_doc ''get_scene_info'' None))]\<rparr>)
   \<and> send_command (loads_table []) ''get_scene_info'' None
       (localhost\<lparr>socket := Some 0\<rparr>)
       (listening [Fault (Connection ConnectionResetError ''Connection reset by peer'')])
     = (Inl (Exn Exception ''Connection to Blender lost: Connection reset by peer''),
        localhost\<lparr>socket := None\<rparr>,
        (listening [])\<lparr>trace := [SendAll (dumps (command_doc ''get_scene_info'' None))]\<rparr>)
   \<and> socket (localhost\<lparr>socket := None\<rparr>) = None
   \<and> (\<exists>evs. trace (snd (snd (send_command (loads_table []) ''get_scene_info'' None
          (localhost\<lparr>socket := None\<rparr>)
          ((listening [])\<lparr>trace := [SendAll (dumps (command_doc ''get_scene_info'' None))]\<rparr>))))
        = [SendAll (dumps (command_doc ''get_scene_info'' None)), Connect ''localhost'' 9876] @ evs)"
proof -
  let ?d = "dumps (command_doc ''get_scene_info'' None)"
  let ?w' = "(listening [])\<lparr>trace := [SendAll ?d]\<rparr>"
  have a: "send_command (loads_table []) ''get_scene_info'' None
       (localhost\<lparr>socket := Some 0\<rparr>) (listening [Fault Timeout])
     = (Inl (Exn Exception ''Communication error with Blender: No data received''),
        localhost\<lparr>socket := None\<rparr>, ?w')"
    by (simp add: send_command_def exchange_def sock_sendall_def receive_full_response_def
        listening_def localhost_def init_def is_connection_error_def)
  have b: "send_command (loads_table []) ''get_scene_info'' None
       (localhost\<lparr>socket := Some 0\<rparr>)
       (listening [Fault (Connection ConnectionResetError ''Connection reset by peer'')])
     = (Inl (Exn Exception ''Connection to Blender lost: Connection reset by peer''),
        localhost\<lparr>socket := None\<rparr>, ?w')"
    by (simp add: send_command_def exchange_def sock_sendall_def receive_full_response_def
        listening_def localhost_def init_def is_connection_error_def)
  have h: "host (localhost\<lparr>socket := None\<rparr>) = ''localhost''"
      "port (localhost\<lparr>socket := None\<rparr>) = 9876"
    by (simp_all add: localhost_def init_def)
  have t: "trace ?w' = [SendAll ?d]"
    by simp
  show ?thesis
    using send_command_failure_invalidates_socket [OF a, of "''get_scene_info''" None]
      send_command_failure_invalidates_socket [OF b, of "''get_scene_info''" None]
    unfolding h t using a b by simp
qed

subsection \<open>Status checks\<close>



lemma exchange_result_dict:
  "exchange L t p w = (Inr result, w') \<Longrightarrow>
     \<exists>data kvs. L data = Inr (JObj kvs) \<and> result = dict_get kvs ''result'' (JObj [])"
  unfolding exchange_def
  by (auto split: prod.splits option.splits sum.splits json.splits if_splits)

lemma send_command_result_dict:
  "send_command L t p c w = (Inr result, c', w') \<Longrightarrow>
     \<exists>data kvs. L data = Inr (JObj kvs) \<and> result = dict_get kvs ''result'' (JObj [])"
  unfolding send_command_def
  by (auto split: prod.splits bool.splits sum.splits if_splits dest: exchange_result_dict)

section \<open>Properties of the tools\<close>

lemma with_blender_run:
  "blender_connection st = Some c \<Longrightarrow> body c (env st) = (r, c', w')
     \<Longrightarrow> with_blender body st = (r, \<lparr>blender_connection = Some c', env = w'\<rparr>)"
  by (simp add: with_blender_def get_blender_connection_def)

lemma then_format_raise: "then_format (Inl e, c, w) f = (Inl e, c, w)"
  by (simp add: then_format_def and_then_def)

lemma then_format_result: "then_format (Inr r, c, w) f = (f r, c, w)"
  by (simp add: then_format_def and_then_def)

lemma send_command_cached:
  assumes "socket c \<noteq> None" and "send_script w = []" and "recv_script w = Data d # rest"
    and "d \<noteq> []" and "L d = Inr (JObj kvs)"
  shows "send_command L t p c w =
     (if dict_get kvs ''status'' JNull = JStr ''error'' then
        (Inl (Exn Exception (''Communication error with Blender: ''
            @ py_str (dict_get kvs ''message'' (JStr ''Unknown error from Blender'')))),
         c\<lparr>socket := None\<rparr>,
         w\<lparr>recv_script := rest, trace := trace w @ [SendAll (dumps (command_doc t p))]\<rparr>)
      else
        (Inr (dict_get kvs ''result'' (JObj [])), c,
         w\<lparr>recv_script := rest, trace := trace w @ [SendAll (dumps (command_doc t p))]\<rparr>))"
proof -
  from assms(1) obtain s where "socket c = Some s"
    by auto
  with assms(2-5) show ?thesis
    by (simp add: send_command_def exchange_def sock_sendall_def receive_full_response_def
        is_connection_error_def)
qed

subsection \<open>The example of the specification\<close>

lemma create_object_bytes:
  \<open>dumps (command_doc ''create_object''
      (Some (create_object_params (JStr ''CUBE'') (JStr ''Box1'') JNull JNull JNull)))
   = ''{"type": "create_object", "params": {"type": "CUBE", "name": "Box1"}}''\<close>
  by (simp add: command_doc_def create_object_params_def py_truthy_def dumps_str_def
      dumps_char_def code_point_def dq_def bs_def)

text \<open>
  C4. \<^verbatim>\<open>create_object(type="CUBE", name="Box1")\<close> sends the JSON document
  \<^verbatim>\<open>{"type": "create_object", "params": {"type": "CUBE", "name": "Box1"}}\<close>, and when the
  answer is \<^verbatim>\<open>{"status": "success", "result": {"name": "Box1"}}\<close> it returns
  \<^verbatim>\<open>"Created CUBE object: Box1"\<close>.
\<close>

theorem create_object_cube_box1:
  assumes \<open>blender_connection st = Some c\<close>
    and \<open>(if socket c = None then connect c (env st) else (True, c, env st)) = (True, c1, w1)\<close>
    and \<open>sock_sendall ''{"type": "create_object", "params": {"type": "CUBE", "name": "Box1"}}'' w1
           = (None, w2)\<close>
    and \<open>receive_full_response L w2 = (Inr data, w3)\<close>
    and \<open>L data = Inr (JObj [(''status'', JStr ''success''),
                             (''result'', JObj [(''name'', JStr ''Box1'')])])\<close>
  shows \<open>create_object L (JStr ''CUBE'') (JStr ''Box1'') JNull JNull JNull st
           = (Inr (JStr ''Created CUBE object: Box1''), \<lparr>blender_connection = Some c1, env = w3\<rparr>)
         \<and> trace w3 = trace w1
             @ [SendAll ''{"type": "create_object", "params": {"type": "CUBE", "name": "Box1"}}'']
         \<and> dumps (JObj [(''type'', JStr ''create_object''),
                         (''params'', JObj [(''type'', JStr ''CUBE''), (''name'', JStr ''Box1'')])])
             = ''{"type": "create_object", "params": {"type": "CUBE", "name": "Box1"}}''\<close>
proof -
  let ?p = "Some (create_object_params (JStr ''CUBE'') (JStr ''Box1'') JNull JNull JNull)"
  have sent: "sock_sendall (dumps (command_doc ''create_object'' ?p)) w1 = (None, w2)"
    using assms(3) by (simp only: create_object_bytes)
  have "send_command L ''create_object'' ?p c (env st)
      = (Inr (dict_get [(''status'', JStr ''success''),
                        (''result'', JObj [(''name'', JStr ''Box1'')])] ''result'' (JObj [])),
         c1, w3)"
    by (rule send_command_success [OF assms(2) sent assms(4) assms(5)])
      (simp add: dict_get_def)
  then have "send_command L ''create_object'' ?p c (env st)
      = (Inr (JObj [(''name'', JStr ''Box1'')]), c1, w3)"
    by (simp add: dict_get_def)
  then have "then_format (send_command L ''create_object'' ?p c (env st))
        (\<lambda>result. and_then (py_getitem result ''name'')
          (\<lambda>n. Inr (JStr (''Created '' @ py_str (JStr ''CUBE'') @ '' object: '' @ py_str n))))
      = (Inr (JStr ''Created CUBE object: Box1''), c1, w3)"
    by (simp add: then_format_result py_getitem_def and_then_def py_str_def)
  then have 1: "create_object L (JStr ''CUBE'') (JStr ''Box1'') JNull JNull JNull st
      = (Inr (JStr ''Created CUBE object: Box1''), \<lparr>blender_connection = Some c1, env = w3\<rparr>)"
    unfolding create_object_def by (rule with_blender_run [OF assms(1)])
  have 2: \<open>trace w3 = trace w1
      @ [SendAll ''{"type": "create_object", "params": {"type": "CUBE", "name": "Box1"}}'']\<close>
    using sock_sendall_trace [OF assms(3)] receive_full_response_trace [OF assms(4)] by simp
  have 3: \<open>dumps (JObj [(''type'', JStr ''create_object''),
                         (''params'', JObj [(''type'', JStr ''CUBE''), (''name'', JStr ''Box1'')])])
      = ''{"type": "create_object", "params": {"type": "CUBE", "name": "Box1"}}''\<close>
    using create_object_bytes
    by (simp add: command_doc_def create_object_params_def py_truthy_def)
  from 1 2 3 show ?thesis by blast
qed

theorem create_object_cube_box1_witness:
  \<open>create_object (loads_table example_docs) (JStr ''CUBE'') (JStr ''Box1'') JNull JNull JNull
      \<lparr>blender_connection = Some localhost, env = listening [Data box1_reply]\<rparr>
    = (Inr (JStr ''Created CUBE object: Box1''),
       \<lparr>blender_connection = Some (localhost\<lparr>socket := Some 0\<rparr>),
        env = \<lparr>connect_script = [], send_script = [], recv_script = [], sockets_made = 1,
               trace = [Connect ''localhost'' 9876,
                 SendAll ''{"type": "create_object", "params": {"type": "CUBE", "name": "Box1"}}'']\<rparr>\<rparr>)\<close>
proof -
  let ?L = "loads_table example_docs"
  let ?st = "\<lparr>blender_connection = Some localhost, env = listening [Data box1_reply]\<rparr>"
  let ?w1 = "\<lparr>connect_script = [], send_script = [], recv_script = [Data box1_reply],
      sockets_made = 1, trace = [Connect ''localhost'' 9876]\<rparr>"
  have 0: "blender_connection ?st = Some localhost"
    by simp
  have 1: "(if socket localhost = None then connect localhost (env ?st)
            else (True, localhost, env ?st))
      = (True, localhost\<lparr>socket := Some 0\<rparr>, ?w1)"
    by (simp add: connect_def localhost_def init_def listening_def)
  have 2: \<open>sock_sendall ''{"type": "create_object", "params": {"type": "CUBE", "name": "Box1"}}''
        ?w1
      = (None, ?w1\<lparr>trace := [Connect ''localhost'' 9876,
           SendAll ''{"type": "create_object", "params": {"type": "CUBE", "name": "Box1"}}'']\<rparr>)\<close>
    by (simp add: sock_sendall_def)
  have 4: "?L box1_reply = Inr (JObj [(''status'', JStr ''success''),
                             (''result'', JObj [(''name'', JStr ''Box1'')])])"
    by (simp add: loads_table_def example_docs_def box1_doc_def)
  have 3: \<open>receive_full_response ?L
        (?w1\<lparr>trace := [Connect ''localhost'' 9876,
           SendAll ''{"type": "create_object", "params": {"type": "CUBE", "name": "Box1"}}'']\<rparr>)
      = (Inr box1_reply,
         \<lparr>connect_script = [], send_script = [], recv_script = [], sockets_made = 1,
          trace = [Connect ''localhost'' 9876,
            SendAll ''{"type": "create_object", "params": {"type": "CUBE", "name": "Box1"}}'']\<rparr>)\<close>
    using 4 by (simp add: receive_full_response_def box1_reply_def)
  show ?thesis
    using create_object_cube_box1 [OF 0 1 2 3 4] by simp
qed

subsection \<open>Exceptions of \<^verbatim>\<open>send_command\<close> and the tools\<close>

text \<open>
  No tool has an exception handler: an exception of \<^verbatim>\<open>send_command\<close> in a tool's own command
  leaves the tool. Only the status checks of the connection catch it.
\<close>

lemma get_scene_info_raises:
  "blender_connection st = Some c
     \<Longrightarrow> send_command L ''get_scene_info''
           None c (env st)
         = (Inl e, c', w')
     \<Longrightarrow> get_scene_info L st
         = (Inl e, \<lparr>blender_connection = Some c', env = w'\<rparr>)"
  unfolding get_scene_info_def
  by (rule with_blender_run, assumption) (simp add: then_format_raise)

lemma get_object_info_raises:
  "blender_connection st = Some c
     \<Longrightarrow> send_command L ''get_object_info''
           (Some [(''name'', name)]) c (env st)
         = (Inl e, c', w')
     \<Longrightarrow> get_object_info L name st
         = (Inl e, \<lparr>blender_connection = Some c', env = w'\<rparr>)"
  unfolding get_object_info_def
  by (rule with_blender_run, assumption) (simp add: then_format_raise)

lemma create_object_raises:
  "blender_connection st = Some c
     \<Longrightarrow> send_command L ''create_object''
           (Some (create_object_params object_type name location rotation scale)) c (env st)
         = (Inl e, c', w')
     \<Longrightarrow> create_object L object_type name location rotation scale st
         = (Inl e, \<lparr>blender_connection = Some c', env = w'\<rparr>)"
  unfolding create_object_def
  by (rule with_blender_run, assumption) (simp add: then_format_raise)

lemma modify_object_raises:
  "blender_connection st = Some c
     \<Longrightarrow> send_command L ''modify_object''
           (Some (modify_object_params name location rotation scale visible)) c (env st)
         = (Inl e, c', w')
     \<Longrightarrow> modify_object L name location rotation scale visible st
         = (Inl e, \<lparr>blender_connection = Some c', env = w'\<rparr>)"
  unfolding modify_object_def
  by (rule with_blender_run, assumption) (simp add: then_format_raise)

lemma delete_object_raises:
  "blender_connection st = Some c
     \<Longrightarrow> send_command L ''delete_object''
           (Some [(''name'', name)]) c (env st)
         = (Inl e, c', w')
     \<Longrightarrow> delete_object L name st
         = (Inl e, \<lparr>blender_connection = Some c', env = w'\<rparr>)"
  unfolding delete_object_def
  by (rule with_blender_run, assumption) (simp add: then_format_raise)

lemma set_material_raises:
  "blender_connection st = Some c
     \<Longrightarrow> send_command L ''set_material''
           (Some (set_material_params object_name material_name color)) c (env st)
         = (Inl e, c', w')
     \<Longrightarrow> set_material L object_name material_name color st
         = (Inl e, \<lparr>blender_connection = Some c', env = w'\<rparr>)"
  unfolding set_material_def
  by (rule with_blender_run, assumption) (simp add: then_format_raise)

lemma execute_blender_code_raises:
  "blender_connection st = Some c
     \<Longrightarrow> send_command L ''execute_code''
           (Some [(''code'', code)]) c (env st)
         = (Inl e, c', w')
     \<Longrightarrow> execute_blender_code L code st
         = (Inl e, \<lparr>blender_connection = Some c', env = w'\<rparr>)"
  unfolding execute_blender_code_def
  by (rule with_blender_run, assumption) (simp add: then_format_raise)

lemma import_model_raises:
  "blender_connection st = Some c
     \<Longrightarrow> send_command L ''import_model''
           (Some (import_model_params file_path name)) c (env st)
         = (Inl e, c', w')
     \<Longrightarrow> import_model L file_path name st
         = (Inl e, \<lparr>blender_connection = Some c', env = w'\<rparr>)"
  unfolding import_model_def
  by (rule with_blender_run, assumption) (simp add: then_format_raise)

lemma status_gate_failed:
  "checked = (Inr (JObj [(''enabled'', JBool False), (''message'', JStr text)]), c1, w1)
     \<Longrightarrow> status_gate checked default_message continue = (Inr (JStr text), c1, w1)"
  by (simp add: status_gate_def py_get_def dict_get_def py_truthy_def)

lemma status_gate_disabled:
  "checked = (Inr (JObj status), c1, w1)
     \<Longrightarrow> \<not> py_truthy (dict_get status ''enabled'' (JBool False))
     \<Longrightarrow> status_gate checked default_message continue =
           (Inr (dict_get status ''message'' (JStr default_message)), c1, w1)"
  by (simp add: status_gate_def py_get_def)

lemma status_gate_enabled:
  "checked = (Inr (JObj status), c1, w1)
     \<Longrightarrow> py_truthy (dict_get status ''enabled'' (JBool False))
     \<Longrightarrow> status_gate checked default_message continue = continue c1 w1"
  by (simp add: status_gate_def py_get_def)

lemma get_polyhaven_status_failed:
  "send_command L ''get_polyhaven_status'' None c w = (Inl e, c', w')
     \<Longrightarrow> get_polyhaven_status L c w =
           (Inr (JObj [(''enabled'', JBool False), (''message'', JStr (exn_str e))]), c', w')"
  by (simp add: get_polyhaven_status_def)

lemma get_hyper3d_status_failed:
  "send_command L ''get_hyper3d_status'' None c w = (Inl e, c', w')
     \<Longrightarrow> get_hyper3d_status L c w =
           (Inr (JObj [(''enabled'', JBool False), (''message'', JStr (exn_str e))]), c', w')"
  by (simp add: get_hyper3d_status_def)

lemma tool_get_polyhaven_status_text:
  "blender_connection st = Some c
     \<Longrightarrow> send_command L ''get_polyhaven_status'' None c (env st) = (Inl e, c', w')
     \<Longrightarrow> tool_get_polyhaven_status L st =
           (Inr (JStr (exn_str e)), \<lparr>blender_connection = Some c', env = w'\<rparr>)"
  unfolding tool_get_polyhaven_status_def
  by (rule with_blender_run, assumption)
    (simp add: get_polyhaven_status_failed then_format_result py_get_def dict_get_def
      and_then_def)

lemma tool_get_hyper3d_status_text:
  "blender_connection st = Some c
     \<Longrightarrow> send_command L ''get_hyper3d_status'' None c (env st) = (Inl e, c', w')
     \<Longrightarrow> tool_get_hyper3d_status L st =
           (Inr (JStr (exn_str e)), \<lparr>blender_connection = Some c', env = w'\<rparr>)"
  unfolding tool_get_hyper3d_status_def
  by (rule with_blender_run, assumption)
    (simp add: get_hyper3d_status_failed then_format_result py_get_def dict_get_def)

lemma get_polyhaven_categories_status_failed:
  "blender_connection st = Some c
     \<Longrightarrow> send_command L ''get_polyhaven_status'' None c (env st) = (Inl e, c', w')
     \<Longrightarrow> get_polyhaven_categories L S asset_type st
         = (Inr (JStr (exn_str e)), \<lparr>blender_connection = Some c', env = w'\<rparr>)"
  unfolding get_polyhaven_categories_def
  by (rule with_blender_run, assumption) (simp add: get_polyhaven_status_failed status_gate_failed)

lemma get_polyhaven_categories_raises:
  "blender_connection st = Some c
     \<Longrightarrow> get_polyhaven_status L c (env st) = (Inr (JObj status), c1, w1)
     \<Longrightarrow> py_truthy (dict_get status ''enabled'' (JBool False))
     \<Longrightarrow> send_command L ''get_polyhaven_categories''
           (Some [(''asset_type'', asset_type)]) c1 w1
         = (Inl e, c2, w2)
     \<Longrightarrow> get_polyhaven_categories L S asset_type st
         = (Inl e, \<lparr>blender_connection = Some c2, env = w2\<rparr>)"
  unfolding get_polyhaven_categories_def
  by (rule with_blender_run, assumption) (simp add: status_gate_enabled then_format_raise)

lemma search_polyhaven_assets_status_failed:
  "blender_connection st = Some c
     \<Longrightarrow> send_command L ''get_polyhaven_status'' None c (env st) = (Inl e, c', w')
     \<Longrightarrow> search_polyhaven_assets L S asset_type categories st
         = (Inr (JStr (exn_str e)), \<lparr>blender_connection = Some c', env = w'\<rparr>)"
  unfolding search_polyhaven_assets_def
  by (rule with_blender_run, assumption) (simp add: get_polyhaven_status_failed status_gate_failed)

lemma search_polyhaven_assets_raises:
  "blender_connection st = Some c
     \<Longrightarrow> get_polyhaven_status L c (env st) = (Inr (JObj status), c1, w1)
     \<Longrightarrow> py_truthy (dict_get status ''enabled'' (JBool False))
     \<Longrightarrow> send_command L ''search_polyhaven_assets''
           (Some (search_params asset_type categories)) c1 w1
         = (Inl e, c2, w2)
     \<Longrightarrow> search_polyhaven_assets L S asset_type categories st
         = (Inl e, \<lparr>blender_connection = Some c2, env = w2\<rparr>)"
  unfolding search_polyhaven_assets_def
  by (rule with_blender_run, assumption) (simp add: status_gate_enabled then_format_raise)

lemma download_polyhaven_asset_status_failed:
  "blender_connection st = Some c
     \<Longrightarrow> send_command L ''get_polyhaven_status'' None c (env st) = (Inl e, c', w')
     \<Longrightarrow> download_polyhaven_asset L asset_id asset_type resolution file_format st
         = (Inr (JStr (exn_str e)), \<lparr>blender_connection = Some c', env = w'\<rparr>)"
  unfolding download_polyhaven_asset_def
  by (rule with_blender_run, assumption) (simp add: get_polyhaven_status_failed status_gate_failed)

lemma download_polyhaven_asset_raises:
  "blender_connection st = Some c
     \<Longrightarrow> get_polyhaven_status L c (env st) = (Inr (JObj status), c1, w1)
     \<Longrightarrow> py_truthy (dict_get status ''enabled'' (JBool False))
     \<Longrightarrow> send_command L ''download_polyhaven_asset''
           (Some (download_params asset_id asset_type resolution file_format)) c1 w1
         = (Inl e, c2, w2)
     \<Longrightarrow> download_polyhaven_asset L asset_id asset_type resolution file_format st
         = (Inl e, \<lparr>blender_connection = Some c2, env = w2\<rparr>)"
  unfolding download_polyhaven_asset_def
  by (rule with_blender_run, assumption) (simp add: status_gate_enabled then_format_raise)

lemma set_texture_status_failed:
  "blender_connection st = Some c
     \<Longrightarrow> send_command L ''get_polyhaven_status'' None c (env st) = (Inl e, c', w')
     \<Longrightarrow> set_texture L object_name texture_id st
         = (Inr (JStr (exn_str e)), \<lparr>blender_connection = Some c', env = w'\<rparr>)"
  unfolding set_texture_def
  by (rule with_blender_run, assumption) (simp add: get_polyhaven_status_failed status_gate_failed)

lemma set_texture_raises:
  "blender_connection st = Some c
     \<Longrightarrow> get_polyhaven_status L c (env st) = (Inr (JObj status), c1, w1)
     \<Longrightarrow> py_truthy (dict_get status ''enabled'' (JBool False))
     \<Longrightarrow> send_command L ''set_texture''
           (Some [(''object_name'', object_name), (''texture_id'', texture_id)]) c1 w1
         = (Inl e, c2, w2)
     \<Longrightarrow> set_texture L object_name texture_id st
         = (Inl e, \<lparr>blender_connection = Some c2, env = w2\<rparr>)"
  unfolding set_texture_def
  by (rule with_blender_run, assumption) (simp add: status_gate_enabled then_format_raise)

lemma generate_3d_model_from_text_status_failed:
  "blender_connection st = Some c
     \<Longrightarrow> send_command L ''get_hyper3d_status'' None c (env st) = (Inl e, c', w')
     \<Longrightarrow> generate_3d_model_from_text L text_prompt model_name bbox_condition st
         = (Inr (JStr (exn_str e)), \<lparr>blender_connection = Some c', env = w'\<rparr>)"
  unfolding generate_3d_model_from_text_def
  by (rule with_blender_run, assumption) (simp add: get_hyper3d_status_failed status_gate_failed)

lemma generate_3d_model_from_text_raises:
  "blender_connection st = Some c
     \<Longrightarrow> get_hyper3d_status L c (env st) = (Inr (JObj status), c1, w1)
     \<Longrightarrow> py_truthy (dict_get status ''enabled'' (JBool False))
     \<Longrightarrow> send_command L ''create_rodin_job''
           (Some [(''text_prompt'', text_prompt), (''images'', JNull),
            (''bbox_condition'', bbox_condition)]) c1 w1
         = (Inl e, c2, w2)
     \<Longrightarrow> generate_3d_model_from_text L text_prompt model_name bbox_condition st
         = (Inl e, \<lparr>blender_connection = Some c2, env = w2\<rparr>)"
  unfolding generate_3d_model_from_text_def
  by (rule with_blender_run, assumption) (simp add: status_gate_enabled then_format_raise)

subsection \<open>The example answers\<close>

lemma loads_examples:
  "loads_table example_docs box1_reply = Inr box1_doc"
  "loads_table example_docs error_reply = Inr error_doc"
  "loads_table example_docs polyhaven_off_reply = Inr polyhaven_off_doc"
  "loads_table example_docs hyper3d_off_reply = Inr hyper3d_off_doc"
  "loads_table example_docs hyper3d_on_reply = Inr hyper3d_on_doc"
  "loads_table example_docs job_reply = Inr job_doc"
  "loads_table example_docs pending_reply = Inr pending_doc"
  "loads_table example_docs done_reply = Inr done_doc"
  "loads_table example_docs failed_reply = Inr failed_doc"
  "loads_table example_docs empty_reply = Inr empty_doc"
  "loads_table example_docs import_reply = Inr import_doc"
  "loads_table example_docs list_reply = Inr list_doc"
  by (simp_all add: loads_table_def example_docs_def box1_reply_def error_reply_def
      polyhaven_off_reply_def hyper3d_off_reply_def hyper3d_on_reply_def job_reply_def
      pending_reply_def done_reply_def failed_reply_def empty_reply_def import_reply_def
      list_reply_def)

lemma replies_nonempty:
  "box1_reply \<noteq> []" "error_reply \<noteq> []" "polyhaven_off_reply \<noteq> []"
  "hyper3d_off_reply \<noteq> []" "hyper3d_on_reply \<noteq> []" "job_reply \<noteq> []"
  "pending_reply \<noteq> []" "done_reply \<noteq> []" "failed_reply \<noteq> []" "empty_reply \<noteq> []"
  "import_reply \<noteq> []"
  "list_reply \<noteq> []"
  by (simp_all add: box1_reply_def error_reply_def
      polyhaven_off_reply_def hyper3d_off_reply_def hyper3d_on_reply_def job_reply_def
      pending_reply_def done_reply_def failed_reply_def empty_reply_def import_reply_def
      list_reply_def)

text \<open>
  One command on a cached socket, in a world whose next answer is one chunk \<open>d\<close> that parses
  to an object.
\<close>

lemma send_command_answered:
  assumes "L d = Inr (JObj kvs)" and "d \<noteq> []"
  shows "send_command L t p (localhost\<lparr>socket := Some s\<rparr>)
      \<lparr>connect_script = cs, send_script = [], recv_script = Data d # rest, sockets_made = n,
       trace = tr\<rparr>
    = (if dict_get kvs ''status'' JNull = JStr ''error'' then
        (Inl (Exn Exception (''Communication error with Blender: ''
            @ py_str (dict_get kvs ''message'' (JStr ''Unknown error from Blender'')))),
         localhost\<lparr>socket := None\<rparr>,
         \<lparr>connect_script = cs, send_script = [], recv_script = rest, sockets_made = n,
          trace = tr @ [SendAll (dumps (command_doc t p))]\<rparr>)
      else
        (Inr (dict_get kvs ''result'' (JObj [])), localhost\<lparr>socket := Some s\<rparr>,
         \<lparr>connect_script = cs, send_script = [], recv_script = rest, sockets_made = n,
          trace = tr @ [SendAll (dumps (command_doc t p))]\<rparr>))"
  using send_command_cached [of "localhost\<lparr>socket := Some s\<rparr>"
      "\<lparr>connect_script = cs, send_script = [], recv_script = Data d # rest, sockets_made = n,
       trace = tr\<rparr>" d rest L kvs t p] assms
  by simp

lemma send_command_error_example:
  "send_command (loads_table example_docs) t p (localhost\<lparr>socket := Some s\<rparr>)
      \<lparr>connect_script = cs, send_script = [], recv_script = Data error_reply # rest,
       sockets_made = n, trace = tr\<rparr>
    = (Inl (Exn Exception ''Communication error with Blender: Unknown object type''),
       localhost\<lparr>socket := None\<rparr>,
       \<lparr>connect_script = cs, send_script = [], recv_script = rest, sockets_made = n,
        trace = tr @ [SendAll (dumps (command_doc t p))]\<rparr>)"
  using send_command_answered [of "loads_table example_docs" error_reply
      "[(''status'', JStr ''error''), (''message'', JStr ''Unknown object type'')]" t p s cs rest n tr]
    loads_examples(2) replies_nonempty(2)
  by (simp add: dict_get_def py_str_def error_doc_def)

subsection \<open>What the status checks return\<close>




subsection \<open>Disabled integrations\<close>

lemma get_polyhaven_categories_disabled:
  "blender_connection st = Some c
     \<Longrightarrow> get_polyhaven_status L c (env st) = (Inr (JObj status), c1, w1)
     \<Longrightarrow> \<not> py_truthy (dict_get status ''enabled'' (JBool False))
     \<Longrightarrow> get_polyhaven_categories L S asset_type st =
           (Inr (dict_get status ''message'' (JStr polyhaven_disabled)),
            \<lparr>blender_connection = Some c1, env = w1\<rparr>)"
  unfolding get_polyhaven_categories_def
  by (rule with_blender_run, assumption) (simp add: status_gate_disabled)

lemma search_polyhaven_assets_disabled:
  "blender_connection st = Some c
     \<Longrightarrow> get_polyhaven_status L c (env st) = (Inr (JObj status), c1, w1)
     \<Longrightarrow> \<not> py_truthy (dict_get status ''enabled'' (JBool False))
     \<Longrightarrow> search_polyhaven_assets L S asset_type categories st =
           (Inr (dict_get status ''message'' (JStr polyhaven_disabled)),
            \<lparr>blender_connection = Some c1, env = w1\<rparr>)"
  unfolding search_polyhaven_assets_def
  by (rule with_blender_run, assumption) (simp add: status_gate_disabled)

lemma download_polyhaven_asset_disabled:
  "blender_connection st = Some c
     \<Longrightarrow> get_polyhaven_status L c (env st) = (Inr (JObj status), c1, w1)
     \<Longrightarrow> \<not> py_truthy (dict_get status ''enabled'' (JBool False))
     \<Longrightarrow> download_polyhaven_asset L asset_id asset_type resolution file_format st =
           (Inr (dict_get status ''message'' (JStr polyhaven_disabled)),
            \<lparr>blender_connection = Some c1, env = w1\<rparr>)"
  unfolding download_polyhaven_asset_def
  by (rule with_blender_run, assumption) (simp add: status_gate_disabled)

lemma set_texture_disabled:
  "blender_connection st = Some c
     \<Longrightarrow> get_polyhaven_status L c (env st) = (Inr (JObj status), c1, w1)
     \<Longrightarrow> \<not> py_truthy (dict_get status ''enabled'' (JBool False))
     \<Longrightarrow> set_texture L object_name texture_id st =
           (Inr (dict_get status ''message'' (JStr polyhaven_disabled)),
            \<lparr>blender_connection = Some c1, env = w1\<rparr>)"
  unfolding set_texture_def
  by (rule with_blender_run, assumption) (simp add: status_gate_disabled)

lemma generate_3d_model_from_text_disabled:
  "blender_connection st = Some c
     \<Longrightarrow> get_hyper3d_status L c (env st) = (Inr (JObj status), c1, w1)
     \<Longrightarrow> \<not> py_truthy (dict_get status ''enabled'' (JBool False))
     \<Longrightarrow> generate_3d_model_from_text L text_prompt model_name bbox_condition st =
           (Inr (dict_get status ''message'' (JStr hyper3d_disabled)),
            \<lparr>blender_connection = Some c1, env = w1\<rparr>)"
  unfolding generate_3d_model_from_text_def
  by (rule with_blender_run, assumption) (simp add: status_gate_disabled)

lemma get_polyhaven_status_trace:
  assumes "get_polyhaven_status L c w = (r, c1, w1)"
  shows "\<exists>evs. trace w1 = trace w @ evs
    \<and> set evs \<subseteq> {Connect (host c) (port c),
                   SendAll (dumps (command_doc ''get_polyhaven_status'' None))}"
proof -
  obtain r' c' w' where s: "send_command L ''get_polyhaven_status'' None c w = (r', c', w')"
    by (cases "send_command L ''get_polyhaven_status'' None c w") auto
  with assms have "w1 = w'"
    by (cases r') (simp_all add: get_polyhaven_status_def)
  with send_command_trace [OF s] show ?thesis
    by simp
qed

lemma get_hyper3d_status_trace:
  assumes "get_hyper3d_status L c w = (r, c1, w1)"
  shows "\<exists>evs. trace w1 = trace w @ evs
    \<and> set evs \<subseteq> {Connect (host c) (port c),
                   SendAll (dumps (command_doc ''get_hyper3d_status'' None))}"
proof -
  obtain r' c' w' where s: "send_command L ''get_hyper3d_status'' None c w = (r', c', w')"
    by (cases "send_command L ''get_hyper3d_status'' None c w") auto
  with assms have "w1 = w'"
    by (cases r') (simp_all add: get_hyper3d_status_def)
  with send_command_trace [OF s] show ?thesis
    by simp
qed

text \<open>The bytes of a command begin with its name, so they tell the commands apart.\<close>

lemma command_bytes_prefix:
  "dumps (command_doc t p)
     = ''{'' @ dumps_str ''type'' @ '': '' @ dumps_str t @ '', '' @ dumps_str ''params'' @ '': ''
       @ dumps (JObj (case p of None \<Rightarrow> [] | Some kvs \<Rightarrow> kvs)) @ ''}''"
  by (simp add: command_doc_def)

lemma polyhaven_commands_differ:
  "dumps (command_doc ''get_polyhaven_categories'' p) \<noteq> dumps (command_doc ''get_polyhaven_status'' q)"
  "dumps (command_doc ''search_polyhaven_assets'' p) \<noteq> dumps (command_doc ''get_polyhaven_status'' q)"
  "dumps (command_doc ''download_polyhaven_asset'' p) \<noteq> dumps (command_doc ''get_polyhaven_status'' q)"
  "dumps (command_doc ''set_texture'' p) \<noteq> dumps (command_doc ''get_polyhaven_status'' q)"
  unfolding command_bytes_prefix
  by (simp_all add: dumps_str_def dumps_char_def code_point_def dq_def bs_def)

lemma hyper3d_commands_differ:
  "dumps (command_doc ''create_rodin_job'' p) \<noteq> dumps (command_doc ''get_hyper3d_status'' q)"
  "dumps (command_doc ''poll_rodin_job_status'' p) \<noteq> dumps (command_doc ''get_hyper3d_status'' q)"
  "dumps (command_doc ''import_generated_asset'' p) \<noteq> dumps (command_doc ''get_hyper3d_status'' q)"
  unfolding command_bytes_prefix
  by (simp_all add: dumps_str_def dumps_char_def code_point_def dq_def bs_def)

text \<open>
  C5. When the status check of its integration says that it is not enabled, an optional
  tool returns the message of the status (\<^verbatim>\<open>status.get("message", default)\<close>) and stops in
  the state the status check left: its own commands are never sent.
\<close>

theorem disabled_integration_short_circuits:
  assumes "blender_connection st = Some c"
  shows
   "(get_polyhaven_status L c (env st) = (Inr (JObj status), c1, w1)
      \<and> \<not> py_truthy (dict_get status ''enabled'' (JBool False))
     \<longrightarrow> get_polyhaven_categories L S asset_type st =
           (Inr (dict_get status ''message'' (JStr polyhaven_disabled)),
            \<lparr>blender_connection = Some c1, env = w1\<rparr>)
         \<and> search_polyhaven_assets L S asset_type categories st =
           (Inr (dict_get status ''message'' (JStr polyhaven_disabled)),
            \<lparr>blender_connection = Some c1, env = w1\<rparr>)
         \<and> download_polyhaven_asset L asset_id asset_type resolution file_format st =
           (Inr (dict_get status ''message'' (JStr polyhaven_disabled)),
            \<lparr>blender_connection = Some c1, env = w1\<rparr>)
         \<and> set_texture L object_name texture_id st =
           (Inr (dict_get status ''message'' (JStr polyhaven_disabled)),
            \<lparr>blender_connection = Some c1, env = w1\<rparr>)
         \<and> (\<exists>evs. trace w1 = trace (env st) @ evs
               \<and> (\<forall>p. SendAll (dumps (command_doc ''get_polyhaven_categories'' p)) \<notin> set evs
                      \<and> SendAll (dumps (command_doc ''search_polyhaven_assets'' p)) \<notin> set evs
                      \<and> SendAll (dumps (command_doc ''download_polyhaven_asset'' p)) \<notin> set evs
                      \<and> SendAll (dumps (command_doc ''set_texture'' p)) \<notin> set evs)))
    \<and> (get_hyper3d_status L c (env st) = (Inr (JObj status), c1, w1)
      \<and> \<not> py_truthy (dict_get status ''enabled'' (JBool False))
     \<longrightarrow> generate_3d_model_from_text L text_prompt model_name bbox_condition st =
           (Inr (dict_get status ''message'' (JStr hyper3d_disabled)),
            \<lparr>blender_connection = Some c1, env = w1\<rparr>)
         \<and> (\<exists>evs. trace w1 = trace (env st) @ evs
               \<and> (\<forall>p. SendAll (dumps (command_doc ''create_rodin_job'' p)) \<notin> set evs
                      \<and> SendAll (dumps (command_doc ''poll_rodin_job_status'' p)) \<notin> set evs
                      \<and> SendAll (dumps (command_doc ''import_generated_asset'' p)) \<notin> set evs)))"
proof (intro conjI impI; elim conjE)
  assume check: "get_polyhaven_status L c (env st) = (Inr (JObj status), c1, w1)"
    and off: "\<not> py_truthy (dict_get status ''enabled'' (JBool False))"
  show "get_polyhaven_categories L S asset_type st =
           (Inr (dict_get status ''message'' (JStr polyhaven_disabled)),
            \<lparr>blender_connection = Some c1, env = w1\<rparr>)"
    by (rule get_polyhaven_categories_disabled [OF assms check off])
  show "search_polyhaven_assets L S asset_type categories st =
           (Inr (dict_get status ''message'' (JStr polyhaven_disabled)),
            \<lparr>blender_connection = Some c1, env = w1\<rparr>)"
    by (rule search_polyhaven_assets_disabled [OF assms check off])
  show "download_polyhaven_asset L asset_id asset_type resolution file_format st =
           (Inr (dict_get status ''message'' (JStr polyhaven_disabled)),
            \<lparr>blender_connection = Some c1, env = w1\<rparr>)"
    by (rule download_polyhaven_asset_disabled [OF assms check off])
  show "set_texture L object_name texture_id st =
           (Inr (dict_get status ''message'' (JStr polyhaven_disabled)),
            \<lparr>blender_connection = Some c1, env = w1\<rparr>)"
    by (rule set_texture_disabled [OF assms check off])
  from get_polyhaven_status_trace [OF check] obtain evs where
    evs: "trace w1 = trace (env st) @ evs"
      "set evs \<subseteq> {Connect (host c) (port c),
                   SendAll (dumps (command_doc ''get_polyhaven_status'' None))}"
    by blast
  have "\<forall>p. SendAll (dumps (command_doc ''get_polyhaven_categories'' p)) \<notin> set evs
          \<and> SendAll (dumps (command_doc ''search_polyhaven_assets'' p)) \<notin> set evs
          \<and> SendAll (dumps (command_doc ''download_polyhaven_asset'' p)) \<notin> set evs
          \<and> SendAll (dumps (command_doc ''set_texture'' p)) \<notin> set evs"
    using evs(2) polyhaven_commands_differ by auto
  with evs(1) show "\<exists>evs. trace w1 = trace (env st) @ evs
      \<and> (\<forall>p. SendAll (dumps (command_doc ''get_polyhaven_categories'' p)) \<notin> set evs
             \<and> SendAll (dumps (command_doc ''search_polyhaven_assets'' p)) \<notin> set evs
             \<and> SendAll (dumps (command_doc ''download_polyhaven_asset'' p)) \<notin> set evs
             \<and> SendAll (dumps (command_doc ''set_texture'' p)) \<notin> set evs)"
    by blast
next
  assume check: "get_hyper3d_status L c (env st) = (Inr (JObj status), c1, w1)"
    and off: "\<not> py_truthy (dict_get status ''enabled'' (JBool False))"
  show "generate_3d_model_from_text L text_prompt model_name bbox_condition st =
           (Inr (dict_get status ''message'' (JStr hyper3d_disabled)),
            \<lparr>blender_connection = Some c1, env = w1\<rparr>)"
    by (rule generate_3d_model_from_text_disabled [OF assms check off])
  from get_hyper3d_status_trace [OF check] obtain evs where
    evs: "trace w1 = trace (env st) @ evs"
      "set evs \<subseteq> {Connect (host c) (port c),
                   SendAll (dumps (command_doc ''get_hyper3d_status'' None))}"
    by blast
  have "\<forall>p. SendAll (dumps (command_doc ''create_rodin_job'' p)) \<notin> set evs
          \<and> SendAll (dumps (command_doc ''poll_rodin_job_status'' p)) \<notin> set evs
          \<and> SendAll (dumps (command_doc ''import_generated_asset'' p)) \<notin> set evs"
    using evs(2) hyper3d_commands_differ by auto
  with evs(1) show "\<exists>evs. trace w1 = trace (env st) @ evs
      \<and> (\<forall>p. SendAll (dumps (command_doc ''create_rodin_job'' p)) \<notin> set evs
             \<and> SendAll (dumps (command_doc ''poll_rodin_job_status'' p)) \<notin> set evs
             \<and> SendAll (dumps (command_doc ''import_generated_asset'' p)) \<notin> set evs)"
    by blast
qed

theorem disabled_integration_short_circuits_witness:
  "get_polyhaven_categories (loads_table example_docs) sorted_numbers (JStr ''hdris'')
      (connected [Data polyhaven_off_reply])
    = (Inr (JStr ''PolyHaven is disabled''),
       \<lparr>blender_connection = Some (localhost\<lparr>socket := Some 0\<rparr>),
        env = \<lparr>connect_script = [], send_script = [], recv_script = [], sockets_made = 1,
               trace = [SendAll (dumps (command_doc ''get_polyhaven_status'' None))]\<rparr>\<rparr>)
   \<and> search_polyhaven_assets (loads_table example_docs) sorted_numbers (JStr ''all'') JNull
      (connected [Data polyhaven_off_reply])
    = (Inr (JStr ''PolyHaven is disabled''),
       \<lparr>blender_connection = Some (localhost\<lparr>socket := Some 0\<rparr>),
        env = \<lparr>connect_script = [], send_script = [], recv_script = [], sockets_made = 1,
               trace = [SendAll (dumps (command_doc ''get_polyhaven_status'' None))]\<rparr>\<rparr>)
   \<and> download_polyhaven_asset (loads_table example_docs) (JStr ''bricks'') (JStr ''textures'')
      (JStr ''1k'') JNull (connected [Data polyhaven_off_reply])
    = (Inr (JStr ''PolyHaven is disabled''),
       \<lparr>blender_connection = Some (localhost\<lparr>socket := Some 0\<rparr>),
        env = \<lparr>connect_script = [], send_script = [], recv_script = [], sockets_made = 1,
               trace = [SendAll (dumps (command_doc ''get_polyhaven_status'' None))]\<rparr>\<rparr>)
   \<and> set_texture (loads_table example_docs) (JStr ''Box1'') (JStr ''bricks'')
      (connected [Data polyhaven_off_reply])
    = (Inr (JStr ''PolyHaven is disabled''),
       \<lparr>blender_connection = Some (localhost\<lparr>socket := Some 0\<rparr>),
        env = \<lparr>connect_script = [], send_script = [], recv_script = [], sockets_made = 1,
               trace = [SendAll (dumps (command_doc ''get_polyhaven_status'' None))]\<rparr>\<rparr>)
   \<and> generate_3d_model_from_text (loads_table example_docs) (JStr ''a chair'') (JStr ''chair'')
      JNull (connected [Data hyper3d_off_reply])
    = (Inr (JStr ''Hyper3D is disabled''),
       \<lparr>blender_connection = Some (localhost\<lparr>socket := Some 0\<rparr>),
        env = \<lparr>connect_script = [], send_script = [], recv_script = [], sockets_made = 1,
               trace = [SendAll (dumps (command_doc ''get_hyper3d_status'' None))]\<rparr>\<rparr>)"
proof -
  let ?L = "loads_table example_docs"
  let ?c = "localhost\<lparr>socket := Some 0\<rparr>"
  let ?st1 = "connected [Data polyhaven_off_reply]" and ?st2 = "connected [Data hyper3d_off_reply]"
  let ?p = "[(''enabled'', JBool False), (''message'', JStr ''PolyHaven is disabled'')]"
  let ?h = "[(''enabled'', JBool False), (''message'', JStr ''Hyper3D is disabled'')]"
  let ?wp = "\<lparr>connect_script = [], send_script = [], recv_script = [], sockets_made = 1,
               trace = [SendAll (dumps (command_doc ''get_polyhaven_status'' None))]\<rparr>"
  let ?wh = "\<lparr>connect_script = [], send_script = [], recv_script = [], sockets_made = 1,
               trace = [SendAll (dumps (command_doc ''get_hyper3d_status'' None))]\<rparr>"
  have conn1: "blender_connection ?st1 = Some ?c"
    by (simp add: connected_def)
  have conn2: "blender_connection ?st2 = Some ?c"
    by (simp add: connected_def)
  have check1: "get_polyhaven_status ?L ?c (env ?st1) = (Inr (JObj ?p), ?c, ?wp)"
    using send_command_answered [of ?L polyhaven_off_reply _ "''get_polyhaven_status''" None 0
        "[]" "[]" 1 "[]"] loads_examples(3) replies_nonempty(3)
    by (simp add: get_polyhaven_status_def connected_def polyhaven_off_doc_def dict_get_def)
  have check2: "get_hyper3d_status ?L ?c (env ?st2) = (Inr (JObj ?h), ?c, ?wh)"
    using send_command_answered [of ?L hyper3d_off_reply _ "''get_hyper3d_status''" None 0
        "[]" "[]" 1 "[]"] loads_examples(4) replies_nonempty(4)
    by (simp add: get_hyper3d_status_def connected_def hyper3d_off_doc_def dict_get_def)
  have off1: "\<not> py_truthy (dict_get ?p ''enabled'' (JBool False))"
    by (simp add: dict_get_def py_truthy_def)
  have off2: "\<not> py_truthy (dict_get ?h ''enabled'' (JBool False))"
    by (simp add: dict_get_def py_truthy_def)
  have m1: "dict_get ?p ''message'' (JStr polyhaven_disabled) = JStr ''PolyHaven is disabled''"
    by (simp add: dict_get_def)
  have m2: "dict_get ?h ''message'' (JStr hyper3d_disabled) = JStr ''Hyper3D is disabled''"
    by (simp add: dict_get_def)
  note polyhaven = disabled_integration_short_circuits [OF conn1, where L="?L" and status="?p"
      and ?c1.0="?c" and ?w1.0="?wp" and S=sorted_numbers, THEN conjunct1, rule_format,
      OF conjI [OF check1 off1], unfolded m1]
  note hyper3d = disabled_integration_short_circuits [OF conn2, where L="?L" and status="?h"
      and ?c1.0="?c" and ?w1.0="?wh", THEN conjunct2, rule_format,
      OF conjI [OF check2 off2], unfolded m2]
  from polyhaven [where asset_type="JStr ''hdris''"]
    polyhaven [where asset_type="JStr ''all''" and categories=JNull]
    polyhaven [where asset_id="JStr ''bricks''" and asset_type="JStr ''textures''"
      and resolution="JStr ''1k''" and file_format=JNull]
    polyhaven [where object_name="JStr ''Box1''" and texture_id="JStr ''bricks''"]
    hyper3d [where text_prompt="JStr ''a chair''" and model_name="JStr ''chair''"
      and bbox_condition=JNull]
  show ?thesis
    by blast
qed

subsection \<open>Polling a generation job\<close>

lemma poll_loop_pending:
  "pending_polls L k subscription_key request_id c w = Some (c1, w1)
     \<Longrightarrow> poll_loop L (k + n) subscription_key request_id c w
         = poll_loop L n subscription_key request_id c1 w1"
proof (induction k arbitrary: c w)
  case 0
  then show ?case by simp
next
  case (Suc k)
  obtain r c' w' where s: "send_command L ''poll_rodin_job_status''
      (Some (poll_params subscription_key request_id)) c w = (r, c', w')"
    by (cases "send_command L ''poll_rodin_job_status''
      (Some (poll_params subscription_key request_id)) c w") auto
  from Suc.prems s obtain status_result where r: "r = Inr status_result"
    by (cases r) auto
  from Suc.prems s r have pending: "check_status status_result = Inr (Inr False)"
    and rest: "pending_polls L k subscription_key request_id c' (sleep 5 w') = Some (c1, w1)"
    by (auto split: if_splits)
  from Suc.IH [OF rest] s r pending show ?case
    by simp
qed

lemma key_present: "map_of kvs k = Some v \<Longrightarrow> k \<in> fst ` set kvs"
  by (induction kvs) (auto split: if_splits)

lemma check_status_all_done:
  assumes "map_of kvs ''status_list'' = Some (JArr statuses)"
    and "\<forall>status \<in> set statuses. status = JStr ''Done''"
  shows "check_status (JObj kvs) = Inr (Inr True)"
  using assms key_present [OF assms(1)]
  by (simp add: check_status_def py_contains_def py_getitem_def py_iter_def and_then_def
      list_all_iff)


lemma attempts_left: "k < max_attempts \<Longrightarrow> \<exists>n. max_attempts = k + Suc n"
  by (metis add_Suc_right less_imp_Suc_add)

lemma poll_loop_completes:
  assumes "k < max_attempts"
    and "pending_polls L k subscription_key request_id c w = Some (c1, w1)"
    and "send_command L ''poll_rodin_job_status''
           (Some (poll_params subscription_key request_id)) c1 w1 = (Inr status_result, c2, w2)"
    and "check_status status_result = Inr (Inr True)"
  shows "poll_loop L max_attempts subscription_key request_id c w = (PollEnd True, c2, w2)"
proof -
  from attempts_left [OF assms(1)] obtain n where n: "max_attempts = k + Suc n"
    by blast
  have "poll_loop L (k + Suc n) subscription_key request_id c w
      = poll_loop L (Suc n) subscription_key request_id c1 w1"
    by (rule poll_loop_pending [OF assms(2)])
  also have "\<dots> = (PollEnd True, c2, w2)"
    using assms(3,4) by simp
  finally show ?thesis
    unfolding n .
qed



lemma send_command_keeps_socket:
  "send_command L t p c w = (Inr r, c', w') \<Longrightarrow> socket c' \<noteq> None"
  unfolding send_command_def
  by (auto simp: connect_def split: prod.splits bool.splits sum.splits if_splits list.splits)

lemma send_command_cached_trace:
  assumes "socket c \<noteq> None"
  shows "trace (snd (snd (send_command L t p c w))) = trace w @ [SendAll (dumps (command_doc t p))]"
proof -
  obtain r w2 where ex: "exchange L t p w = (r, w2)"
    by (cases "exchange L t p w") auto
  from assms ex exchange_trace [OF ex] show ?thesis
    by (cases r) (auto simp: send_command_def)
qed

lemma then_format_state: "snd (then_format called f) = snd called"
  by (cases called) (simp add: then_format_def)

text \<open>The loop is left complete after the poll after \<open>k\<close> pending ones: the import follows.\<close>

lemma poll_then_import:
  assumes "k < max_attempts"
    and "pending_polls L k subscription_key request_id c w = Some (c1, w1)"
    and "send_command L ''poll_rodin_job_status''
           (Some (poll_params subscription_key request_id)) c1 w1 = (Inr status_result, c2, w2)"
    and "check_status status_result = Inr (Inr True)"
  shows "poll_and_import L model_name job_id subscription_key request_id c w
      = then_format
          (send_command L ''import_generated_asset''
             (Some (import_params model_name job_id request_id)) c2 w2)
          (import_result_text model_name)"
    and "trace (snd (snd (poll_and_import L model_name job_id subscription_key request_id c w)))
      = trace w2 @ [SendAll (import_bytes model_name job_id request_id)]"
proof -
  show 1: "poll_and_import L model_name job_id subscription_key request_id c w
      = then_format
          (send_command L ''import_generated_asset''
             (Some (import_params model_name job_id request_id)) c2 w2)
          (import_result_text model_name)"
    using poll_loop_completes [OF assms] by (simp add: poll_and_import_def)
  show "trace (snd (snd (poll_and_import L model_name job_id subscription_key request_id c w)))
      = trace w2 @ [SendAll (import_bytes model_name job_id request_id)]"
    unfolding 1 then_format_state import_bytes_def
    by (rule send_command_cached_trace [OF send_command_keeps_socket [OF assms(3)]])
qed

lemma occurrences_append [simp]:
  "occurrences ev (xs @ ys) = occurrences ev xs + occurrences ev ys"
  by (simp add: occurrences_def)




text \<open>An exception of a poll, or of the import, leaves the polling and the import.\<close>

lemma poll_raises:
  assumes "k < max_attempts"
    and "pending_polls L k subscription_key request_id c w = Some (c1, w1)"
    and "send_command L ''poll_rodin_job_status''
           (Some (poll_params subscription_key request_id)) c1 w1 = (Inl e, c2, w2)"
  shows "poll_and_import L model_name job_id subscription_key request_id c w = (Inl e, c2, w2)"
proof -
  from attempts_left [OF assms(1)] obtain n where n: "max_attempts = k + Suc n"
    by blast
  have "poll_loop L (k + Suc n) subscription_key request_id c w
      = poll_loop L (Suc n) subscription_key request_id c1 w1"
    by (rule poll_loop_pending [OF assms(2)])
  also have "\<dots> = (PollRaise e, c2, w2)"
    using assms(3) by simp
  finally have "poll_loop L max_attempts subscription_key request_id c w = (PollRaise e, c2, w2)"
    unfolding n .
  then show ?thesis
    by (simp add: poll_and_import_def)
qed

lemma import_raises:
  assumes "k < max_attempts"
    and "pending_polls L k subscription_key request_id c w = Some (c1, w1)"
    and "send_command L ''poll_rodin_job_status''
           (Some (poll_params subscription_key request_id)) c1 w1 = (Inr status_result, c2, w2)"
    and "check_status status_result = Inr (Inr True)"
    and "send_command L ''import_generated_asset''
           (Some (import_params model_name job_id request_id)) c2 w2 = (Inl e, c3, w3)"
  shows "poll_and_import L model_name job_id subscription_key request_id c w = (Inl e, c3, w3)"
  using poll_then_import(1) [OF assms(1-4), of model_name job_id] assms(5)
  by (simp add: then_format_raise)

lemma import_follows_poll:
  assumes "send_command L ''poll_rodin_job_status''
           (Some (poll_params subscription_key request_id)) c1 w1 = (Inr status_result, c2, w2)"
    and "send_command L ''import_generated_asset''
           (Some (import_params model_name job_id request_id)) c2 w2 = (r, c3, w3)"
  shows "trace w3 = trace w2 @ [SendAll (import_bytes model_name job_id request_id)]"
  using send_command_cached_trace [OF send_command_keeps_socket [OF assms(1)],
      of L "''import_generated_asset''" "Some (import_params model_name job_id request_id)" w2]
    assms(2)
  by (simp add: import_bytes_def)

subsection \<open>From the tool to its polling loop\<close>

text \<open>
  With the integration enabled and a job created, \<^verbatim>\<open>generate_3d_model_from_text\<close> is the
  polling and the import above.
\<close>

lemma generate_reaches_polling:
  assumes "blender_connection st = Some c"
    and "get_hyper3d_status L c (env st) = (Inr (JObj status), c1, w1)"
    and "py_truthy (dict_get status ''enabled'' (JBool False))"
    and "send_command L ''create_rodin_job''
           (Some [(''text_prompt'', text_prompt), (''images'', JNull),
                  (''bbox_condition'', bbox_condition)]) c1 w1
         = (Inr job_result, c2, w2)"
    and "job_ids job_result = Inr (Inr (job_id, subscription_key, request_id))"
    and "poll_and_import L model_name job_id subscription_key request_id c2 w2 = (r, c3, w3)"
  shows "generate_3d_model_from_text L text_prompt model_name bbox_condition st
    = (r, \<lparr>blender_connection = Some c3, env = w3\<rparr>)"
  unfolding generate_3d_model_from_text_def
  by (rule with_blender_run, rule assms(1))
    (simp add: status_gate_enabled [OF assms(2,3)] assms(4,5,6))

lemma generate_3d_model_from_text_poll_raises:
  assumes "blender_connection st = Some c"
    and "get_hyper3d_status L c (env st) = (Inr (JObj status), c1, w1)"
    and "py_truthy (dict_get status ''enabled'' (JBool False))"
    and "send_command L ''create_rodin_job''
           (Some [(''text_prompt'', text_prompt), (''images'', JNull),
                  (''bbox_condition'', bbox_condition)]) c1 w1
         = (Inr job_result, c2, w2)"
    and "job_ids job_result = Inr (Inr (job_id, subscription_key, request_id))"
    and "k < max_attempts"
    and "pending_polls L k subscription_key request_id c2 w2 = Some (c3, w3)"
    and "send_command L ''poll_rodin_job_status''
           (Some (poll_params subscription_key request_id)) c3 w3 = (Inl e, c', w')"
  shows "generate_3d_model_from_text L text_prompt model_name bbox_condition st
    = (Inl e, \<lparr>blender_connection = Some c', env = w'\<rparr>)"
  by (rule generate_reaches_polling [OF assms(1-5) poll_raises [OF assms(6-8)]])

lemma generate_3d_model_from_text_import_raises:
  assumes "blender_connection st = Some c"
    and "get_hyper3d_status L c (env st) = (Inr (JObj status), c1, w1)"
    and "py_truthy (dict_get status ''enabled'' (JBool False))"
    and "send_command L ''create_rodin_job''
           (Some [(''text_prompt'', text_prompt), (''images'', JNull),
                  (''bbox_condition'', bbox_condition)]) c1 w1
         = (Inr job_result, c2, w2)"
    and "job_ids job_result = Inr (Inr (job_id, subscription_key, request_id))"
    and "k < max_attempts"
    and "pending_polls L k subscription_key request_id c2 w2 = Some (c3, w3)"
    and "send_command L ''poll_rodin_job_status''
           (Some (poll_params subscription_key request_id)) c3 w3 = (Inr status_result, c4, w4)"
    and "check_status status_result = Inr (Inr True)"
    and "send_command L ''import_generated_asset''
           (Some (import_params model_name job_id request_id)) c4 w4 = (Inl e, c', w')"
  shows "generate_3d_model_from_text L text_prompt model_name bbox_condition st
    = (Inl e, \<lparr>blender_connection = Some c', env = w'\<rparr>)"
  by (rule generate_reaches_polling [OF assms(1-5) import_raises [OF assms(6-10)]])

subsection \<open>An example job\<close>

text \<open>
  The answers of the example on a cached socket: the integration is enabled, the job has the
  task \<^verbatim>\<open>"task-1"\<close> and the subscription key \<^verbatim>\<open>"key-1"\<close>, \<open>k\<close> pending answers in a row.
\<close>

lemma hyper3d_enabled_example:
  "get_hyper3d_status (loads_table example_docs) (localhost\<lparr>socket := Some s\<rparr>)
      \<lparr>connect_script = cs, send_script = [], recv_script = Data hyper3d_on_reply # rest,
       sockets_made = n, trace = tr\<rparr>
    = (Inr (JObj [(''enabled'', JBool True), (''message'', JStr ''Hyper3D is enabled'')]),
       localhost\<lparr>socket := Some s\<rparr>,
       \<lparr>connect_script = cs, send_script = [], recv_script = rest, sockets_made = n,
        trace = tr @ [SendAll (dumps (command_doc ''get_hyper3d_status'' None))]\<rparr>)"
  using send_command_answered [of "loads_table example_docs" hyper3d_on_reply _
      "''get_hyper3d_status''" None s cs rest n tr] loads_examples(5) replies_nonempty(5)
  by (simp add: get_hyper3d_status_def hyper3d_on_doc_def dict_get_def)

lemma enabled_example:
  "py_truthy (dict_get [(''enabled'', JBool True), (''message'', JStr ''Hyper3D is enabled'')]
     ''enabled'' (JBool False))"
  by (simp add: dict_get_def py_truthy_def)

lemma create_rodin_job_example:
  "send_command (loads_table example_docs) ''create_rodin_job'' p (localhost\<lparr>socket := Some s\<rparr>)
      \<lparr>connect_script = cs, send_script = [], recv_script = Data job_reply # rest,
       sockets_made = n, trace = tr\<rparr>
    = (Inr (JObj [(''uuid'', JStr ''task-1''),
                  (''jobs'', JObj [(''subscription_key'', JStr ''key-1'')])]),
       localhost\<lparr>socket := Some s\<rparr>,
       \<lparr>connect_script = cs, send_script = [], recv_script = rest, sockets_made = n,
        trace = tr @ [SendAll (dumps (command_doc ''create_rodin_job'' p))]\<rparr>)"
  using send_command_answered [of "loads_table example_docs" job_reply _
      "''create_rodin_job''" p s cs rest n tr] loads_examples(6) replies_nonempty(6)
  by (simp add: job_doc_def dict_get_def)

lemma job_ids_example:
  "job_ids (JObj [(''uuid'', JStr ''task-1''), (''jobs'', JObj [(''subscription_key'', JStr ''key-1'')])])
     = Inr (Inr (JStr ''task-1'', JStr ''key-1'', JNull))"
  by (simp add: job_ids_def py_contains_def py_getitem_def py_get_def dict_get_def and_then_def)

lemma check_status_pending_example:
  "check_status (JObj [(''status_list'', JArr [JStr ''Done'', JStr ''Generating''])])
     = Inr (Inr False)"
  by (simp add: check_status_def py_contains_def py_getitem_def py_iter_def and_then_def)

lemma pending_example:
  "pending_polls (loads_table example_docs) k subscription_key request_id
      (localhost\<lparr>socket := Some s\<rparr>)
      \<lparr>connect_script = cs, send_script = [],
       recv_script = replicate k (Data pending_reply) @ rest, sockets_made = n, trace = tr\<rparr>
    = Some (localhost\<lparr>socket := Some s\<rparr>,
        \<lparr>connect_script = cs, send_script = [], recv_script = rest, sockets_made = n,
         trace = tr @ concat (replicate k
                   [SendAll (poll_bytes subscription_key request_id), Sleep 5])\<rparr>)"
proof (induction k arbitrary: tr)
  case 0
  then show ?case by simp
next
  case (Suc k)
  have "send_command (loads_table example_docs) ''poll_rodin_job_status''
      (Some (poll_params subscription_key request_id)) (localhost\<lparr>socket := Some s\<rparr>)
      \<lparr>connect_script = cs, send_script = [],
       recv_script = Data pending_reply # replicate k (Data pending_reply) @ rest,
       sockets_made = n, trace = tr\<rparr>
    = (Inr (JObj [(''status_list'', JArr [JStr ''Done'', JStr ''Generating''])]),
       localhost\<lparr>socket := Some s\<rparr>,
       \<lparr>connect_script = cs, send_script = [],
        recv_script = replicate k (Data pending_reply) @ rest, sockets_made = n,
        trace = tr @ [SendAll (poll_bytes subscription_key request_id)]\<rparr>)"
    using send_command_answered [of "loads_table example_docs" pending_reply _
        "''poll_rodin_job_status''" "Some (poll_params subscription_key request_id)" s cs
        "replicate k (Data pending_reply) @ rest" n tr]
      loads_examples(7) replies_nonempty(7)
    by (simp add: pending_doc_def dict_get_def poll_bytes_def)
  then show ?case
    using Suc.IH [of "tr @ [SendAll (poll_bytes subscription_key request_id), Sleep 5]"]
    by (simp add: check_status_pending_example sleep_def)
qed

text \<open>One poll of the example, answered with a result that is a mapping.\<close>

lemma poll_example:
  assumes "loads_table example_docs d
      = Inr (JObj [(''status'', JStr ''success''), (''result'', JObj kvs)])"
    and "d \<noteq> []"
  shows "send_command (loads_table example_docs) ''poll_rodin_job_status''
      (Some (poll_params subscription_key request_id)) (localhost\<lparr>socket := Some s\<rparr>)
      \<lparr>connect_script = cs, send_script = [], recv_script = Data d # rest, sockets_made = n,
       trace = tr\<rparr>
    = (Inr (JObj kvs), localhost\<lparr>socket := Some s\<rparr>,
       \<lparr>connect_script = cs, send_script = [], recv_script = rest, sockets_made = n,
        trace = tr @ [SendAll (poll_bytes subscription_key request_id)]\<rparr>)"
  using send_command_answered [of "loads_table example_docs" d
      "[(''status'', JStr ''success''), (''result'', JObj kvs)]" "''poll_rodin_job_status''"
      "Some (poll_params subscription_key request_id)" s cs rest n tr] assms
  by (simp add: dict_get_def poll_bytes_def)

lemma import_example:
  "send_command (loads_table example_docs) ''import_generated_asset''
      (Some (import_params model_name job_id request_id)) (localhost\<lparr>socket := Some s\<rparr>)
      \<lparr>connect_script = cs, send_script = [], recv_script = Data import_reply # rest,
       sockets_made = n, trace = tr\<rparr>
    = (Inr (JObj [(''succeed'', JBool True)]), localhost\<lparr>socket := Some s\<rparr>,
       \<lparr>connect_script = cs, send_script = [], recv_script = rest, sockets_made = n,
        trace = tr @ [SendAll (import_bytes model_name job_id request_id)]\<rparr>)"
  using send_command_answered [of "loads_table example_docs" import_reply _
      "''import_generated_asset''" "Some (import_params model_name job_id request_id)"
      s cs rest n tr] loads_examples(11) replies_nonempty(11)
  by (simp add: import_doc_def dict_get_def import_bytes_def)

lemma import_text_example:
  "and_then (Inr (JObj [(''succeed'', JBool True)])) (import_result_text (JStr ''chair''))
     = Inr (JStr (''Successfully generated and imported 3D model '' @ sq @ ''chair'' @ sq
             @ '' based on the text prompt.''))"
  by (simp add: import_result_text_def py_get_def dict_get_def and_then_def py_truthy_def
      py_str_def)


subsection \<open>An answer with status error\<close>

text \<open>
  C1 fails as stated: the answer has status \<^verbatim>\<open>"error"\<close> and \<^verbatim>\<open>create_object\<close> returns no
  string, an exception leaves it.
\<close>

theorem create_object_error_status_counterexample:
  "create_object (loads_table example_docs) (JStr ''CUBE'') (JStr ''Box1'') JNull JNull JNull
      (connected [Data error_reply])
    = (Inl (Exn Exception ''Communication error with Blender: Unknown object type''),
       \<lparr>blender_connection = Some (localhost\<lparr>socket := None\<rparr>),
        env = \<lparr>connect_script = [], send_script = [], recv_script = [], sockets_made = 1,
               trace = [SendAll (dumps (command_doc ''create_object''
                  (Some [(''type'', JStr ''CUBE''), (''name'', JStr ''Box1'')])))]\<rparr>\<rparr>)"
  by (simp add: create_object_def with_blender_def get_blender_connection_def connected_def
      send_command_error_example then_format_raise create_object_params_def py_truthy_def)

text \<open>
  C1, as the code has it. When the answer has status \<^verbatim>\<open>"error"\<close>, \<^verbatim>\<open>send_command\<close> raises
  \<^verbatim>\<open>Exception("Communication error with Blender: " + message)\<close> and forgets the socket. The
  tools do not catch it: the exception, whose text holds the message, leaves
  \<^verbatim>\<open>get_scene_info\<close>, \<^verbatim>\<open>get_object_info\<close>, \<^verbatim>\<open>create_object\<close>, \<^verbatim>\<open>modify_object\<close>,
  \<^verbatim>\<open>delete_object\<close>, \<^verbatim>\<open>set_material\<close>, \<^verbatim>\<open>execute_blender_code\<close> and \<^verbatim>\<open>import_model\<close>, and it
  leaves the optional tools when it answers their own command; for
  \<^verbatim>\<open>generate_3d_model_from_text\<close> that is \<^verbatim>\<open>create_rodin_job\<close>, a poll of the job after
  fewer than 60 pending polls, and \<^verbatim>\<open>import_generated_asset\<close> after the poll that found the
  job complete. Only where it answers a status check is its text returned as a string: by the
  two status tools and by the optional tools.
\<close>

theorem error_status_leaves_the_tools:
  assumes "blender_connection st = Some c"
  shows
   "((if socket c = None then connect c (env st) else (True, c, env st)) = (True, c1, w1)
      \<and> sock_sendall (dumps (command_doc command_type params)) w1 = (None, w2)
      \<and> receive_full_response L w2 = (Inr data, w3)
      \<and> L data = Inr (JObj kvs)
      \<and> map_of kvs ''status'' = Some (JStr ''error'')
     \<longrightarrow> send_command L command_type params c (env st) =
          (Inl (Exn Exception (''Communication error with Blender: ''
              @ py_str (dict_get kvs ''message'' (JStr ''Unknown error from Blender'')))),
           c1\<lparr>socket := None\<rparr>, w3))
    \<and> (send_command L ''get_scene_info''
         None c (env st)
       = (Inl e, c', w')
     \<longrightarrow> get_scene_info L st
         = (Inl e, \<lparr>blender_connection = Some c', env = w'\<rparr>))
    \<and> (send_command L ''get_object_info''
         (Some [(''name'', name)]) c (env st)
       = (Inl e, c', w')
     \<longrightarrow> get_object_info L name st
         = (Inl e, \<lparr>blender_connection = Some c', env = w'\<rparr>))
    \<and> (send_command L ''create_object''
         (Some (create_object_params object_type name location rotation scale)) c (env st)
       = (Inl e, c', w')
     \<longrightarrow> create_object L object_type name location rotation scale st
         = (Inl e, \<lparr>blender_connection = Some c', env = w'\<rparr>))
    \<and> (send_command L ''modify_object''
         (Some (modify_object_params name location rotation scale visible)) c (env st)
       = (Inl e, c', w')
     \<longrightarrow> modify_object L name location rotation scale visible st
         = (Inl e, \<lparr>blender_connection = Some c', env = w'\<rparr>))
    \<and> (send_command L ''delete_object''
         (Some [(''name'', name)]) c (env st)
       = (Inl e, c', w')
     \<longrightarrow> delete_object L name st
         = (Inl e, \<lparr>blender_connection = Some c', env = w'\<rparr>))
    \<and> (send_command L ''set_material''
         (Some (set_material_params object_name material_name color)) c (env st)
       = (Inl e, c', w')
     \<longrightarrow> set_material L object_name material_name color st
         = (Inl e, \<lparr>blender_connection = Some c', env = w'\<rparr>))
    \<and> (send_command L ''execute_code''
         (Some [(''code'', code)]) c (env st)
       = (Inl e, c', w')
     \<longrightarrow> execute_blender_code L code st
         = (Inl e, \<lparr>blender_connection = Some c', env = w'\<rparr>))
    \<and> (send_command L ''import_model''
         (Some (import_model_params file_path name)) c (env st)
       = (Inl e, c', w')
     \<longrightarrow> import_model L file_path name st
         = (Inl e, \<lparr>blender_connection = Some c', env = w'\<rparr>))
    \<and> (send_command L ''get_polyhaven_status'' None c (env st) = (Inl e, c', w')
     \<longrightarrow> tool_get_polyhaven_status L st
         = (Inr (JStr (exn_str e)), \<lparr>blender_connection = Some c', env = w'\<rparr>))
    \<and> (send_command L ''get_hyper3d_status'' None c (env st) = (Inl e, c', w')
     \<longrightarrow> tool_get_hyper3d_status L st
         = (Inr (JStr (exn_str e)), \<lparr>blender_connection = Some c', env = w'\<rparr>))
    \<and> (send_command L ''get_polyhaven_status'' None c (env st) = (Inl e, c', w')
     \<longrightarrow> get_polyhaven_categories L S asset_type st
         = (Inr (JStr (exn_str e)), \<lparr>blender_connection = Some c', env = w'\<rparr>))
    \<and> (get_polyhaven_status L c (env st) = (Inr (JObj status), c1, w1)
      \<and> py_truthy (dict_get status ''enabled'' (JBool False))
      \<and> send_command L ''get_polyhaven_categories''
            (Some [(''asset_type'', asset_type)]) c1 w1
          = (Inl e, c', w')
     \<longrightarrow> get_polyhaven_categories L S asset_type st
         = (Inl e, \<lparr>blender_connection = Some c', env = w'\<rparr>))
    \<and> (send_command L ''get_polyhaven_status'' None c (env st) = (Inl e, c', w')
     \<longrightarrow> search_polyhaven_assets L S asset_type categories st
         = (Inr (JStr (exn_str e)), \<lparr>blender_connection = Some c', env = w'\<rparr>))
    \<and> (get_polyhaven_status L c (env st) = (Inr (JObj status), c1, w1)
      \<and> py_truthy (dict_get status ''enabled'' (JBool False))
      \<and> send_command L ''search_polyhaven_assets''
            (Some (search_params asset_type categories)) c1 w1
          = (Inl e, c', w')
     \<longrightarrow> search_polyhaven_assets L S asset_type categories st
         = (Inl e, \<lparr>blender_connection = Some c', env = w'\<rparr>))
    \<and> (send_command L ''get_polyhaven_status'' None c (env st) = (Inl e, c', w')
     \<longrightarrow> download_polyhaven_asset L asset_id asset_type resolution file_format st
         = (Inr (JStr (exn_str e)), \<lparr>blender_connection = Some c', env = w'\<rparr>))
    \<and> (get_polyhaven_status L c (env st) = (Inr (JObj status), c1, w1)
      \<and> py_truthy (dict_get status ''enabled'' (JBool False))
      \<and> send_command L ''download_polyhaven_asset''
            (Some (download_params asset_id asset_type resolution file_format)) c1 w1
          = (Inl e, c', w')
     \<longrightarrow> download_polyhaven_asset L asset_id asset_type resolution file_format st
         = (Inl e, \<lparr>blender_connection = Some c', env = w'\<rparr>))
    \<and> (send_command L ''get_polyhaven_status'' None c (env st) = (Inl e, c', w')
     \<longrightarrow> set_texture L object_name texture_id st
         = (Inr (JStr (exn_str e)), \<lparr>blender_connection = Some c', env = w'\<rparr>))
    \<and> (get_polyhaven_status L c (env st) = (Inr (JObj status), c1, w1)
      \<and> py_truthy (dict_get status ''enabled'' (JBool False))
      \<and> send_command L ''set_texture''
            (Some [(''object_name'', object_name), (''texture_id'', texture_id)]) c1 w1
          = (Inl e, c', w')
     \<longrightarrow> set_texture L object_name texture_id st
         = (Inl e, \<lparr>blender_connection = Some c', env = w'\<rparr>))
    \<and> (send_command L ''get_hyper3d_status'' None c (env st) = (Inl e, c', w')
     \<longrightarrow> generate_3d_model_from_text L text_prompt model_name bbox_condition st
         = (Inr (JStr (exn_str e)), \<lparr>blender_connection = Some c', env = w'\<rparr>))
    \<and> (get_hyper3d_status L c (env st) = (Inr (JObj status), c1, w1)
      \<and> py_truthy (dict_get status ''enabled'' (JBool False))
      \<and> send_command L ''create_rodin_job''
            (Some [(''text_prompt'', text_prompt), (''images'', JNull),
            (''bbox_condition'', bbox_condition)]) c1 w1
          = (Inl e, c', w')
     \<longrightarrow> generate_3d_model_from_text L text_prompt model_name bbox_condition st
         = (Inl e, \<lparr>blender_connection = Some c', env = w'\<rparr>))
    \<and> (get_hyper3d_status L c (env st) = (Inr (JObj status), c1, w1)
      \<and> py_truthy (dict_get status ''enabled'' (JBool False))
      \<and> send_command L ''create_rodin_job''
            (Some [(''text_prompt'', text_prompt), (''images'', JNull),
            (''bbox_condition'', bbox_condition)]) c1 w1
          = (Inr job_result, cj, wj)
      \<and> job_ids job_result = Inr (Inr (job_id, subscription_key, request_id))
      \<and> k < max_attempts
      \<and> pending_polls L k subscription_key request_id cj wj = Some (cp, wp)
      \<and> send_command L ''poll_rodin_job_status''
            (Some (poll_params subscription_key request_id)) cp wp
          = (Inl e, c', w')
     \<longrightarrow> generate_3d_model_from_text L text_prompt model_name bbox_condition st
         = (Inl e, \<lparr>blender_connection = Some c', env = w'\<rparr>))
    \<and> (get_hyper3d_status L c (env st) = (Inr (JObj status), c1, w1)
      \<and> py_truthy (dict_get status ''enabled'' (JBool False))
      \<and> send_command L ''create_rodin_job''
            (Some [(''text_prompt'', text_prompt), (''images'', JNull),
            (''bbox_condition'', bbox_condition)]) c1 w1
          = (Inr job_result, cj, wj)
      \<and> job_ids job_result = Inr (Inr (job_id, subscription_key, request_id))
      \<and> k < max_attempts
      \<and> pending_polls L k subscription_key request_id cj wj = Some (cp, wp)
      \<and> send_command L ''poll_rodin_job_status''
            (Some (poll_params subscription_key request_id)) cp wp
          = (Inr status_result, cq, wq)
      \<and> check_status status_result = Inr (Inr True)
      \<and> send_command L ''import_generated_asset''
            (Some (import_params model_name job_id request_id)) cq wq
          = (Inl e, c', w')
     \<longrightarrow> generate_3d_model_from_text L text_prompt model_name bbox_condition st
         = (Inl e, \<lparr>blender_connection = Some c', env = w'\<rparr>))"
  using assms
  apply (intro conjI impI)
  subgoal by (elim conjE) (rule send_command_error_status; assumption)
  subgoal by (rule get_scene_info_raises; assumption)
  subgoal by (rule get_object_info_raises; assumption)
  subgoal by (rule create_object_raises; assumption)
  subgoal by (rule modify_object_raises; assumption)
  subgoal by (rule delete_object_raises; assumption)
  subgoal by (rule set_material_raises; assumption)
  subgoal by (rule execute_blender_code_raises; assumption)
  subgoal by (rule import_model_raises; assumption)
  subgoal by (rule tool_get_polyhaven_status_text; assumption)
  subgoal by (rule tool_get_hyper3d_status_text; assumption)
  subgoal by (rule get_polyhaven_categories_status_failed; assumption)
  subgoal by (elim conjE) (rule get_polyhaven_categories_raises; assumption)
  subgoal by (rule search_polyhaven_assets_status_failed; assumption)
  subgoal by (elim conjE) (rule search_polyhaven_assets_raises; assumption)
  subgoal by (rule download_polyhaven_asset_status_failed; assumption)
  subgoal by (elim conjE) (rule download_polyhaven_asset_raises; assumption)
  subgoal by (rule set_texture_status_failed; assumption)
  subgoal by (elim conjE) (rule set_texture_raises; assumption)
  subgoal by (rule generate_3d_model_from_text_status_failed; assumption)
  subgoal by (elim conjE) (rule generate_3d_model_from_text_raises; assumption)
  subgoal by (elim conjE) (rule generate_3d_model_from_text_poll_raises; assumption)
  subgoal by (elim conjE) (rule generate_3d_model_from_text_import_raises; assumption)
  done

theorem error_status_leaves_the_tools_witness:
  "send_command (loads_table example_docs) ''get_scene_info'' None (localhost\<lparr>socket := Some 0\<rparr>)
       (env (connected [Data error_reply]))
     = (Inl (Exn Exception ''Communication error with Blender: Unknown object type''),
        localhost\<lparr>socket := None\<rparr>,
        \<lparr>connect_script = [], send_script = [], recv_script = [], sockets_made = 1,
           trace = [SendAll (dumps (command_doc ''get_scene_info'' None))]\<rparr>)
   \<and> fst (get_scene_info (loads_table example_docs)
          (connected [Data error_reply]))
     = Inl (Exn Exception ''Communication error with Blender: Unknown object type'')
   \<and> fst (get_object_info (loads_table example_docs) (JStr ''Box1'')
          (connected [Data error_reply]))
     = Inl (Exn Exception ''Communication error with Blender: Unknown object type'')
   \<and> fst (create_object (loads_table example_docs) (JStr ''CUBE'') (JStr ''Box1'') JNull JNull JNull
          (connected [Data error_reply]))
     = Inl (Exn Exception ''Communication error with Blender: Unknown object type'')
   \<and> fst (modify_object (loads_table example_docs) (JStr ''Box1'') JNull JNull JNull (JBool False)
          (connected [Data error_reply]))
     = Inl (Exn Exception ''Communication error with Blender: Unknown object type'')
   \<and> fst (delete_object (loads_table example_docs) (JStr ''Box1'')
          (connected [Data error_reply]))
     = Inl (Exn Exception ''Communication error with Blender: Unknown object type'')
   \<and> fst (set_material (loads_table example_docs) (JStr ''Box1'') (JStr ''Red'') JNull
          (connected [Data error_reply]))
     = Inl (Exn Exception ''Communication error with Blender: Unknown object type'')
   \<and> fst (execute_blender_code (loads_table example_docs) (JStr ''pass'')
          (connected [Data error_reply]))
     = Inl (Exn Exception ''Communication error with Blender: Unknown object type'')
   \<and> fst (import_model (loads_table example_docs) (JStr ''car.glb'') JNull
          (connected [Data error_reply]))
     = Inl (Exn Exception ''Communication error with Blender: Unknown object type'')
   \<and> fst (tool_get_polyhaven_status (loads_table example_docs) (connected [Data error_reply]))
     = Inr (JStr ''Communication error with Blender: Unknown object type'')
   \<and> fst (tool_get_hyper3d_status (loads_table example_docs) (connected [Data error_reply]))
     = Inr (JStr ''Communication error with Blender: Unknown object type'')
   \<and> fst (get_polyhaven_categories (loads_table example_docs)
          sorted_numbers (JStr ''hdris'')
          (connected [Data error_reply]))
     = Inr (JStr ''Communication error with Blender: Unknown object type'')
   \<and> fst (get_polyhaven_categories (loads_table example_docs)
          sorted_numbers (JStr ''hdris'')
          (connected [Data hyper3d_on_reply, Data error_reply]))
     = Inl (Exn Exception ''Communication error with Blender: Unknown object type'')
   \<and> fst (search_polyhaven_assets (loads_table example_docs)
          sorted_numbers (JStr ''all'') JNull
          (connected [Data error_reply]))
     = Inr (JStr ''Communication error with Blender: Unknown object type'')
   \<and> fst (search_polyhaven_assets (loads_table example_docs)
          sorted_numbers (JStr ''all'') JNull
          (connected [Data hyper3d_on_reply, Data error_reply]))
     = Inl (Exn Exception ''Communication error with Blender: Unknown object type'')
   \<and> fst (download_polyhaven_asset (loads_table example_docs)
          (JStr ''bricks'') (JStr ''textures'') (JStr ''1k'') JNull
          (connected [Data error_reply]))
     = Inr (JStr ''Communication error with Blender: Unknown object type'')
   \<and> fst (download_polyhaven_asset (loads_table example_docs)
          (JStr ''bricks'') (JStr ''textures'') (JStr ''1k'') JNull
          (connected [Data hyper3d_on_reply, Data error_reply]))
     = Inl (Exn Exception ''Communication error with Blender: Unknown object type'')
   \<and> fst (set_texture (loads_table example_docs)
          (JStr ''Box1'') (JStr ''bricks'')
          (connected [Data error_reply]))
     = Inr (JStr ''Communication error with Blender: Unknown object type'')
   \<and> fst (set_texture (loads_table example_docs)
          (JStr ''Box1'') (JStr ''bricks'')
          (connected [Data hyper3d_on_reply, Data error_reply]))
     = Inl (Exn Exception ''Communication error with Blender: Unknown object type'')
   \<and> fst (generate_3d_model_from_text (loads_table example_docs)
          (JStr ''a chair'') (JStr ''chair'') JNull
          (connected [Data error_reply]))
     = Inr (JStr ''Communication error with Blender: Unknown object type'')
   \<and> fst (generate_3d_model_from_text (loads_table example_docs)
          (JStr ''a chair'') (JStr ''chair'') JNull
          (connected [Data hyper3d_on_reply, Data error_reply]))
     = Inl (Exn Exception ''Communication error with Blender: Unknown object type'')
   \<and> generate_3d_model_from_text (loads_table example_docs) (JStr ''a chair'') (JStr ''chair'') JNull
       (connected [Data hyper3d_on_reply, Data job_reply, Data pending_reply, Data error_reply])
     = (Inl (Exn Exception ''Communication error with Blender: Unknown object type''),
        \<lparr>blender_connection = Some (localhost\<lparr>socket := None\<rparr>),
        env = \<lparr>connect_script = [], send_script = [], recv_script = [], sockets_made = 1,
           trace = [SendAll (dumps (command_doc ''get_hyper3d_status'' None)),
                    SendAll (dumps (command_doc ''create_rodin_job'' (Some [(''text_prompt'', JStr ''a chair''), (''images'', JNull),
                    (''bbox_condition'', JNull)]))),
                    SendAll (poll_bytes (JStr ''key-1'') JNull), Sleep 5,
                    SendAll (poll_bytes (JStr ''key-1'') JNull)]\<rparr>\<rparr>)
   \<and> generate_3d_model_from_text (loads_table example_docs) (JStr ''a chair'') (JStr ''chair'') JNull
       (connected [Data hyper3d_on_reply, Data job_reply, Data done_reply, Data error_reply])
     = (Inl (Exn Exception ''Communication error with Blender: Unknown object type''),
        \<lparr>blender_connection = Some (localhost\<lparr>socket := None\<rparr>),
        env = \<lparr>connect_script = [], send_script = [], recv_script = [], sockets_made = 1,
           trace = [SendAll (dumps (command_doc ''get_hyper3d_status'' None)),
                    SendAll (dumps (command_doc ''create_rodin_job'' (Some [(''text_prompt'', JStr ''a chair''), (''images'', JNull),
                    (''bbox_condition'', JNull)]))),
                    SendAll (poll_bytes (JStr ''key-1'') JNull),
                    SendAll (import_bytes (JStr ''chair'') (JStr ''task-1'') JNull)]\<rparr>\<rparr>)"
proof -
  let ?L = "loads_table example_docs"
  let ?E = "Exn Exception ''Communication error with Blender: Unknown object type''"
  let ?c = "localhost\<lparr>socket := Some 0\<rparr>" and ?c' = "localhost\<lparr>socket := None\<rparr>"
  let ?st1 = "connected [Data error_reply]" and ?st2 = "connected [Data hyper3d_on_reply, Data error_reply]"
  let ?st3 = "connected [Data hyper3d_on_reply, Data job_reply, Data pending_reply,
      Data error_reply]"
  let ?st4 = "connected [Data hyper3d_on_reply, Data job_reply, Data done_reply,
      Data error_reply]"
  let ?params = "Some [(''text_prompt'', JStr ''a chair''), (''images'', JNull),
      (''bbox_condition'', JNull)]"
  let ?status = "SendAll (dumps (command_doc ''get_hyper3d_status'' None))"
  let ?create = "SendAll (dumps (command_doc ''create_rodin_job'' ?params))"
  let ?poll = "SendAll (poll_bytes (JStr ''key-1'') JNull)"
  let ?import = "SendAll (import_bytes (JStr ''chair'') (JStr ''task-1'') JNull)"
  let ?on = "[(''enabled'', JBool True), (''message'', JStr ''Hyper3D is enabled'')]"
  let ?job = "JObj [(''uuid'', JStr ''task-1''),
      (''jobs'', JObj [(''subscription_key'', JStr ''key-1'')])]"
  let ?w = "\<lambda>answers events.
      \<lparr>connect_script = [], send_script = [], recv_script = answers, sockets_made = 1,
       trace = events\<rparr>"
  have conn1: "blender_connection ?st1 = Some ?c"
    by (simp add: connected_def)
  have conn2: "blender_connection ?st2 = Some ?c"
    by (simp add: connected_def)
  have on_get_polyhaven_status: "get_polyhaven_status ?L ?c (env ?st2)
      = (Inr (JObj [(''enabled'', JBool True), (''message'', JStr ''Hyper3D is enabled'')]), ?c,
         \<lparr>connect_script = [], send_script = [], recv_script = [Data error_reply], sockets_made = 1,
           trace = [SendAll (dumps (command_doc ''get_polyhaven_status'' None))]\<rparr>)"
    using send_command_answered [of ?L hyper3d_on_reply _ "''get_polyhaven_status''" None 0 "[]"
        "[Data error_reply]" 1 "[]"] loads_examples(5) replies_nonempty(5)
    by (simp add: get_polyhaven_status_def connected_def hyper3d_on_doc_def dict_get_def)
  have on_get_hyper3d_status: "get_hyper3d_status ?L ?c (env ?st2)
      = (Inr (JObj [(''enabled'', JBool True), (''message'', JStr ''Hyper3D is enabled'')]), ?c,
         \<lparr>connect_script = [], send_script = [], recv_script = [Data error_reply], sockets_made = 1,
           trace = [SendAll (dumps (command_doc ''get_hyper3d_status'' None))]\<rparr>)"
    using send_command_answered [of ?L hyper3d_on_reply _ "''get_hyper3d_status''" None 0 "[]"
        "[Data error_reply]" 1 "[]"] loads_examples(5) replies_nonempty(5)
    by (simp add: get_hyper3d_status_def connected_def hyper3d_on_doc_def dict_get_def)
  have t: "send_command ?L ''get_scene_info'' None ?c (env ?st1)
     = (Inl ?E, ?c',
        \<lparr>connect_script = [], send_script = [], recv_script = [], sockets_made = 1,
           trace = [SendAll (dumps (command_doc ''get_scene_info'' None))]\<rparr>)"
  proof -
    have 1: "(if socket ?c = None then connect ?c (env ?st1) else (True, ?c, env ?st1))
        = (True, ?c,
           \<lparr>connect_script = [], send_script = [], recv_script = [Data error_reply], sockets_made = 1,
           trace = []\<rparr>)"
      by (simp add: connected_def)
    have 2: "sock_sendall (dumps (command_doc ''get_scene_info'' None))
          \<lparr>connect_script = [], send_script = [], recv_script = [Data error_reply], sockets_made = 1,
           trace = []\<rparr>
        = (None,
           \<lparr>connect_script = [], send_script = [], recv_script = [Data error_reply], sockets_made = 1,
           trace = [SendAll (dumps (command_doc ''get_scene_info'' None))]\<rparr>)"
      by (simp add: sock_sendall_def)
    have 3: "receive_full_response ?L
          \<lparr>connect_script = [], send_script = [], recv_script = [Data error_reply], sockets_made = 1,
           trace = [SendAll (dumps (command_doc ''get_scene_info'' None))]\<rparr>
        = (Inr error_reply,
           \<lparr>connect_script = [], send_script = [], recv_script = [], sockets_made = 1,
           trace = [SendAll (dumps (command_doc ''get_scene_info'' None))]\<rparr>)"
      using loads_examples(2) replies_nonempty(2) by (simp add: receive_full_response_def)
    have 4: "?L error_reply
        = Inr (JObj [(''status'', JStr ''error''), (''message'', JStr ''Unknown object type'')])"
      using loads_examples(2) by (simp add: error_doc_def)
    have 5: "map_of [(''status'', JStr ''error''), (''message'', JStr ''Unknown object type'')]
        ''status'' = Some (JStr ''error'')"
      by simp
    show ?thesis
      using error_status_leaves_the_tools [OF conn1, where L="?L" and ?c1.0="?c"
          and ?w1.0="\<lparr>connect_script = [], send_script = [], recv_script = [Data error_reply], sockets_made = 1,
           trace = []\<rparr>"
          and command_type="''get_scene_info''" and params=None
          and ?w2.0="\<lparr>connect_script = [], send_script = [], recv_script = [Data error_reply], sockets_made = 1,
           trace = [SendAll (dumps (command_doc ''get_scene_info'' None))]\<rparr>"
          and data=error_reply
          and ?w3.0="\<lparr>connect_script = [], send_script = [], recv_script = [], sockets_made = 1,
           trace = [SendAll (dumps (command_doc ''get_scene_info'' None))]\<rparr>"
          and kvs="[(''status'', JStr ''error''), (''message'', JStr ''Unknown object type'')]",
          THEN conjunct1] 1 2 3 4 5
      by (simp add: dict_get_def py_str_def)
  qed
  have b1: "fst (get_scene_info ?L ?st1) = Inl ?E"
    using error_status_leaves_the_tools [OF conn1, where L="?L"
        and e="?E"
        and c'="?c'"
        and w'="\<lparr>connect_script = [], send_script = [], recv_script = [], sockets_made = 1,
           trace = [SendAll (dumps (command_doc ''get_scene_info'' None))]\<rparr>",
        THEN conjunct2, THEN conjunct1]
      send_command_error_example [of "''get_scene_info''"
        "None" 0 "[]" "[]" 1 "[]"]
    by (simp add: connected_def)
  have b2: "fst (get_object_info ?L (JStr ''Box1'') ?st1) = Inl ?E"
    using error_status_leaves_the_tools [OF conn1, where L="?L"
        and e="?E"
        and c'="?c'"
        and w'="\<lparr>connect_script = [], send_script = [], recv_script = [], sockets_made = 1,
           trace = [SendAll (dumps (command_doc ''get_object_info'' (Some [(''name'', JStr ''Box1'')])))]\<rparr>"
        and name="JStr ''Box1''",
        THEN conjunct2, THEN conjunct2, THEN conjunct1]
      send_command_error_example [of "''get_object_info''"
        "Some [(''name'', JStr ''Box1'')]" 0 "[]" "[]" 1 "[]"]
    by (simp add: connected_def)
  have b3: "fst (create_object ?L (JStr ''CUBE'') (JStr ''Box1'') JNull JNull JNull ?st1) = Inl ?E"
    using error_status_leaves_the_tools [OF conn1, where L="?L"
        and e="?E"
        and c'="?c'"
        and w'="\<lparr>connect_script = [], send_script = [], recv_script = [], sockets_made = 1,
           trace = [SendAll (dumps (command_doc ''create_object'' (Some (create_object_params (JStr ''CUBE'') (JStr ''Box1'') JNull JNull JNull))))]\<rparr>"
        and object_type="JStr ''CUBE''"
        and name="JStr ''Box1''"
        and location="JNull"
        and rotation="JNull"
        and scale="JNull",
        THEN conjunct2, THEN conjunct2, THEN conjunct2, THEN conjunct1]
      send_command_error_example [of "''create_object''"
        "Some (create_object_params (JStr ''CUBE'') (JStr ''Box1'') JNull JNull JNull)" 0 "[]" "[]" 1 "[]"]
    by (simp add: connected_def)
  have b4: "fst (modify_object ?L (JStr ''Box1'') JNull JNull JNull (JBool False) ?st1) = Inl ?E"
    using error_status_leaves_the_tools [OF conn1, where L="?L"
        and e="?E"
        and c'="?c'"
        and w'="\<lparr>connect_script = [], send_script = [], recv_script = [], sockets_made = 1,
           trace = [SendAll (dumps (command_doc ''modify_object'' (Some (modify_object_params (JStr ''Box1'') JNull JNull JNull (JBool False)))))]\<rparr>"
        and name="JStr ''Box1''"
        and location="JNull"
        and rotation="JNull"
        and scale="JNull"
        and visible="JBool False",
        THEN conjunct2, THEN conjunct2, THEN conjunct2, THEN conjunct2, THEN conjunct1]
      send_command_error_example [of "''modify_object''"
        "Some (modify_object_params (JStr ''Box1'') JNull JNull JNull (JBool False))" 0 "[]" "[]" 1 "[]"]
    by (simp add: connected_def)
  have b5: "fst (delete_object ?L (JStr ''Box1'') ?st1) = Inl ?E"
    using error_status_leaves_the_tools [OF conn1, where L="?L"
        and e="?E"
        and c'="?c'"
        and w'="\<lparr>connect_script = [], send_script = [], recv_script = [], sockets_made = 1,
           trace = [SendAll (dumps (command_doc ''delete_object'' (Some [(''name'', JStr ''Box1'')])))]\<rparr>"
        and name="JStr ''Box1''",
        THEN conjunct2, THEN conjunct2, THEN conjunct2, THEN conjunct2, THEN conjunct2,
        THEN conjunct1]
      send_command_error_example [of "''delete_object''"
        "Some [(''name'', JStr ''Box1'')]" 0 "[]" "[]" 1 "[]"]
    by (simp add: connected_def)
  have b6: "fst (set_material ?L (JStr ''Box1'') (JStr ''Red'') JNull ?st1) = Inl ?E"
    using error_status_leaves_the_tools [OF conn1, where L="?L"
        and e="?E"
        and c'="?c'"
        and w'="\<lparr>connect_script = [], send_script = [], recv_script = [], sockets_made = 1,
           trace = [SendAll (dumps (command_doc ''set_material'' (Some (set_material_params (JStr ''Box1'') (JStr ''Red'') JNull))))]\<rparr>"
        and object_name="JStr ''Box1''"
        and material_name="JStr ''Red''"
        and color="JNull",
        THEN conjunct2, THEN conjunct2, THEN conjunct2, THEN conjunct2, THEN conjunct2,
        THEN conjunct2, THEN conjunct1]
      send_command_error_example [of "''set_material''"
        "Some (set_material_params (JStr ''Box1'') (JStr ''Red'') JNull)" 0 "[]" "[]" 1 "[]"]
    by (simp add: connected_def)
  have b7: "fst (execute_blender_code ?L (JStr ''pass'') ?st1) = Inl ?E"
    using error_status_leaves_the_tools [OF conn1, where L="?L"
        and e="?E"
        and c'="?c'"
        and w'="\<lparr>connect_script = [], send_script = [], recv_script = [], sockets_made = 1,
           trace = [SendAll (dumps (command_doc ''execute_code'' (Some [(''code'', JStr ''pass'')])))]\<rparr>"
        and code="JStr ''pass''",
        THEN conjunct2, THEN conjunct2, THEN conjunct2, THEN conjunct2, THEN conjunct2,
        THEN conjunct2, THEN conjunct2, THEN conjunct1]
      send_command_error_example [of "''execute_code''"
        "Some [(''code'', JStr ''pass'')]" 0 "[]" "[]" 1 "[]"]
    by (simp add: connected_def)
  have b8: "fst (import_model ?L (JStr ''car.glb'') JNull ?st1) = Inl ?E"
    using error_status_leaves_the_tools [OF conn1, where L="?L"
        and e="?E"
        and c'="?c'"
        and w'="\<lparr>connect_script = [], send_script = [], recv_script = [], sockets_made = 1,
           trace = [SendAll (dumps (command_doc ''import_model'' (Some (import_model_params (JStr ''car.glb'') JNull))))]\<rparr>"
        and file_path="JStr ''car.glb''"
        and name="JNull",
        THEN conjunct2, THEN conjunct2, THEN conjunct2, THEN conjunct2, THEN conjunct2,
        THEN conjunct2, THEN conjunct2, THEN conjunct2, THEN conjunct1]
      send_command_error_example [of "''import_model''"
        "Some (import_model_params (JStr ''car.glb'') JNull)" 0 "[]" "[]" 1 "[]"]
    by (simp add: connected_def)
  have b9: "fst (tool_get_polyhaven_status ?L ?st1)
      = Inr (JStr ''Communication error with Blender: Unknown object type'')"
    using error_status_leaves_the_tools [OF conn1, where L="?L"
        and e="?E"
        and c'="?c'"
        and w'="\<lparr>connect_script = [], send_script = [], recv_script = [], sockets_made = 1,
           trace = [SendAll (dumps (command_doc ''get_polyhaven_status'' None))]\<rparr>",
        THEN conjunct2, THEN conjunct2, THEN conjunct2, THEN conjunct2, THEN conjunct2,
        THEN conjunct2, THEN conjunct2, THEN conjunct2, THEN conjunct2, THEN conjunct1]
      send_command_error_example [of "''get_polyhaven_status''" None 0 "[]" "[]" 1 "[]"]
    by (simp add: connected_def)
  have b10: "fst (tool_get_hyper3d_status ?L ?st1)
      = Inr (JStr ''Communication error with Blender: Unknown object type'')"
    using error_status_leaves_the_tools [OF conn1, where L="?L"
        and e="?E"
        and c'="?c'"
        and w'="\<lparr>connect_script = [], send_script = [], recv_script = [], sockets_made = 1,
           trace = [SendAll (dumps (command_doc ''get_hyper3d_status'' None))]\<rparr>",
        THEN conjunct2, THEN conjunct2, THEN conjunct2, THEN conjunct2, THEN conjunct2,
        THEN conjunct2, THEN conjunct2, THEN conjunct2, THEN conjunct2, THEN conjunct2,
        THEN conjunct1]
      send_command_error_example [of "''get_hyper3d_status''" None 0 "[]" "[]" 1 "[]"]
    by (simp add: connected_def)
  have b11: "fst (get_polyhaven_categories ?L sorted_numbers (JStr ''hdris'') ?st1)
      = Inr (JStr ''Communication error with Blender: Unknown object type'')"
    using error_status_leaves_the_tools [OF conn1, where L="?L"
        and e="?E"
        and c'="?c'"
        and w'="\<lparr>connect_script = [], send_script = [], recv_script = [], sockets_made = 1,
           trace = [SendAll (dumps (command_doc ''get_polyhaven_status'' None))]\<rparr>"
        and S="sorted_numbers"
        and asset_type="JStr ''hdris''",
        THEN conjunct2, THEN conjunct2, THEN conjunct2, THEN conjunct2, THEN conjunct2,
        THEN conjunct2, THEN conjunct2, THEN conjunct2, THEN conjunct2, THEN conjunct2,
        THEN conjunct2, THEN conjunct1]
      send_command_error_example [of "''get_polyhaven_status''" None 0 "[]" "[]" 1 "[]"]
    by (simp add: connected_def)
  have b12: "fst (get_polyhaven_categories ?L sorted_numbers (JStr ''hdris'') ?st2) = Inl ?E"
    using error_status_leaves_the_tools [OF conn2, where L="?L"
        and e="?E"
        and c'="?c'"
        and w'="\<lparr>connect_script = [], send_script = [], recv_script = [], sockets_made = 1,
           trace = [SendAll (dumps (command_doc ''get_polyhaven_status'' None)),
                    SendAll (dumps (command_doc ''get_polyhaven_categories'' (Some [(''asset_type'', JStr ''hdris'')])))]\<rparr>"
        and ?c1.0="?c"
        and ?w1.0="\<lparr>connect_script = [], send_script = [], recv_script = [Data error_reply], sockets_made = 1,
           trace = [SendAll (dumps (command_doc ''get_polyhaven_status'' None))]\<rparr>"
        and status="[(''enabled'', JBool True), (''message'', JStr ''Hyper3D is enabled'')]"
        and S="sorted_numbers"
        and asset_type="JStr ''hdris''",
        THEN conjunct2, THEN conjunct2, THEN conjunct2, THEN conjunct2, THEN conjunct2,
        THEN conjunct2, THEN conjunct2, THEN conjunct2, THEN conjunct2, THEN conjunct2,
        THEN conjunct2, THEN conjunct2, THEN conjunct1]
      on_get_polyhaven_status
      send_command_error_example [of "''get_polyhaven_categories''"
        "Some [(''asset_type'', JStr ''hdris'')]" 0 "[]" "[]" 1
        "[SendAll (dumps (command_doc ''get_polyhaven_status'' None))]"]
    by (simp add: connected_def dict_get_def py_truthy_def)
  have b13: "fst (search_polyhaven_assets ?L sorted_numbers (JStr ''all'') JNull ?st1)
      = Inr (JStr ''Communication error with Blender: Unknown object type'')"
    using error_status_leaves_the_tools [OF conn1, where L="?L"
        and e="?E"
        and c'="?c'"
        and w'="\<lparr>connect_script = [], send_script = [], recv_script = [], sockets_made = 1,
           trace = [SendAll (dumps (command_doc ''get_polyhaven_status'' None))]\<rparr>"
        and S="sorted_numbers"
        and asset_type="JStr ''all''"
        and categories="JNull",
        THEN conjunct2, THEN conjunct2, THEN conjunct2, THEN conjunct2, THEN conjunct2,
        THEN conjunct2, THEN conjunct2, THEN conjunct2, THEN conjunct2, THEN conjunct2,
        THEN conjunct2, THEN conjunct2, THEN conjunct2, THEN conjunct1]
      send_command_error_example [of "''get_polyhaven_status''" None 0 "[]" "[]" 1 "[]"]
    by (simp add: connected_def)
  have b14: "fst (search_polyhaven_assets ?L sorted_numbers (JStr ''all'') JNull ?st2) = Inl ?E"
    using error_status_leaves_the_tools [OF conn2, where L="?L"
        and e="?E"
        and c'="?c'"
        and w'="\<lparr>connect_script = [], send_script = [], recv_script = [], sockets_made = 1,
           trace = [SendAll (dumps (command_doc ''get_polyhaven_status'' None)),
                    SendAll (dumps (command_doc ''search_polyhaven_assets'' (Some (search_params (JStr ''all'') JNull))))]\<rparr>"
        and ?c1.0="?c"
        and ?w1.0="\<lparr>connect_script = [], send_script = [], recv_script = [Data error_reply], sockets_made = 1,
           trace = [SendAll (dumps (command_doc ''get_polyhaven_status'' None))]\<rparr>"
        and status="[(''enabled'', JBool True), (''message'', JStr ''Hyper3D is enabled'')]"
        and S="sorted_numbers"
        and asset_type="JStr ''all''"
        and categories="JNull",
        THEN conjunct2, THEN conjunct2, THEN conjunct2, THEN conjunct2, THEN conjunct2,
        THEN conjunct2, THEN conjunct2, THEN conjunct2, THEN conjunct2, THEN conjunct2,
        THEN conjunct2, THEN conjunct2, THEN conjunct2, THEN conjunct2, THEN conjunct1]
      on_get_polyhaven_status
      send_command_error_example [of "''search_polyhaven_assets''"
        "Some (search_params (JStr ''all'') JNull)" 0 "[]" "[]" 1
        "[SendAll (dumps (command_doc ''get_polyhaven_status'' None))]"]
    by (simp add: connected_def dict_get_def py_truthy_def)
  have b15: "fst (download_polyhaven_asset ?L (JStr ''bricks'') (JStr ''textures'') (JStr ''1k'') JNull ?st1)
      = Inr (JStr ''Communication error with Blender: Unknown object type'')"
    using error_status_leaves_the_tools [OF conn1, where L="?L"
        and e="?E"
        and c'="?c'"
        and w'="\<lparr>connect_script = [], send_script = [], recv_script = [], sockets_made = 1,
           trace = [SendAll (dumps (command_doc ''get_polyhaven_status'' None))]\<rparr>"
        and asset_id="JStr ''bricks''"
        and asset_type="JStr ''textures''"
        and resolution="JStr ''1k''"
        and file_format="JNull",
        THEN conjunct2, THEN conjunct2, THEN conjunct2, THEN conjunct2, THEN conjunct2,
        THEN conjunct2, THEN conjunct2, THEN conjunct2, THEN conjunct2, THEN conjunct2,
        THEN conjunct2, THEN conjunct2, THEN conjunct2, THEN conjunct2, THEN conjunct2,
        THEN conjunct1]
      send_command_error_example [of "''get_polyhaven_status''" None 0 "[]" "[]" 1 "[]"]
    by (simp add: connected_def)
  have b16: "fst (download_polyhaven_asset ?L (JStr ''bricks'') (JStr ''textures'') (JStr ''1k'') JNull ?st2) = Inl ?E"
    using error_status_leaves_the_tools [OF conn2, where L="?L"
        and e="?E"
        and c'="?c'"
        and w'="\<lparr>connect_script = [], send_script = [], recv_script = [], sockets_made = 1,
           trace = [SendAll (dumps (command_doc ''get_polyhaven_status'' None)),
                    SendAll (dumps (command_doc ''download_polyhaven_asset'' (Some (download_params (JStr ''bricks'') (JStr ''textures'') (JStr ''1k'') JNull))))]\<rparr>"
        and ?c1.0="?c"
        and ?w1.0="\<lparr>connect_script = [], send_script = [], recv_script = [Data error_reply], sockets_made = 1,
           trace = [SendAll (dumps (command_doc ''get_polyhaven_status'' None))]\<rparr>"
        and status="[(''enabled'', JBool True), (''message'', JStr ''Hyper3D is enabled'')]"
        and asset_id="JStr ''bricks''"
        and asset_type="JStr ''textures''"
        and resolution="JStr ''1k''"
        and file_format="JNull",
        THEN conjunct2, THEN conjunct2, THEN conjunct2, THEN conjunct2, THEN conjunct2,
        THEN conjunct2, THEN conjunct2, THEN conjunct2, THEN conjunct2, THEN conjunct2,
        THEN conjunct2, THEN conjunct2, THEN conjunct2, THEN conjunct2, THEN conjunct2,
        THEN conjunct2, THEN conjunct1]
      on_get_polyhaven_status
      send_command_error_example [of "''download_polyhaven_asset''"
        "Some (download_params (JStr ''bricks'') (JStr ''textures'') (JStr ''1k'') JNull)" 0 "[]" "[]" 1
        "[SendAll (dumps (command_doc ''get_polyhaven_status'' None))]"]
    by (simp add: connected_def dict_get_def py_truthy_def)
  have b17: "fst (set_texture ?L (JStr ''Box1'') (JStr ''bricks'') ?st1)
      = Inr (JStr ''Communication error with Blender: Unknown object type'')"
    using error_status_leaves_the_tools [OF conn1, where L="?L"
        and e="?E"
        and c'="?c'"
        and w'="\<lparr>connect_script = [], send_script = [], recv_script = [], sockets_made = 1,
           trace = [SendAll (dumps (command_doc ''get_polyhaven_status'' None))]\<rparr>"
        and object_name="JStr ''Box1''"
        and texture_id="JStr ''bricks''",
        THEN conjunct2, THEN conjunct2, THEN conjunct2, THEN conjunct2, THEN conjunct2,
        THEN conjunct2, THEN conjunct2, THEN conjunct2, THEN conjunct2, THEN conjunct2,
        THEN conjunct2, THEN conjunct2, THEN conjunct2, THEN conjunct2, THEN conjunct2,
        THEN conjunct2, THEN conjunct2, THEN conjunct1]
      send_command_error_example [of "''get_polyhaven_status''" None 0 "[]" "[]" 1 "[]"]
    by (simp add: connected_def)
  have b18: "fst (set_texture ?L (JStr ''Box1'') (JStr ''bricks'') ?st2) = Inl ?E"
    using error_status_leaves_the_tools [OF conn2, where L="?L"
        and e="?E"
        and c'="?c'"
        and w'="\<lparr>connect_script = [], send_script = [], recv_script = [], sockets_made = 1,
           trace = [SendAll (dumps (command_doc ''get_polyhaven_status'' None)),
                    SendAll (dumps (command_doc ''set_texture'' (Some [(''object_name'', JStr ''Box1''), (''texture_id'', JStr ''bricks'')])))]\<rparr>"
        and ?c1.0="?c"
        and ?w1.0="\<lparr>connect_script = [], send_script = [], recv_script = [Data error_reply], sockets_made = 1,
           trace = [SendAll (dumps (command_doc ''get_polyhaven_status'' None))]\<rparr>"
        and status="[(''enabled'', JBool True), (''message'', JStr ''Hyper3D is enabled'')]"
        and object_name="JStr ''Box1''"
        and texture_id="JStr ''bricks''",
        THEN conjunct2, THEN conjunct2, THEN conjunct2, THEN conjunct2, THEN conjunct2,
        THEN conjunct2, THEN conjunct2, THEN conjunct2, THEN conjunct2, THEN conjunct2,
        THEN conjunct2, THEN conjunct2, THEN conjunct2, THEN conjunct2, THEN conjunct2,
        THEN conjunct2, THEN conjunct2, THEN conjunct2, THEN conjunct1]
      on_get_polyhaven_status
      send_command_error_example [of "''set_texture''"
        "Some [(''object_name'', JStr ''Box1''), (''texture_id'', JStr ''bricks'')]" 0 "[]" "[]" 1
        "[SendAll (dumps (command_doc ''get_polyhaven_status'' None))]"]
    by (simp add: connected_def dict_get_def py_truthy_def)
  have b19: "fst (generate_3d_model_from_text ?L (JStr ''a chair'') (JStr ''chair'') JNull ?st1)
      = Inr (JStr ''Communication error with Blender: Unknown object type'')"
    using error_status_leaves_the_tools [OF conn1, where L="?L"
        and e="?E"
        and c'="?c'"
        and w'="\<lparr>connect_script = [], send_script = [], recv_script = [], sockets_made = 1,
           trace = [SendAll (dumps (command_doc ''get_hyper3d_status'' None))]\<rparr>"
        and text_prompt="JStr ''a chair''"
        and model_name="JStr ''chair''"
        and bbox_condition="JNull",
        THEN conjunct2, THEN conjunct2, THEN conjunct2, THEN conjunct2, THEN conjunct2,
        THEN conjunct2, THEN conjunct2, THEN conjunct2, THEN conjunct2, THEN conjunct2,
        THEN conjunct2, THEN conjunct2, THEN conjunct2, THEN conjunct2, THEN conjunct2,
        THEN conjunct2, THEN conjunct2, THEN conjunct2, THEN conjunct2, THEN conjunct1]
      send_command_error_example [of "''get_hyper3d_status''" None 0 "[]" "[]" 1 "[]"]
    by (simp add: connected_def)
  have b20: "fst (generate_3d_model_from_text ?L (JStr ''a chair'') (JStr ''chair'') JNull ?st2) = Inl ?E"
    using error_status_leaves_the_tools [OF conn2, where L="?L"
        and e="?E"
        and c'="?c'"
        and w'="\<lparr>connect_script = [], send_script = [], recv_script = [], sockets_made = 1,
           trace = [SendAll (dumps (command_doc ''get_hyper3d_status'' None)),
                    SendAll (dumps (command_doc ''create_rodin_job'' (Some [(''text_prompt'', JStr ''a chair''), (''images'', JNull), (''bbox_condition'', JNull)])))]\<rparr>"
        and ?c1.0="?c"
        and ?w1.0="\<lparr>connect_script = [], send_script = [], recv_script = [Data error_reply], sockets_made = 1,
           trace = [SendAll (dumps (command_doc ''get_hyper3d_status'' None))]\<rparr>"
        and status="[(''enabled'', JBool True), (''message'', JStr ''Hyper3D is enabled'')]"
        and text_prompt="JStr ''a chair''"
        and model_name="JStr ''chair''"
        and bbox_condition="JNull",
        THEN conjunct2, THEN conjunct2, THEN conjunct2, THEN conjunct2, THEN conjunct2,
        THEN conjunct2, THEN conjunct2, THEN conjunct2, THEN conjunct2, THEN conjunct2,
        THEN conjunct2, THEN conjunct2, THEN conjunct2, THEN conjunct2, THEN conjunct2,
        THEN conjunct2, THEN conjunct2, THEN conjunct2, THEN conjunct2, THEN conjunct2,
        THEN conjunct1]
      on_get_hyper3d_status
      send_command_error_example [of "''create_rodin_job''"
        "Some [(''text_prompt'', JStr ''a chair''), (''images'', JNull), (''bbox_condition'', JNull)]" 0 "[]" "[]" 1
        "[SendAll (dumps (command_doc ''get_hyper3d_status'' None))]"]
    by (simp add: connected_def dict_get_def py_truthy_def)
  \<comment> \<open>the error answers the second poll of the job\<close>
  have conn3: "blender_connection ?st3 = Some ?c"
    by (simp add: connected_def)
  have status3: "get_hyper3d_status ?L ?c (env ?st3)
      = (Inr (JObj ?on), ?c,
         ?w [Data job_reply, Data pending_reply, Data error_reply] [?status])"
    using hyper3d_enabled_example [of 0 "[]"
        "[Data job_reply, Data pending_reply, Data error_reply]" 1 "[]"]
    by (simp add: connected_def)
  have create3: "send_command ?L ''create_rodin_job'' ?params ?c
        (?w [Data job_reply, Data pending_reply, Data error_reply] [?status])
      = (Inr ?job, ?c, ?w [Data pending_reply, Data error_reply] [?status, ?create])"
    using create_rodin_job_example [of ?params 0 "[]" "[Data pending_reply, Data error_reply]" 1
        "[?status]"]
    by simp
  have one: "1 < max_attempts" and zero: "0 < max_attempts"
    by (simp_all add: max_attempts_def)
  have pending3: "pending_polls ?L 1 (JStr ''key-1'') JNull ?c
      (?w [Data pending_reply, Data error_reply] [?status, ?create])
    = Some (?c, ?w [Data error_reply] [?status, ?create, ?poll, Sleep 5])"
    using pending_example [of 1 "JStr ''key-1''" JNull 0 "[]" "[Data error_reply]" 1
        "[?status, ?create]"]
    by simp
  have poll3: "send_command ?L ''poll_rodin_job_status''
        (Some (poll_params (JStr ''key-1'') JNull)) ?c
        (?w [Data error_reply] [?status, ?create, ?poll, Sleep 5])
      = (Inl ?E, ?c', ?w [] [?status, ?create, ?poll, Sleep 5, ?poll])"
    using send_command_error_example [of "''poll_rodin_job_status''"
        "Some (poll_params (JStr ''key-1'') JNull)" 0 "[]" "[]" 1
        "[?status, ?create, ?poll, Sleep 5]"]
    by (simp add: poll_bytes_def)
  have b21: "generate_3d_model_from_text ?L (JStr ''a chair'') (JStr ''chair'') JNull ?st3
      = (Inl ?E, \<lparr>blender_connection = Some ?c',
                   env = ?w [] [?status, ?create, ?poll, Sleep 5, ?poll]\<rparr>)"
    using error_status_leaves_the_tools [OF conn3, where L="?L"
        and e="?E"
        and c'="?c'"
        and ?c1.0="?c"
        and status="?on"
        and text_prompt="JStr ''a chair''"
        and model_name="JStr ''chair''"
        and bbox_condition="JNull"
        and job_result="?job"
        and cj="?c"
        and job_id="JStr ''task-1''"
        and subscription_key="JStr ''key-1''"
        and request_id="JNull"
        and cp="?c"
        and k="1"
        and ?w1.0="?w [Data job_reply, Data pending_reply, Data error_reply] [?status]"
        and wj="?w [Data pending_reply, Data error_reply] [?status, ?create]"
        and wp="?w [Data error_reply] [?status, ?create, ?poll, Sleep 5]"
        and w'="?w [] [?status, ?create, ?poll, Sleep 5, ?poll]",
        THEN conjunct2, THEN conjunct2, THEN conjunct2, THEN conjunct2, THEN conjunct2,
        THEN conjunct2, THEN conjunct2, THEN conjunct2, THEN conjunct2, THEN conjunct2,
        THEN conjunct2, THEN conjunct2, THEN conjunct2, THEN conjunct2, THEN conjunct2,
        THEN conjunct2, THEN conjunct2, THEN conjunct2, THEN conjunct2, THEN conjunct2,
        THEN conjunct2, THEN conjunct1]
      status3 enabled_example create3 job_ids_example one pending3 poll3
    by simp
  \<comment> \<open>the error answers the import\<close>
  have conn4: "blender_connection ?st4 = Some ?c"
    by (simp add: connected_def)
  have status4: "get_hyper3d_status ?L ?c (env ?st4)
      = (Inr (JObj ?on), ?c,
         ?w [Data job_reply, Data done_reply, Data error_reply] [?status])"
    using hyper3d_enabled_example [of 0 "[]"
        "[Data job_reply, Data done_reply, Data error_reply]" 1 "[]"]
    by (simp add: connected_def)
  have create4: "send_command ?L ''create_rodin_job'' ?params ?c
        (?w [Data job_reply, Data done_reply, Data error_reply] [?status])
      = (Inr ?job, ?c, ?w [Data done_reply, Data error_reply] [?status, ?create])"
    using create_rodin_job_example [of ?params 0 "[]" "[Data done_reply, Data error_reply]" 1
        "[?status]"]
    by simp
  have pending4: "pending_polls ?L 0 (JStr ''key-1'') JNull ?c
      (?w [Data done_reply, Data error_reply] [?status, ?create])
    = Some (?c, ?w [Data done_reply, Data error_reply] [?status, ?create])"
    by simp
  have poll4: "send_command ?L ''poll_rodin_job_status''
        (Some (poll_params (JStr ''key-1'') JNull)) ?c
        (?w [Data done_reply, Data error_reply] [?status, ?create])
      = (Inr (JObj [(''status_list'', JArr [JStr ''Done'', JStr ''Done''])]), ?c,
         ?w [Data error_reply] [?status, ?create, ?poll])"
    using poll_example [of done_reply "[(''status_list'', JArr [JStr ''Done'', JStr ''Done''])]"
        "JStr ''key-1''" JNull 0 "[]" "[Data error_reply]" 1 "[?status, ?create]"]
      loads_examples(8) replies_nonempty(8)
    by (simp add: done_doc_def)
  have complete4: "check_status (JObj [(''status_list'', JArr [JStr ''Done'', JStr ''Done''])])
      = Inr (Inr True)"
    by (rule check_status_all_done [of _ "[JStr ''Done'', JStr ''Done'']"]) simp_all
  have import4: "send_command ?L ''import_generated_asset''
        (Some (import_params (JStr ''chair'') (JStr ''task-1'') JNull)) ?c
        (?w [Data error_reply] [?status, ?create, ?poll])
      = (Inl ?E, ?c', ?w [] [?status, ?create, ?poll, ?import])"
    using send_command_error_example [of "''import_generated_asset''"
        "Some (import_params (JStr ''chair'') (JStr ''task-1'') JNull)" 0 "[]" "[]" 1
        "[?status, ?create, ?poll]"]
    by (simp add: import_bytes_def)
  have b22: "generate_3d_model_from_text ?L (JStr ''a chair'') (JStr ''chair'') JNull ?st4
      = (Inl ?E, \<lparr>blender_connection = Some ?c',
                   env = ?w [] [?status, ?create, ?poll, ?import]\<rparr>)"
    using error_status_leaves_the_tools [OF conn4, where L="?L"
        and e="?E"
        and c'="?c'"
        and ?c1.0="?c"
        and status="?on"
        and text_prompt="JStr ''a chair''"
        and model_name="JStr ''chair''"
        and bbox_condition="JNull"
        and job_result="?job"
        and cj="?c"
        and job_id="JStr ''task-1''"
        and subscription_key="JStr ''key-1''"
        and request_id="JNull"
        and cp="?c"
        and k="0"
        and ?w1.0="?w [Data job_reply, Data done_reply, Data error_reply] [?status]"
        and wj="?w [Data done_reply, Data error_reply] [?status, ?create]"
        and wp="?w [Data done_reply, Data error_reply] [?status, ?create]"
        and status_result="JObj [(''status_list'', JArr [JStr ''Done'', JStr ''Done''])]"
        and cq="?c"
        and wq="?w [Data error_reply] [?status, ?create, ?poll]"
        and w'="?w [] [?status, ?create, ?poll, ?import]",
        THEN conjunct2, THEN conjunct2, THEN conjunct2, THEN conjunct2, THEN conjunct2,
        THEN conjunct2, THEN conjunct2, THEN conjunct2, THEN conjunct2, THEN conjunct2,
        THEN conjunct2, THEN conjunct2, THEN conjunct2, THEN conjunct2, THEN conjunct2,
        THEN conjunct2, THEN conjunct2, THEN conjunct2, THEN conjunct2, THEN conjunct2,
        THEN conjunct2, THEN conjunct2]
      status4 enabled_example create4 job_ids_example zero pending4 poll4 complete4 import4
    by simp
  from t b1 b2 b3 b4 b5 b6 b7 b8 b9 b10 b11 b12 b13 b14 b15 b16 b17 b18 b19 b20 b21 b22
  show ?thesis
    by (simp add: connected_def)
qed

subsection \<open>The outcomes of the polling loop\<close>



subsection \<open>An empty status list\<close>

text \<open>
  C10. In \<^verbatim>\<open>generate_3d_model_from_text\<close>, a poll answer whose \<^verbatim>\<open>"status_list"\<close> is the empty
  list counts as completion: \<^verbatim>\<open>is_complete\<close> is set, the loop ends at that attempt,
  \<^verbatim>\<open>import_generated_asset\<close> is sent next, and the tool ends with what that command gives.
\<close>

theorem empty_status_list_completes:
  assumes "blender_connection st = Some c"
    and "get_hyper3d_status L c (env st) = (Inr (JObj status), c1, w1)"
    and "py_truthy (dict_get status ''enabled'' (JBool False))"
    and "send_command L ''create_rodin_job''
           (Some [(''text_prompt'', text_prompt), (''images'', JNull),
                  (''bbox_condition'', bbox_condition)]) c1 w1
         = (Inr job_result, c2, w2)"
    and "job_ids job_result = Inr (Inr (job_id, subscription_key, request_id))"
    and "k < max_attempts"
    and "pending_polls L k subscription_key request_id c2 w2 = Some (c3, w3)"
    and "send_command L ''poll_rodin_job_status''
           (Some (poll_params subscription_key request_id)) c3 w3 = (Inr (JObj kvs), c4, w4)"
    and "map_of kvs ''status_list'' = Some (JArr [])"
    and "send_command L ''import_generated_asset''
           (Some (import_params model_name job_id request_id)) c4 w4 = (r, c5, w5)"
  shows "check_status (JObj kvs) = Inr (Inr True)
     \<and> poll_loop L max_attempts subscription_key request_id c2 w2 = (PollEnd True, c4, w4)
     \<and> generate_3d_model_from_text L text_prompt model_name bbox_condition st
          = (and_then r (import_result_text model_name),
             \<lparr>blender_connection = Some c5, env = w5\<rparr>)
     \<and> trace w5 = trace w4 @ [SendAll (import_bytes model_name job_id request_id)]"
proof -
  have complete: "check_status (JObj kvs) = Inr (Inr True)"
    by (rule check_status_all_done [OF assms(9)]) simp
  have loop: "poll_loop L max_attempts subscription_key request_id c2 w2 = (PollEnd True, c4, w4)"
    by (rule poll_loop_completes [OF assms(6-8) complete])
  have "poll_and_import L model_name job_id subscription_key request_id c2 w2
      = (and_then r (import_result_text model_name), c5, w5)"
    using poll_then_import(1) [OF assms(6-8) complete, of model_name job_id] assms(10)
    by (simp add: then_format_def)
  then have tool: "generate_3d_model_from_text L text_prompt model_name bbox_condition st
      = (and_then r (import_result_text model_name), \<lparr>blender_connection = Some c5, env = w5\<rparr>)"
    by (rule generate_reaches_polling [OF assms(1-5)])
  have sent: "trace w5 = trace w4 @ [SendAll (import_bytes model_name job_id request_id)]"
    by (rule import_follows_poll [OF assms(8,10)])
  from complete loop tool sent show ?thesis
    by blast
qed

theorem empty_status_list_completes_witness:
  "generate_3d_model_from_text (loads_table example_docs) (JStr ''a chair'') (JStr ''chair'') JNull
      (connected [Data hyper3d_on_reply, Data job_reply, Data pending_reply, Data empty_reply,
                  Data import_reply])
    = (Inr (JStr (''Successfully generated and imported 3D model '' @ sq @ ''chair'' @ sq
             @ '' based on the text prompt.'')),
       \<lparr>blender_connection = Some (localhost\<lparr>socket := Some 0\<rparr>),
        env = \<lparr>connect_script = [], send_script = [], recv_script = [], sockets_made = 1,
               trace = [SendAll (dumps (command_doc ''get_hyper3d_status'' None)),
                        SendAll (dumps (command_doc ''create_rodin_job''
                          (Some [(''text_prompt'', JStr ''a chair''), (''images'', JNull),
                                 (''bbox_condition'', JNull)]))),
                        SendAll (poll_bytes (JStr ''key-1'') JNull), Sleep 5,
                        SendAll (poll_bytes (JStr ''key-1'') JNull),
                        SendAll (import_bytes (JStr ''chair'') (JStr ''task-1'') JNull)]\<rparr>\<rparr>)
   \<and> check_status (JObj [(''status_list'', JArr [])]) = Inr (Inr True)"
proof -
  let ?L = "loads_table example_docs"
  let ?c = "localhost\<lparr>socket := Some 0\<rparr>"
  let ?params = "Some [(''text_prompt'', JStr ''a chair''), (''images'', JNull),
      (''bbox_condition'', JNull)]"
  let ?status = "SendAll (dumps (command_doc ''get_hyper3d_status'' None))"
  let ?create = "SendAll (dumps (command_doc ''create_rodin_job'' ?params))"
  let ?poll = "SendAll (poll_bytes (JStr ''key-1'') JNull)"
  let ?import = "SendAll (import_bytes (JStr ''chair'') (JStr ''task-1'') JNull)"
  let ?on = "[(''enabled'', JBool True), (''message'', JStr ''Hyper3D is enabled'')]"
  let ?job = "JObj [(''uuid'', JStr ''task-1''),
      (''jobs'', JObj [(''subscription_key'', JStr ''key-1'')])]"
  let ?w = "\<lambda>answers events.
      \<lparr>connect_script = [], send_script = [], recv_script = answers, sockets_made = 1,
       trace = events\<rparr>"
  let ?st = "connected [Data hyper3d_on_reply, Data job_reply, Data pending_reply,
      Data empty_reply, Data import_reply]"
  have conn: "blender_connection ?st = Some ?c"
    by (simp add: connected_def)
  have status: "get_hyper3d_status ?L ?c (env ?st)
      = (Inr (JObj ?on), ?c,
         ?w [Data job_reply, Data pending_reply, Data empty_reply, Data import_reply] [?status])"
    using hyper3d_enabled_example [of 0 "[]"
        "[Data job_reply, Data pending_reply, Data empty_reply, Data import_reply]" 1 "[]"]
    by (simp add: connected_def)
  have create: "send_command ?L ''create_rodin_job'' ?params ?c
        (?w [Data job_reply, Data pending_reply, Data empty_reply, Data import_reply] [?status])
      = (Inr ?job, ?c,
         ?w [Data pending_reply, Data empty_reply, Data import_reply] [?status, ?create])"
    using create_rodin_job_example [of ?params 0 "[]"
        "[Data pending_reply, Data empty_reply, Data import_reply]" 1 "[?status]"]
    by simp
  have one: "1 < max_attempts"
    by (simp add: max_attempts_def)
  have pending1: "pending_polls ?L 1 (JStr ''key-1'') JNull ?c
      (?w [Data pending_reply, Data empty_reply, Data import_reply] [?status, ?create])
    = Some (?c, ?w [Data empty_reply, Data import_reply] [?status, ?create, ?poll, Sleep 5])"
    using pending_example [of 1 "JStr ''key-1''" JNull 0 "[]"
        "[Data empty_reply, Data import_reply]" 1 "[?status, ?create]"]
    by simp
  have poll2: "send_command ?L ''poll_rodin_job_status''
        (Some (poll_params (JStr ''key-1'') JNull)) ?c
        (?w [Data empty_reply, Data import_reply] [?status, ?create, ?poll, Sleep 5])
    = (Inr (JObj [(''status_list'', JArr [])]), ?c,
       ?w [Data import_reply] [?status, ?create, ?poll, Sleep 5, ?poll])"
    using poll_example [of empty_reply "[(''status_list'', JArr [])]"
        "JStr ''key-1''" JNull 0 "[]" "[Data import_reply]" 1
        "[?status, ?create, ?poll, Sleep 5]"]
      loads_examples(10) replies_nonempty(10)
    by (simp add: empty_doc_def)
  have list2: "map_of [(''status_list'', JArr [])] ''status_list'' = Some (JArr [])"
    by simp
  have import3: "send_command ?L ''import_generated_asset''
        (Some (import_params (JStr ''chair'') (JStr ''task-1'') JNull)) ?c
        (?w [Data import_reply] [?status, ?create, ?poll, Sleep 5, ?poll])
    = (Inr (JObj [(''succeed'', JBool True)]), ?c,
       ?w [] [?status, ?create, ?poll, Sleep 5, ?poll, ?import])"
    using import_example [of "JStr ''chair''" "JStr ''task-1''" JNull 0 "[]" "[]" 1
        "[?status, ?create, ?poll, Sleep 5, ?poll]"]
    by simp
  show ?thesis
    using empty_status_list_completes [OF conn status enabled_example create job_ids_example
        one pending1 poll2 list2 import3]
    by (simp add: import_text_example)
qed

end
